theory Spec2Isabelle
  imports Complex_Main "HOL-Library.Word"
begin

section \<open>JavaScript strings\<close>

text \<open>
  Strings are lists of code units. The source only ever compares case-mapped strings with
  ASCII literals, or case-maps a string that an ASCII-only regular expression has accepted,
  so the case mappings below act on the ASCII letters and leave every other unit alone.
\<close>

definition js_is_space :: "char \<Rightarrow> bool" where
  "js_is_space c = (c \<in> {CHR 0x09, CHR 0x0A, CHR 0x0B, CHR 0x0C, CHR 0x0D, CHR 0x20, CHR 0xA0})"

definition js_trim :: "string \<Rightarrow> string" where
  "js_trim s = rev (dropWhile js_is_space (rev (dropWhile js_is_space s)))"

definition is_upper_az :: "char \<Rightarrow> bool" where
  "is_upper_az c = (65 \<le> (of_char c :: nat) \<and> (of_char c :: nat) \<le> 90)"

definition is_lower_az :: "char \<Rightarrow> bool" where
  "is_lower_az c = (97 \<le> (of_char c :: nat) \<and> (of_char c :: nat) \<le> 122)"

definition is_digit :: "char \<Rightarrow> bool" where
  "is_digit c = (48 \<le> (of_char c :: nat) \<and> (of_char c :: nat) \<le> 57)"

definition lower_char :: "char \<Rightarrow> char" where
  "lower_char c = (if is_upper_az c then char_of ((of_char c :: nat) + 32) else c)"

definition upper_char :: "char \<Rightarrow> char" where
  "upper_char c = (if is_lower_az c then char_of ((of_char c :: nat) - 32) else c)"

definition toLowerCase :: "string \<Rightarrow> string" where
  "toLowerCase s = map lower_char s"

definition toUpperCase :: "string \<Rightarrow> string" where
  "toUpperCase s = map upper_char s"

text \<open>A string is truthy in JavaScript when it is not empty; \<open>undefined\<close> is falsy.\<close>

definition truthy :: "string option \<Rightarrow> bool" where
  "truthy v = (case v of None \<Rightarrow> False | Some s \<Rightarrow> s \<noteq> [])"

text \<open>\<open>a || b\<close> on optional strings.\<close>

definition js_or :: "string option \<Rightarrow> string option \<Rightarrow> string option" where
  "js_or a b = (if truthy a then a else b)"

section \<open>The project record (schemas/game-project.schema)\<close>

datatype ProjectStatus = queued | running | ready | failed

record buildTimings =
  startedAt :: "nat option"
  finishedAt :: "nat option"
  durationMs :: "int option"
  steps :: "(string \<times> nat) list option"

datatype http_error = NotFoundException string | ForbiddenException | BadRequestException string

text \<open>
  A value of a request body or of the stored configuration bag, as \<open>typeof\<close> and
  \<open>Array.isArray\<close> see it. Array elements are the \<open>string[]\<close> the DTO declares,
  \<open>None\<close> standing for a \<open>null\<close> or \<open>undefined\<close> element; \<open>JObj\<close> is any other object.
\<close>

datatype jsval = JUndefined | JNull | JNum real | JStr string | JBool bool
  | JArr "string option list" | JObj

record unityConfig =
  timeScale :: jsval
  difficulty :: jsval
  theme :: jsval
  notes' :: jsval
  speed :: jsval
  genre :: jsval
  assetsType :: jsval
  mechanics :: jsval
  primaryColor :: jsval
  secondaryColor :: jsval
  accentColor :: jsval
  playerColor :: jsval
  fogEnabled :: jsval
  fogDensity :: jsval
  cameraZoom :: jsval
  gravityY :: jsval
  jumpForce :: jsval

text \<open>The document's \<open>_id\<close> is the key under which the store holds it.\<close>

record GameProject =
  ownerId :: string
  templateId :: string
  name :: string
  description :: string
  status :: ProjectStatus
  buildTarget :: string
  assetsCollectionId :: "string option"
  resultStorageKey :: "string option"
  webglZipStorageKey :: "string option"
  androidApkStorageKey :: "string option"
  webglIndexStorageKey :: "string option"
  error :: "string option"
  buildLogLastLine :: "string option"
  previewImageUrl :: "string option"
  screenshotUrls :: "string list"
  previewVideoUrl :: "string option"
  aiUnityConfig :: "unityConfig option"
  buildTimings :: "buildTimings option"

text \<open>
  The extracted tree. A directory is given by the entries \<open>readdir\<close> lists for it, in the
  order it lists them. The tree is the one the service has just extracted itself, so every
  directory of it can be listed and the \<open>catch\<close> around \<open>readdir\<close> has no case here. A
  directory is named by its path below the extraction directory (\<open>[]\<close> is that directory).
\<close>

datatype fsnode = File string | Dir string "fsnode list"

fun entryName :: "fsnode \<Rightarrow> string" where
  "entryName (File n) = n"
| "entryName (Dir n es) = n"

text \<open>The fields of a template document that the project service reads.\<close>

record UnityTemplate =
  tpl_name :: string
  isPublic :: bool
  storageKey :: string

text \<open>
  The service's state: the project and template collections, the stored template archives
  by storage key, the Library cache by cache key, the map from project id to the live child
  process of its build, the \<open>SIGKILL\<close>s sent so far, and the builds started in the
  background (\<open>this.runBuild(id).catch(() => null)\<close>, not awaited). The document store is
  taken to be reliable: \<open>findById\<close> and \<open>save\<close> do not throw.
\<close>

type_synonym ChildProcess = nat

record service =
  projects :: "string \<rightharpoonup> GameProject"
  templates :: "string \<rightharpoonup> UnityTemplate"
  templateFiles :: "string \<rightharpoonup> 8 word list"
  libraryCache :: "string \<rightharpoonup> fsnode list"
  activeBuildProcesses :: "string \<rightharpoonup> ChildProcess"
  killed :: "ChildProcess list"
  scheduled :: "string list"

section \<open>ProjectsService.getDownloadUrl\<close>

text \<open>\<open>baseUrl.replace(/\\/$/, '')\<close>: one trailing slash is dropped.\<close>

definition dropTrailingSlash :: "string \<Rightarrow> string" where
  "dropTrailingSlash s = (if s \<noteq> [] \<and> last s = CHR ''/'' then butlast s else s)"

definition hexDigit :: "nat \<Rightarrow> char" where
  "hexDigit d = ''0123456789ABCDEF'' ! (d mod 16)"

definition percentByte :: "nat \<Rightarrow> string" where
  "percentByte n = [CHR ''%'', hexDigit (n div 16), hexDigit n]"

definition uriUnreserved :: "char \<Rightarrow> bool" where
  "uriUnreserved c = (is_upper_az c \<or> is_lower_az c \<or> is_digit c \<or> c \<in> set ''-_.!~*'' \<or>
     c \<in> {CHR 0x27, CHR ''('', CHR '')''})"

text \<open>
  \<open>encodeURIComponent\<close> on code units below 256: an unreserved character stays, any
  other unit is written as the percent-escaped bytes of its UTF-8 encoding.
\<close>

definition encodeUnit :: "char \<Rightarrow> string" where
  "encodeUnit c = (let n = (of_char c :: nat) in
     if uriUnreserved c then [c]
     else if n < 128 then percentByte n
     else percentByte (192 + n div 64) @ percentByte (128 + n mod 64))"

definition encodeURIComponent :: "string \<Rightarrow> string" where
  "encodeURIComponent s = concat (map encodeUnit s)"

definition fileUrl :: "string \<Rightarrow> string \<Rightarrow> string" where
  "fileUrl baseUrl key = dropTrailingSlash baseUrl @ ''/api/projects/files/'' @ encodeURIComponent key"

definition desiredKey :: "GameProject \<Rightarrow> string \<Rightarrow> string option" where
  "desiredKey p t =
     (if t = ''android_apk'' \<or> t = ''android'' then js_or (androidApkStorageKey p) (resultStorageKey p)
      else if t = ''webgl'' then js_or (webglZipStorageKey p) (resultStorageKey p)
      else resultStorageKey p)"

definition getDownloadUrl ::
  "service \<Rightarrow> string \<Rightarrow> string \<Rightarrow> string \<Rightarrow> string option \<Rightarrow> http_error + string" where
  "getDownloadUrl s owner pid baseUrl target =
     (case projects s pid of
        None \<Rightarrow> Inl (NotFoundException ''Project not found'')
      | Some p \<Rightarrow>
          if ownerId p \<noteq> owner then Inl ForbiddenException
          else if status p \<noteq> ready then Inl (BadRequestException ''Project not ready'')
          else
            (case desiredKey p (toLowerCase (js_trim (case target of None \<Rightarrow> [] | Some t \<Rightarrow> t))) of
               None \<Rightarrow> Inl (BadRequestException ''Artifact not available'')
             | Some k \<Rightarrow>
                 if k = [] then Inl (BadRequestException ''Artifact not available'')
                 else Inr (fileUrl baseUrl k)))"

section \<open>ProjectsService.cancelBuild\<close>

definition cancelledTimings :: "buildTimings option \<Rightarrow> nat \<Rightarrow> buildTimings" where
  "cancelledTimings bt now =
     (case bt of
        None \<Rightarrow> \<lparr>startedAt = None, finishedAt = Some now, durationMs = None, steps = None\<rparr>
      | Some t \<Rightarrow> t\<lparr>finishedAt := Some now\<rparr>)"

definition cancelBuild ::
  "service \<Rightarrow> string \<Rightarrow> string \<Rightarrow> nat \<Rightarrow> (http_error + string \<times> ProjectStatus) \<times> service" where
  "cancelBuild s owner pid now =
     (case projects s pid of
        None \<Rightarrow> (Inl (NotFoundException ''Project not found''), s)
      | Some project \<Rightarrow>
          if ownerId project \<noteq> owner then (Inl ForbiddenException, s)
          else if status project \<notin> {queued, running} then (Inr (pid, status project), s)
          else
            (let project' = project\<lparr>status := failed, error := Some ''Cancelled by user'',
                   buildTimings := Some (cancelledTimings (buildTimings project) now)\<rparr>;
                 s' = s\<lparr>projects := (projects s)(pid \<mapsto> project')\<rparr>;
                 s'' = (case activeBuildProcesses s' pid of
                          None \<Rightarrow> s'
                        | Some child \<Rightarrow> s'\<lparr>killed := killed s' @ [child]\<rparr>)
             in (Inr (pid, status project'), s'')))"

section \<open>ProjectsService.rebuild\<close>

definition isAndroidApk :: "string \<Rightarrow> bool" where
  "isAndroidApk bt =
     (let target = toLowerCase (js_trim (if bt = [] then ''webgl'' else bt))
      in target = ''android_apk'' \<or> target = ''android'')"

definition rebuild :: "service \<Rightarrow> string \<Rightarrow> string \<Rightarrow> (http_error + string) \<times> service" where
  "rebuild s owner pid =
     (case projects s pid of
        None \<Rightarrow> (Inl (NotFoundException ''Project not found''), s)
      | Some project \<Rightarrow>
          if ownerId project \<noteq> owner then (Inl ForbiddenException, s)
          else
            (let p1 = project\<lparr>status := queued, error := None\<rparr>;
                 p2 = (if isAndroidApk (buildTarget p1)
                       then p1\<lparr>resultStorageKey := None, androidApkStorageKey := None\<rparr>
                       else p1\<lparr>resultStorageKey := None, webglIndexStorageKey := None,
                              webglZipStorageKey := None\<rparr>);
                 p3 = p2\<lparr>buildTimings := None\<rparr>
             in (Inr pid, s\<lparr>projects := (projects s)(pid \<mapsto> p3), scheduled := scheduled s @ [pid]\<rparr>)))"

text \<open>
  The vocabulary of the download-URL claim: the requested target as the code normalises it,
  and the artifact key that is specific to that target (none for any other target).
\<close>

definition normTarget :: "string option \<Rightarrow> string" where
  "normTarget target = toLowerCase (js_trim (case target of None \<Rightarrow> [] | Some t \<Rightarrow> t))"

definition specificKey :: "GameProject \<Rightarrow> string \<Rightarrow> string option" where
  "specificKey p t =
     (if t = ''android_apk'' \<or> t = ''android'' then androidApkStorageKey p
      else if t = ''webgl'' then webglZipStorageKey p
      else None)"

section \<open>Sample data\<close>

definition sampleProject :: GameProject where
  "sampleProject = \<lparr>ownerId = ''u1'', templateId = ''t1'', name = ''Game'', description = [],
     status = ready, buildTarget = ''webgl'', assetsCollectionId = None,
     resultStorageKey = Some ''p1.zip'', webglZipStorageKey = Some ''p1.zip'',
     androidApkStorageKey = None, webglIndexStorageKey = Some ''p1/webgl/index.html'',
     error = None, buildLogLastLine = None, previewImageUrl = None, screenshotUrls = [],
     previewVideoUrl = None, aiUnityConfig = None, buildTimings = None\<rparr>"

definition sampleService :: "GameProject \<Rightarrow> service" where
  "sampleService p = \<lparr>projects = [''p1'' \<mapsto> p],
     templates = [''t1'' \<mapsto> \<lparr>tpl_name = ''Runner'', isPublic = True, storageKey = ''t1.zip''\<rparr>],
     templateFiles = [''t1.zip'' \<mapsto> [0x50, 0x4B, 0x03, 0x04]], libraryCache = Map.empty,
     activeBuildProcesses = [''p1'' \<mapsto> 7],
     killed = [], scheduled = []\<rparr>"

section \<open>Configuration overrides: ProjectsService.update and createFromAi\<close>

definition typeofNumber :: "jsval \<Rightarrow> bool" where
  "typeofNumber v = (case v of JNum _ \<Rightarrow> True | _ \<Rightarrow> False)"

definition typeofString :: "jsval \<Rightarrow> bool" where
  "typeofString v = (case v of JStr _ \<Rightarrow> True | _ \<Rightarrow> False)"

definition typeofBoolean :: "jsval \<Rightarrow> bool" where
  "typeofBoolean v = (case v of JBool _ \<Rightarrow> True | _ \<Rightarrow> False)"

definition isArray :: "jsval \<Rightarrow> bool" where
  "isArray v = (case v of JArr _ \<Rightarrow> True | _ \<Rightarrow> False)"

definition is_hex_digit :: "char \<Rightarrow> bool" where
  "is_hex_digit c = (c \<in> set ''0123456789abcdefABCDEF'')"

text \<open>\<open>/^#[0-9a-fA-F]{6}$/.test(s)\<close>; without the \<open>m\<close> flag \<open>$\<close> is the end of the input.\<close>

definition hexColorRegex :: "string \<Rightarrow> bool" where
  "hexColorRegex s = (case s of [] \<Rightarrow> False | c # r \<Rightarrow> c = CHR ''#'' \<and> length r = 6 \<and> list_all is_hex_digit r)"

definition normHex :: "jsval \<Rightarrow> string option" where
  "normHex v =
     (case v of
        JStr str \<Rightarrow>
          (let s = js_trim str in
           if s = [] then None
           else
             (let s' = (if \<not> (hd s = CHR ''#'') \<and> length s = 6 then CHR ''#'' # s else s)
              in if \<not> hexColorRegex s' then None else Some (toUpperCase s')))
      | _ \<Rightarrow> None)"

definition trimStr :: "jsval \<Rightarrow> jsval" where
  "trimStr v = (case v of JStr s \<Rightarrow> JStr (js_trim s) | _ \<Rightarrow> v)"

text \<open>
  \<open>mechanics.map((m) => (m == null ? '' : String(m)).trim()).filter((m) => m.length > 0).slice(0, 12)\<close>
\<close>

definition cleanMechanics :: "string option list \<Rightarrow> string option list" where
  "cleanMechanics ms =
     map Some (take 12 (filter (\<lambda>m. length m > 0)
       (map (\<lambda>m. js_trim (case m of None \<Rightarrow> [] | Some x \<Rightarrow> x)) ms)))"

definition emptyConfig :: unityConfig where
  "emptyConfig = \<lparr>timeScale = JUndefined, difficulty = JUndefined, theme = JUndefined,
     notes' = JUndefined, speed = JUndefined, genre = JUndefined, assetsType = JUndefined,
     mechanics = JUndefined, primaryColor = JUndefined, secondaryColor = JUndefined,
     accentColor = JUndefined, playerColor = JUndefined, fogEnabled = JUndefined,
     fogDensity = JUndefined, cameraZoom = JUndefined, gravityY = JUndefined,
     jumpForce = JUndefined\<rparr>"

text \<open>The request body of \<open>PUT projects/:id\<close>: the configuration keys and three more.\<close>

record UpdateProjectDto = unityConfig +
  dto_buildTarget :: jsval
  dto_name :: jsval
  dto_description :: jsval

definition hasAiUpdate :: "'a unityConfig_scheme \<Rightarrow> bool" where
  "hasAiUpdate d =
     (typeofNumber (timeScale d) \<or> typeofNumber (difficulty d) \<or> typeofString (theme d) \<or>
      typeofString (notes' d) \<or> typeofNumber (speed d) \<or> typeofString (genre d) \<or>
      typeofString (assetsType d) \<or> isArray (mechanics d) \<or> typeofString (primaryColor d) \<or>
      typeofString (secondaryColor d) \<or> typeofString (accentColor d) \<or>
      typeofBoolean (fogEnabled d) \<or> typeofNumber (fogDensity d) \<or>
      typeofNumber (cameraZoom d) \<or> typeofNumber (gravityY d) \<or> typeofNumber (jumpForce d))"

text \<open>The body of \<open>if (hasAiUpdate) { ... }\<close>: the new value of \<open>cur\<close>.\<close>

definition mergeAiUpdate :: "unityConfig \<Rightarrow> 'a unityConfig_scheme \<Rightarrow> unityConfig" where
  "mergeAiUpdate cur d =
     \<lparr>timeScale = (if typeofNumber (timeScale d) then timeScale d else timeScale cur),
      difficulty = (if typeofNumber (difficulty d) then difficulty d else difficulty cur),
      theme = (if typeofString (theme d) then trimStr (theme d) else theme cur),
      notes' = (if typeofString (notes' d) then trimStr (notes' d) else notes' cur),
      speed = (if typeofNumber (speed d) then speed d else speed cur),
      genre = (if typeofString (genre d) then trimStr (genre d) else genre cur),
      assetsType = (if typeofString (assetsType d) then trimStr (assetsType d) else assetsType cur),
      mechanics = (case mechanics d of JArr ms \<Rightarrow> JArr (cleanMechanics ms) | _ \<Rightarrow> mechanics cur),
      primaryColor = (case normHex (primaryColor d) of Some pc \<Rightarrow> JStr pc | None \<Rightarrow> primaryColor cur),
      secondaryColor = (case normHex (secondaryColor d) of Some sc \<Rightarrow> JStr sc | None \<Rightarrow> secondaryColor cur),
      accentColor = (case normHex (accentColor d) of Some ac \<Rightarrow> JStr ac | None \<Rightarrow> accentColor cur),
      playerColor = (case normHex (playerColor d) of Some plc \<Rightarrow> JStr plc | None \<Rightarrow> playerColor cur),
      fogEnabled = (if typeofBoolean (fogEnabled d) then fogEnabled d else fogEnabled cur),
      fogDensity = (if typeofNumber (fogDensity d) then fogDensity d else fogDensity cur),
      cameraZoom = (if typeofNumber (cameraZoom d) then cameraZoom d else cameraZoom cur),
      gravityY = (if typeofNumber (gravityY d) then gravityY d else gravityY cur),
      jumpForce = (if typeofNumber (jumpForce d) then jumpForce d else jumpForce cur)\<rparr>"

definition updateBuildTarget :: "jsval \<Rightarrow> GameProject \<Rightarrow> GameProject" where
  "updateBuildTarget v project =
     (case v of
        JStr str \<Rightarrow>
          (let bt = toLowerCase (js_trim str) in
           if bt = ''webgl'' \<or> bt = ''android_apk'' \<or> bt = ''android''
           then project\<lparr>buildTarget := (if bt = ''android'' then ''android_apk'' else bt)\<rparr>
           else project)
      | _ \<Rightarrow> project)"

definition update ::
  "service \<Rightarrow> string \<Rightarrow> string \<Rightarrow> UpdateProjectDto \<Rightarrow> (http_error + GameProject) \<times> service" where
  "update s owner pid dto =
     (case projects s pid of
        None \<Rightarrow> (Inl (NotFoundException ''Project not found''), s)
      | Some project \<Rightarrow>
          if ownerId project \<noteq> owner then (Inl ForbiddenException, s)
          else
            (let p1 = updateBuildTarget (dto_buildTarget dto) project in
             if (case dto_name dto of JStr n \<Rightarrow> js_trim n = [] | _ \<Rightarrow> False)
             then (Inl (BadRequestException ''Name is required''), s)
             else
               (let p2 = (case dto_name dto of JStr n \<Rightarrow> p1\<lparr>name := js_trim n\<rparr> | _ \<Rightarrow> p1);
                    p3 = (case dto_description dto of
                            JStr d \<Rightarrow> p2\<lparr>description := js_trim d\<rparr> | _ \<Rightarrow> p2);
                    p4 = (if hasAiUpdate dto
                          then p3\<lparr>aiUnityConfig := Some (mergeAiUpdate
                                 (case aiUnityConfig p3 of Some c \<Rightarrow> c | None \<Rightarrow> emptyConfig) dto)\<rparr>
                          else p3)
                in (Inr p4, s\<lparr>projects := (projects s)(pid \<mapsto> p4)\<rparr>))))"

text \<open>
  \<open>createFromAi\<close>. The two calls to the AI service either return data or throw; a thrown
  error carries a status code and a message, and \<open>isQuotaExceeded\<close> lets the function go on
  with empty data. Of the project draft only the name and the description are kept here.
\<close>

record ai_exception =
  statusCode :: "nat option"
  message :: string

fun js_includes :: "string \<Rightarrow> string \<Rightarrow> bool" where
  "js_includes [] needle = (needle = [])"
| "js_includes (c # cs) needle = (take (length needle) (c # cs) = needle \<or> js_includes cs needle)"

definition isQuotaExceeded :: "ai_exception \<Rightarrow> bool" where
  "isQuotaExceeded e = (statusCode e = Some 429 \<and> js_includes (toLowerCase (message e)) ''quota'')"

record aiDraft =
  draft_name :: jsval
  draft_description :: jsval

definition pickNumber :: "jsval \<Rightarrow> jsval \<Rightarrow> jsval \<Rightarrow> jsval" where
  "pickNumber a b d = (if typeofNumber a then a else if typeofNumber b then b else d)"

definition pickString :: "jsval \<Rightarrow> jsval \<Rightarrow> jsval \<Rightarrow> jsval" where
  "pickString a b d = (if typeofString a then a else if typeofString b then b else d)"

definition pickBoolean :: "jsval \<Rightarrow> jsval \<Rightarrow> jsval \<Rightarrow> jsval" where
  "pickBoolean a b d = (if typeofBoolean a then a else if typeofBoolean b then b else d)"

definition pickArray :: "jsval \<Rightarrow> jsval \<Rightarrow> jsval \<Rightarrow> jsval" where
  "pickArray a b d = (if isArray a then a else if isArray b then b else d)"

definition mergedCfg :: "unityConfig \<Rightarrow> unityConfig \<Rightarrow> unityConfig" where
  "mergedCfg init unityCfg =
     \<lparr>timeScale = pickNumber (timeScale init) (timeScale unityCfg) (JNum 1.0),
      difficulty = pickNumber (difficulty init) (difficulty unityCfg) (JNum 0.5),
      theme = pickString (theme init) (theme unityCfg) (JStr ''default''),
      notes' = pickString (notes' init) (notes' unityCfg) (JStr []),
      speed = pickNumber (speed init) (speed unityCfg) (JNum 5.0),
      genre = pickString (genre init) (genre unityCfg) (JStr ''platformer''),
      assetsType = pickString (assetsType init) (assetsType unityCfg) (JStr ''lowpoly''),
      mechanics = pickArray (mechanics init) (mechanics unityCfg) JUndefined,
      primaryColor = pickString (primaryColor init) (primaryColor unityCfg) (JStr ''#22C55E''),
      secondaryColor = pickString (secondaryColor init) (secondaryColor unityCfg) (JStr ''#3B82F6''),
      accentColor = pickString (accentColor init) (accentColor unityCfg) (JStr ''#F59E0B''),
      playerColor = pickString (playerColor init) (playerColor unityCfg) JUndefined,
      fogEnabled = pickBoolean (fogEnabled init) (fogEnabled unityCfg) JUndefined,
      fogDensity = pickNumber (fogDensity init) (fogDensity unityCfg) JUndefined,
      cameraZoom = pickNumber (cameraZoom init) (cameraZoom unityCfg) JUndefined,
      gravityY = pickNumber (gravityY init) (gravityY unityCfg) JUndefined,
      jumpForce = pickNumber (jumpForce init) (jumpForce unityCfg) JUndefined\<rparr>"

record createFromAi_params =
  cp_ownerId :: string
  cp_prompt :: string
  cp_templateId :: "string option"
  cp_buildTarget :: "string option"
  cp_initialConfig :: "unityConfig option"

text \<open>
  What \<open>createFromAi\<close> receives from outside the service: the outcome of the two AI calls,
  the most downloaded public template (\<open>findOne({ isPublic: true }).sort({ downloads: -1 })\<close>)
  and the id the store gives the new document.
\<close>

record createFromAi_env =
  ce_projectDraft :: "ai_exception + aiDraft option"
  ce_unityConfig :: "ai_exception + unityConfig option"
  ce_chosenTemplate :: "string option"
  ce_newId :: string

definition orEmpty :: "string option \<Rightarrow> string" where
  "orEmpty v = (case v of None \<Rightarrow> [] | Some s \<Rightarrow> s)"

definition createFromAi ::
  "service \<Rightarrow> createFromAi_env \<Rightarrow> createFromAi_params \<Rightarrow> (ai_exception + http_error + string) \<times> service" where
  "createFromAi s env params =
     (let prompt = js_trim (cp_prompt params) in
      if prompt = [] then (Inr (Inl (BadRequestException ''Prompt is required'')), s)
      else
        (case (case ce_projectDraft env of
                 Inl e \<Rightarrow> if \<not> isQuotaExceeded e then Inl e else Inr None
               | Inr d \<Rightarrow> Inr d) of
           Inl e \<Rightarrow> (Inl e, s)
         | Inr aiData \<Rightarrow>
             (let name' = (case map_option draft_name aiData of
                             Some (JStr n) \<Rightarrow> if length (js_trim n) > 0 then js_trim n else ''AI Game''
                           | _ \<Rightarrow> ''AI Game'');
                  description' = (case map_option draft_description aiData of
                                    Some (JStr d) \<Rightarrow> js_trim d
                                  | _ \<Rightarrow> prompt)
              in
                (case (let t = js_trim (orEmpty (cp_templateId params)) in
                       if t = [] then ce_chosenTemplate env else Some t) of
                   None \<Rightarrow> (Inr (Inl (NotFoundException ''No public templates available'')), s)
                 | Some templateId' \<Rightarrow>
                     (case (case ce_unityConfig env of
                              Inl e \<Rightarrow> if \<not> isQuotaExceeded e then Inl e else Inr None
                            | Inr c \<Rightarrow> Inr c) of
                        Inl e \<Rightarrow> (Inl e, s)
                      | Inr unityCfg \<Rightarrow>
                          (let init = (case cp_initialConfig params of Some i \<Rightarrow> i | None \<Rightarrow> emptyConfig);
                               merged = mergedCfg init (case unityCfg of Some c \<Rightarrow> c | None \<Rightarrow> emptyConfig);
                               bt = js_trim (orEmpty (cp_buildTarget params));
                               created = \<lparr>ownerId = cp_ownerId params, templateId = templateId',
                                  name = name', description = description', status = queued,
                                  buildTarget = (if bt = [] then ''webgl'' else bt),
                                  assetsCollectionId = None, resultStorageKey = None,
                                  webglZipStorageKey = None, androidApkStorageKey = None,
                                  webglIndexStorageKey = None, error = None, buildLogLastLine = None,
                                  previewImageUrl = None, screenshotUrls = [], previewVideoUrl = None,
                                  aiUnityConfig = Some merged, buildTimings = None\<rparr>
                           in (Inr (Inr (ce_newId env)),
                               s\<lparr>projects := (projects s)(ce_newId env \<mapsto> created),
                                  scheduled := scheduled s @ [ce_newId env]\<rparr>)))))))"

text \<open>
  The numeric validators of the request DTOs (\<open>UpdateProjectDto\<close>, \<open>CreateProjectAiDto\<close>):
  \<open>@IsOptional() @IsNumber() @Min(lo) @Max(hi)\<close> accepts a missing value or a number in
  the range, and the global \<open>ValidationPipe\<close> rejects the request otherwise.
\<close>

definition dtoNumber :: "real \<Rightarrow> real \<Rightarrow> jsval \<Rightarrow> bool" where
  "dtoNumber lo hi v =
     (case v of JUndefined \<Rightarrow> True | JNull \<Rightarrow> True | JNum r \<Rightarrow> lo \<le> r \<and> r \<le> hi | _ \<Rightarrow> False)"

text \<open>The numeric keys with the range their validators give, and the colour keys.\<close>

definition numRanges :: "((unityConfig \<Rightarrow> jsval) \<times> real \<times> real) list" where
  "numRanges = [(timeScale, 0.5, 2.0), (difficulty, 0, 1), (speed, 0, 20), (fogDensity, 0, 0.1),
     (cameraZoom, 1, 30), (gravityY, -50, 0), (jumpForce, 0, 50)]"

definition colorFields :: "(unityConfig \<Rightarrow> jsval) list" where
  "colorFields = [primaryColor, secondaryColor, accentColor, playerColor]"

definition dtoNumbersValid :: "unityConfig \<Rightarrow> bool" where
  "dtoNumbersValid d = list_all (\<lambda>(f, lo, hi). dtoNumber lo hi (f d)) numRanges"

definition storedConfig :: "GameProject \<Rightarrow> unityConfig" where
  "storedConfig p = (case aiUnityConfig p of Some c \<Rightarrow> c | None \<Rightarrow> emptyConfig)"

text \<open>A valid \<open>#RRGGBB\<close> value in upper case.\<close>

definition is_upper_hex :: "char \<Rightarrow> bool" where
  "is_upper_hex c = (c \<in> set ''0123456789ABCDEF'')"

definition validHexUpper :: "string \<Rightarrow> bool" where
  "validHexUpper s =
     (case s of [] \<Rightarrow> False | c # r \<Rightarrow> c = CHR ''#'' \<and> length r = 6 \<and> list_all is_upper_hex r)"

text \<open>A request body for \<open>update\<close> and the inputs of a \<open>createFromAi\<close> call.\<close>

definition sampleDto :: UpdateProjectDto where
  "sampleDto = unityConfig.extend (emptyConfig\<lparr>timeScale := JNum 1.5, primaryColor := JStr '' 22c55e'',
      accentColor := JStr ''#abc''\<rparr>)
     (UpdateProjectDto.fields JUndefined JUndefined JUndefined)"

definition sampleParams :: createFromAi_params where
  "sampleParams = \<lparr>cp_ownerId = ''u1'', cp_prompt = ''a racing game'', cp_templateId = None,
     cp_buildTarget = None,
     cp_initialConfig = Some (emptyConfig\<lparr>speed := JNum 7, primaryColor := JStr ''#abcdef''\<rparr>)\<rparr>"

definition sampleAiEnv :: createFromAi_env where
  "sampleAiEnv = \<lparr>ce_projectDraft = Inr None, ce_unityConfig = Inr None,
     ce_chosenTemplate = Some ''t1'', ce_newId = ''p2''\<rparr>"

text \<open>
  Two request bodies for \<open>update\<close> that hold one colour each, a primary and a player
  colour, in lower case.
\<close>

definition primaryColorDto :: UpdateProjectDto where
  "primaryColorDto = unityConfig.extend (emptyConfig\<lparr>primaryColor := JStr ''#abcdef''\<rparr>)
     (UpdateProjectDto.fields JUndefined JUndefined JUndefined)"

definition playerColorDto :: UpdateProjectDto where
  "playerColorDto = unityConfig.extend (emptyConfig\<lparr>playerColor := JStr ''#abcdef''\<rparr>)
     (UpdateProjectDto.fields JUndefined JUndefined JUndefined)"

section \<open>The process runner: extractUnityErrorSummary and runUnity\<close>

text \<open>\<open>s.split(/\r?\n/)\<close>: a line ends at a line feed, which a carriage return may precede.\<close>

fun splitLines :: "string \<Rightarrow> string list" where
  "splitLines [] = [[]]"
| "splitLines (c # cs) =
     (if c = CHR 0x0D \<and> cs \<noteq> [] \<and> hd cs = CHR 0x0A then [] # splitLines (tl cs)
      else if c = CHR 0x0A then [] # splitLines cs
      else (case splitLines cs of [] \<Rightarrow> [[c]] | l # ls \<Rightarrow> (c # l) # ls))"

text \<open>\<open>xs.slice(Math.max(0, xs.length - n))\<close>, on arrays and on strings.\<close>

definition lastN :: "nat \<Rightarrow> 'a list \<Rightarrow> 'a list" where
  "lastN n xs = drop (length xs - n) xs"

fun joinLines :: "string list \<Rightarrow> string" where
  "joinLines [] = []"
| "joinLines [l] = l"
| "joinLines (l # m # ls) = l @ CHR 0x0A # joinLines (m # ls)"

text \<open>
  The regular expressions of the error classifier use literals, the classes \<open>\s\<close>,
  \<open>\d\<close> and \<open>.\<close>, quantifiers on a single class and the word boundary \<open>\b\<close>, all
  under the \<open>i\<close> flag. A pattern is a list of such atoms; a literal is kept in lower case.
\<close>

datatype cls = Lit char | CSpace | CDigit | CAny

datatype atom = One cls | Rep cls nat "nat option" | WordB

definition inCls :: "cls \<Rightarrow> char \<Rightarrow> bool" where
  "inCls k c =
     (case k of
        Lit l \<Rightarrow> lower_char c = l
      | CSpace \<Rightarrow> js_is_space c
      | CDigit \<Rightarrow> is_digit c
      | CAny \<Rightarrow> c \<noteq> CHR 0x0A \<and> c \<noteq> CHR 0x0D)"

definition isWordChar :: "char option \<Rightarrow> bool" where
  "isWordChar v =
     (case v of None \<Rightarrow> False
      | Some c \<Rightarrow> is_upper_az c \<or> is_lower_az c \<or> is_digit c \<or> c = CHR ''_'')"

definition nextChar :: "string \<Rightarrow> char option" where
  "nextChar s = (case s of [] \<Rightarrow> None | c # _ \<Rightarrow> Some c)"

text \<open>
  \<open>matchHere p prev rest\<close>: the pattern matches a prefix of \<open>rest\<close>, the character before
  it being \<open>prev\<close>. Every way of splitting the input between the quantifiers is tried, as
  backtracking does.
\<close>

fun matchHere :: "atom list \<Rightarrow> char option \<Rightarrow> string \<Rightarrow> bool" where
  "matchHere [] prev rest = True"
| "matchHere (WordB # p) prev rest =
     (isWordChar prev \<noteq> isWordChar (nextChar rest) \<and> matchHere p prev rest)"
| "matchHere (One k # p) prev rest =
     (case rest of [] \<Rightarrow> False | c # cs \<Rightarrow> inCls k c \<and> matchHere p (Some c) cs)"
| "matchHere (Rep k lo hi # p) prev rest =
     ((lo = 0 \<and> matchHere p prev rest) \<or>
      (hi \<noteq> Some 0 \<and>
       (case rest of [] \<Rightarrow> False
        | c # cs \<Rightarrow> inCls k c \<and> matchHere (Rep k (lo - 1) (map_option (\<lambda>h. h - 1) hi) # p) (Some c) cs)))"

fun searchFrom :: "atom list \<Rightarrow> char option \<Rightarrow> string \<Rightarrow> bool" where
  "searchFrom p prev [] = matchHere p prev []"
| "searchFrom p prev (c # cs) = (matchHere p prev (c # cs) \<or> searchFrom p (Some c) cs)"

definition regexTest :: "atom list \<Rightarrow> string \<Rightarrow> bool" where
  "regexTest p s = searchFrom p None s"

definition lit :: "string \<Rightarrow> atom list" where
  "lit s = map (\<lambda>c. One (Lit c)) s"

definition spaces1 :: atom where
  "spaces1 = Rep CSpace 1 None"

definition anything :: atom where
  "anything = Rep CAny 0 None"

definition unityErrorPatterns :: "atom list list" where
  "unityErrorPatterns =
     [WordB # lit ''error'' @ [spaces1] @ lit ''cs'' @ [Rep CDigit 4 (Some 5), WordB],
      WordB # lit ''exception'' @ [WordB],
      lit ''debugger-agent:'' @ [Rep CSpace 0 None] @ lit ''unable to listen on'',
      lit ''android'' @ [spaces1] @ lit ''sdk'',
      lit ''android'' @ [spaces1] @ lit ''ndk'',
      lit ''java'' @ [spaces1] @ lit ''home'',
      lit ''jre'' @ [spaces1] @ lit ''not'' @ [spaces1] @ lit ''found'',
      lit ''unable to find'' @ [anything] @ lit ''java'',
      lit ''gradle'' @ [WordB],
      lit ''failed to run command'' @ [anything] @ lit ''gradle'',
      lit ''build tools'' @ [anything] @ lit ''not found'',
      lit ''sdk'' @ [anything] @ lit ''not'' @ [anything] @ lit ''found'',
      lit ''ndk'' @ [anything] @ lit ''not'' @ [anything] @ lit ''found'',
      lit ''license'' @ [anything] @ lit ''not accepted'',
      lit ''keystore'',
      lit ''scripts have compiler errors'',
      lit ''compilation failed'',
      lit ''aborting batchmode'',
      WordB # lit ''build failed'' @ [WordB],
      WordB # lit ''fatal'' @ [WordB]]"

definition interesting :: "string \<Rightarrow> bool" where
  "interesting l = (let t = js_trim l in t \<noteq> [] \<and> list_ex (\<lambda>p. regexTest p t) unityErrorPatterns)"

definition extractUnityErrorSummary :: "string \<Rightarrow> string" where
  "extractUnityErrorSummary out =
     (let lines = splitLines out;
          tailLines = lastN 400 lines;
          interestingLines = filter interesting tailLines;
          summary = joinLines (lastN 60 (if interestingLines \<noteq> [] then interestingLines else tailLines));
          clipped = (if length summary > 6000 then lastN 6000 summary else summary)
      in js_trim clipped)"

text \<open>\<open>String(code)\<close> for an exit code: \<open>null\<close> when a signal ended the process.\<close>

function showNat :: "nat \<Rightarrow> string" where
  "showNat n = (if n < 10 then [hexDigit n] else showNat (n div 10) @ [hexDigit (n mod 10)])"
  by pat_completeness auto
termination
  by (relation "measure id") auto

definition showCode :: "int option \<Rightarrow> string" where
  "showCode code =
     (case code of None \<Rightarrow> ''null''
      | Some i \<Rightarrow> if i < 0 then CHR ''-'' # showNat (nat (- i)) else showNat (nat i))"

text \<open>The \<open>close\<close> handler of the child: what the promise of \<open>runUnity\<close> settles to.\<close>

definition exitMessage :: "int option \<Rightarrow> string \<Rightarrow> string" where
  "exitMessage code out =
     (let summary = extractUnityErrorSummary out;
          tail = (if length out > 4000 then lastN 4000 out else out)
      in ''Unity exited with code '' @ showCode code @ ''. '' @
         (if summary \<noteq> [] then ''Error summary:'' @ [CHR 0x0A] @ summary else ''Output tail: '' @ tail))"

definition onClose :: "int option \<Rightarrow> string \<Rightarrow> string \<Rightarrow> string + unit" where
  "onClose code stdout stderr =
     (if code = Some 0 then Inr ()
      else Inl (exitMessage code (if stderr \<noteq> [] then stderr else stdout)))"

text \<open>
  One run of the external tool, on a millisecond clock that starts at the spawn: the spawn
  may fail (the \<open>error\<close> event); otherwise the child would end by itself after
  \<open>exitsAfter\<close> milliseconds (never, for \<open>None\<close>) with \<open>exitCode\<close> (\<open>None\<close> when a signal
  ended it), having written \<open>stdoutAt t\<close> and \<open>stderrAt t\<close> by time \<open>t\<close>. \<open>libraryAfter\<close>
  is what the run makes of the project's Library directory.
\<close>

record unityRun =
  spawnError :: "string option"
  childProc :: ChildProcess
  exitsAfter :: "nat option"
  exitCode :: "int option"
  stdoutAt :: "nat \<Rightarrow> string"
  stderrAt :: "nat \<Rightarrow> string"
  libraryAfter :: "fsnode list option \<Rightarrow> fsnode list option"

text \<open>
  \<open>Number(process.env.UNITY_BUILD_TIMEOUT_MS || '') || 20 * 60 * 1000\<close>, handed to
  \<open>setTimeout\<close>. The variable is given by what \<open>Number\<close> makes of it (\<open>None\<close> when it is
  unset or empty); zero and \<open>NaN\<close> give the default. The timer truncates its delay to whole
  milliseconds and uses 1 ms for a delay that is not between 1 and \<open>2147483647\<close>.
\<close>

datatype jsNumber = NotANumber | Finite real | PlusInfinity | MinusInfinity

definition timerDelay :: "real \<Rightarrow> nat" where
  "timerDelay ms = (if 1 \<le> ms \<and> ms \<le> 2147483647 then nat \<lfloor>ms\<rfloor> else 1)"

definition maxMs :: "jsNumber option \<Rightarrow> nat" where
  "maxMs v =
     (case v of
        None \<Rightarrow> 20 * 60 * 1000
      | Some NotANumber \<Rightarrow> 20 * 60 * 1000
      | Some (Finite ms) \<Rightarrow> if ms = 0 then 20 * 60 * 1000 else timerDelay ms
      | Some PlusInfinity \<Rightarrow> 1
      | Some MinusInfinity \<Rightarrow> 1)"

definition exceedsTimeout :: "nat \<Rightarrow> unityRun \<Rightarrow> bool" where
  "exceedsTimeout limit run = (case exitsAfter run of None \<Rightarrow> True | Some t \<Rightarrow> limit \<le> t)"

text \<open>
  \<open>runUnity\<close>: the child is registered under the project id; the timer sends \<open>SIGKILL\<close>
  at \<open>limit\<close> when the child has not closed by then, and the child then closes with code
  \<open>null\<close>; on \<open>close\<close> the registration is removed and the promise settles to
  \<open>runResult\<close>. When the spawn fails the \<open>error\<close> event rejects the promise, and the
  \<open>close\<close> event that follows it clears the timer and removes the registration. The
  throttled write of the last log line, which touches \<open>buildLogLastLine\<close> only, is not
  modelled.
\<close>

definition runResult :: "nat \<Rightarrow> unityRun \<Rightarrow> string + unit" where
  "runResult limit run =
     (case spawnError run of
        Some e \<Rightarrow> Inl e
      | None \<Rightarrow>
          if exceedsTimeout limit run then onClose None (stdoutAt run limit) (stderrAt run limit)
          else onClose (exitCode run) (stdoutAt run (the (exitsAfter run)))
                 (stderrAt run (the (exitsAfter run))))"

definition runUnity :: "service \<Rightarrow> string \<Rightarrow> nat \<Rightarrow> unityRun \<Rightarrow> (string + unit) \<times> service" where
  "runUnity s projectId limit run =
     (let s1 = s\<lparr>activeBuildProcesses := (activeBuildProcesses s)(projectId \<mapsto> childProc run)\<rparr> in
      (runResult limit run,
       case spawnError run of
         Some e \<Rightarrow> s1\<lparr>activeBuildProcesses := (activeBuildProcesses s1)(projectId := None)\<rparr>
       | None \<Rightarrow>
           s1\<lparr>killed := (if exceedsTimeout limit run then killed s1 @ [childProc run] else killed s1),
              activeBuildProcesses := (activeBuildProcesses s1)(projectId := None)\<rparr>))"

text \<open>A child that never exits by itself and has written \<open>out\<close> to its standard output.\<close>

definition hungRun :: "string \<Rightarrow> unityRun" where
  "hungRun out = \<lparr>spawnError = None, childProc = 9, exitsAfter = None, exitCode = None,
     stdoutAt = (\<lambda>t. out), stderrAt = (\<lambda>t. []), libraryAfter = (\<lambda>lib. lib)\<rparr>"

definition compileErrorLog :: string where
  "compileErrorLog = ''Compiling'' @ [CHR 0x0A] @ ''Assets/A.cs(1,1): error CS0246: missing'' @ [CHR 0x0A] @ ''ok'' @ [CHR 0x0A]"

section \<open>Root discovery (find_unity_root)\<close>

text \<open>\<open>fs.existsSync(path.join(dir, n))\<close>: some entry of the directory, file or not, has the name.\<close>

definition existsSync :: "fsnode list \<Rightarrow> string \<Rightarrow> bool" where
  "existsSync es n = (n \<in> set (map entryName es))"

definition hasUnityLayout :: "fsnode list \<Rightarrow> bool" where
  "hasUnityLayout es =
     (existsSync es ''Assets'' \<and> existsSync es ''Packages'' \<and> existsSync es ''ProjectSettings'')"

type_synonym queueItem = "string list \<times> fsnode list \<times> nat"

definition maxDepth :: nat where
  "maxDepth = 3"

text \<open>The \<open>for (const d of children)\<close> loop: what a directory adds to the queue.\<close>

fun pushChildren :: "string list \<Rightarrow> nat \<Rightarrow> fsnode list \<Rightarrow> queueItem list" where
  "pushChildren dir depth [] = []"
| "pushChildren dir depth (File n # ds) = pushChildren dir depth ds"
| "pushChildren dir depth (Dir n es # ds) =
     (if n = ''__MACOSX'' then pushChildren dir depth ds
      else (dir @ [n], es, depth + 1) # pushChildren dir depth ds)"

definition itemWeight :: "queueItem \<Rightarrow> nat" where
  "itemWeight it = Suc (size_list size (fst (snd it)))"

lemma pushChildren_weight:
  "sum_list (map itemWeight (pushChildren dir depth ds)) \<le> size_list size ds"
  by (induction dir depth ds rule: pushChildren.induct) (auto simp add: itemWeight_def)

text \<open>The \<open>while (queue.length > 0)\<close> loop, with its \<open>visited\<close> set.\<close>

function findLoop :: "string list set \<Rightarrow> queueItem list \<Rightarrow> (string list \<times> fsnode list) option" where
  "findLoop visited [] = None"
| "findLoop visited ((dir, es, depth) # queue) =
     (if dir \<in> visited then findLoop visited queue
      else if hasUnityLayout es then Some (dir, es)
      else if depth \<ge> maxDepth then findLoop (insert dir visited) queue
      else findLoop (insert dir visited) (queue @ pushChildren dir depth es))"
  by pat_completeness auto
termination
proof (relation "measure (\<lambda>(visited, queue). sum_list (map itemWeight queue))")
  fix visited :: "string list set" and dir es depth and queue :: "queueItem list"
  have "sum_list (map itemWeight (pushChildren dir depth es)) < itemWeight (dir, es, depth)"
    using pushChildren_weight [of dir depth es] by (simp add: itemWeight_def)
  then show "((insert dir visited, queue @ pushChildren dir depth es), visited, (dir, es, depth) # queue)
      \<in> measure (\<lambda>(visited, queue). sum_list (map itemWeight queue))"
    by simp
qed (simp_all add: itemWeight_def)

text \<open>
  The discovered root and its entries: the extraction directory when it has the three
  markers or when the search finds nothing, the directory the search stops at otherwise.
\<close>

definition findUnityRoot :: "fsnode list \<Rightarrow> string list \<times> fsnode list" where
  "findUnityRoot extractedRoot =
     (if hasUnityLayout extractedRoot then ([], extractedRoot)
      else (case findLoop {} [([], extractedRoot, 0)] of
              Some found \<Rightarrow> found
            | None \<Rightarrow> ([], extractedRoot)))"

text \<open>
  The words of the specification: the directories of depth 0 to 3, junk directories and
  what is below them left out, level by level and left to right within a level; the first
  of them that has the three markers, the extraction directory when there is none.
\<close>

fun levelDirs :: "nat \<Rightarrow> fsnode list \<Rightarrow> queueItem list" where
  "levelDirs 0 extractedRoot = [([], extractedRoot, 0)]"
| "levelDirs (Suc k) extractedRoot =
     concat (map (\<lambda>(dir, es, depth). pushChildren dir depth es) (levelDirs k extractedRoot))"

definition breadthFirstOrder :: "fsnode list \<Rightarrow> queueItem list" where
  "breadthFirstOrder extractedRoot =
     levelDirs 0 extractedRoot @ levelDirs 1 extractedRoot @ levelDirs 2 extractedRoot @
     levelDirs 3 extractedRoot"

definition firstWithLayout :: "fsnode list \<Rightarrow> string list \<times> fsnode list" where
  "firstWithLayout extractedRoot =
     (case find (\<lambda>(dir, es, depth). hasUnityLayout es) (breadthFirstOrder extractedRoot) of
        Some (dir, es, depth) \<Rightarrow> (dir, es)
      | None \<Rightarrow> ([], extractedRoot))"

text \<open>No two entries of a directory have the same name, anywhere in the tree.\<close>

fun distinctNames :: "fsnode list \<Rightarrow> bool" where
  "distinctNames [] = True"
| "distinctNames (File n # ds) = (n \<notin> set (map entryName ds) \<and> distinctNames ds)"
| "distinctNames (Dir n es # ds) = (n \<notin> set (map entryName ds) \<and> distinctNames es \<and> distinctNames ds)"

text \<open>A directory has the three markers as subdirectories.\<close>

fun isDirNamed :: "string \<Rightarrow> fsnode \<Rightarrow> bool" where
  "isDirNamed m (File n) = False"
| "isDirNamed m (Dir n es) = (n = m)"

definition hasMarkerSubdirs :: "fsnode list \<Rightarrow> bool" where
  "hasMarkerSubdirs es =
     list_all (\<lambda>m. list_ex (isDirNamed m) es) [''Assets'', ''Packages'', ''ProjectSettings'']"

text \<open>
  What the proof of the search keeps track of: the paths of the directories below a
  directory that the search can reach, the paths an item of the queue stands for, what an
  item adds to the queue, and the invariant of the loop (no path is met twice).
\<close>

fun below :: "fsnode list \<Rightarrow> string list list" where
  "below [] = []"
| "below (File n # ds) = below ds"
| "below (Dir n es # ds) =
     (if n = ''__MACOSX'' then below ds else ([n] # map ((#) n) (below es)) @ below ds)"

definition allPaths :: "queueItem \<Rightarrow> string list list" where
  "allPaths it = fst it # map ((@) (fst it)) (below (fst (snd it)))"

definition expand :: "queueItem \<Rightarrow> queueItem list" where
  "expand it = (case it of (dir, es, depth) \<Rightarrow> if depth \<ge> maxDepth then [] else pushChildren dir depth es)"

definition queueInv :: "string list set \<Rightarrow> queueItem list \<Rightarrow> bool" where
  "queueInv visited queue =
     (distinct (concat (map allPaths queue)) \<and> visited \<inter> set (concat (map allPaths queue)) = {})"

text \<open>Sample trees.\<close>

definition unityProject :: "fsnode list" where
  "unityProject = [Dir ''Assets'' [File ''Main.unity''], Dir ''Packages'' [File ''manifest.json''],
     Dir ''ProjectSettings'' [File ''ProjectVersion.txt'']]"

definition wrappedTree :: "fsnode list" where
  "wrappedTree =
     [Dir ''__MACOSX'' unityProject, File ''readme.txt'',
      Dir ''other'' [Dir ''deep'' [Dir ''x'' unityProject]],
      Dir ''wrap'' [Dir ''docs'' [], Dir ''game'' unityProject, Dir ''game2'' unityProject]]"

definition tooDeepTree :: "fsnode list" where
  "tooDeepTree = [Dir ''a'' [Dir ''b'' [Dir ''c'' [Dir ''d'' unityProject]]]]"

definition markerFilesTree :: "fsnode list" where
  "markerFilesTree =
     [File ''Assets'', File ''Packages'', File ''ProjectSettings'', Dir ''proj'' unityProject]"

section \<open>ProjectsService.runBuild\<close>

text \<open>
  What one run of the pipeline meets outside the service. A file-system step that can throw
  is given by the message it throws (\<open>None\<close> when it succeeds); the archive library by what
  opening and extracting an archive yields, an error message or the extracted tree.
\<close>

datatype ioOutcome = IoOk | IoFailed "fsnode list option"

text \<open>
  The media directory after the capture pass: the cover and the shots that exist, each with
  the outcome of publishing it (the message thrown, or the URL it gets); whether the first
  frame exists; the error of the encoder run, if any; the encoded video, if it exists, with
  the outcome of publishing it.
\<close>

record mediaOut =
  coverPng :: "(string + string) option"
  shotPngs :: "(string + string) list"
  firstFrame :: bool
  ffmpegError :: "string option"
  previewMp4 :: "(string + string) option"

record buildEnv =
  mkdtempError :: "string option"
  admZip :: "8 word list \<Rightarrow> string + fsnode list"
  copyFileError :: string
  restoreIo :: ioOutcome
  injectScriptsError :: "string option"
  injectAiPatchError :: "string option"
  injectAssetsError :: "string option"
  unityEditorPath :: string
  timeoutMsEnv :: "jsNumber option"
  mkdirOutError :: "string option"
  buildRun :: unityRun
  mkdirMediaError :: "string option"
  captureRun :: unityRun
  saveIo :: ioOutcome
  media :: mediaOut
  outputExists :: bool
  uploadError :: "string option"
  startedAtMs :: nat
  finishedAtMs :: nat
  stepMs :: "string \<Rightarrow> nat"

text \<open>
  The state of the \<open>try\<close> block: the in-memory document, the step durations recorded so
  far, the error thrown (once set, the remaining steps are skipped), the service state,
  the discovered root, the sandbox's Library directory and the configuration written into
  the two \<open>GameForgeAiConfig.json\<close> files.
\<close>

record buildState =
  bs_project :: GameProject
  bs_steps :: "(string \<times> nat) list"
  bs_error :: "string option"
  bs_service :: service
  bs_unityRoot :: "string list \<times> fsnode list"
  bs_library :: "fsnode list option"
  bs_patchConfig :: "unityConfig option"

definition endStep :: "buildEnv \<Rightarrow> string \<Rightarrow> buildState \<Rightarrow> buildState" where
  "endStep env stepName bs = bs\<lparr>bs_steps := bs_steps bs @ [(stepName, stepMs env stepName)]\<rparr>"

definition throw :: "string \<Rightarrow> buildState \<Rightarrow> buildState" where
  "throw msg bs = bs\<lparr>bs_error := Some msg\<rparr>"

text \<open>A step of the \<open>try\<close> block runs only while nothing has been thrown.\<close>

definition step :: "(buildState \<Rightarrow> buildState) \<Rightarrow> buildState \<Rightarrow> buildState" where
  "step f bs = (if bs_error bs \<noteq> None then bs else f bs)"

text \<open>A file-system action that throws \<open>err\<close> or completes, and then ends the step.\<close>

definition fsStep :: "buildEnv \<Rightarrow> string option \<Rightarrow> string \<Rightarrow> buildState \<Rightarrow> buildState" where
  "fsStep env err stepName bs = (case err of Some e \<Rightarrow> throw e bs | None \<Rightarrow> endStep env stepName bs)"

text \<open>A file-system action outside any timed step.\<close>

definition fsAction :: "string option \<Rightarrow> buildState \<Rightarrow> buildState" where
  "fsAction err bs = (case err of Some e \<Rightarrow> throw e bs | None \<Rightarrow> bs)"

definition loadTemplate :: "buildEnv \<Rightarrow> buildState \<Rightarrow> buildState" where
  "loadTemplate env bs =
     (case templates (bs_service bs) (templateId (bs_project bs)) of
        None \<Rightarrow> throw ''Template not found'' bs
      | Some template \<Rightarrow> endStep env ''load_template'' bs)"

text \<open>
  \<open>extract_template\<close> and \<open>find_unity_root\<close>: the stored archive is copied (which throws
  when no file is stored under the key), opened and extracted, and the root is searched.
  The template is the one \<open>load_template\<close> has found.
\<close>

definition extractTemplate :: "buildEnv \<Rightarrow> buildState \<Rightarrow> buildState" where
  "extractTemplate env bs =
     (case templates (bs_service bs) (templateId (bs_project bs)) of
        None \<Rightarrow> throw ''Template not found'' bs
      | Some template \<Rightarrow>
          (case templateFiles (bs_service bs) (storageKey template) of
             None \<Rightarrow> throw (copyFileError env) bs
           | Some zipBytes \<Rightarrow>
               (case admZip env zipBytes of
                  Inl e \<Rightarrow> throw e bs
                | Inr extractedRoot \<Rightarrow>
                    endStep env ''find_unity_root''
                      ((endStep env ''extract_template'' bs)
                         \<lparr>bs_unityRoot := findUnityRoot extractedRoot\<rparr>))))"

text \<open>
  \<open>ensure_burst\<close> edits the package manifest inside one \<open>try\<close>/\<open>catch\<close>: it throws nothing
  and leaves the Library directory where it is.
\<close>

definition ensureBurst :: "buildEnv \<Rightarrow> buildState \<Rightarrow> buildState" where
  "ensureBurst env bs = endStep env ''ensure_burst'' bs"

text \<open>The Library cache. \<open>String(project.templateId).replace(/[^a-zA-Z0-9_-]/g, '_')\<close>:\<close>

definition cacheKey :: "string \<Rightarrow> string" where
  "cacheKey tid =
     map (\<lambda>c. if is_lower_az c \<or> is_upper_az c \<or> is_digit c \<or> c = CHR ''_'' \<or> c = CHR ''-''
               then c else CHR ''_'') tid"

text \<open>The Library directory of the discovered root, if there is an entry of that name.\<close>

definition sandboxLibrary :: "fsnode list \<Rightarrow> fsnode list option" where
  "sandboxLibrary es =
     (case find (\<lambda>e. entryName e = ''Library'') es of
        None \<Rightarrow> None
      | Some (Dir n cs) \<Rightarrow> Some cs
      | Some (File n) \<Rightarrow> Some [])"

text \<open>
  \<open>library_cache_restore\<close>: the copy is made when the cache has an entry and the sandbox
  has no Library; a failure of the copy is swallowed and leaves whatever it leaves.
\<close>

definition restoreAttempted :: "fsnode list option \<Rightarrow> fsnode list option \<Rightarrow> bool" where
  "restoreAttempted cached lib = (cached \<noteq> None \<and> lib = None)"

definition restoreLibrary :: "fsnode list option \<Rightarrow> fsnode list option \<Rightarrow> ioOutcome \<Rightarrow> fsnode list option" where
  "restoreLibrary cached lib io =
     (if restoreAttempted cached lib then (case io of IoOk \<Rightarrow> cached | IoFailed left \<Rightarrow> left) else lib)"

definition libraryCacheRestore :: "buildEnv \<Rightarrow> buildState \<Rightarrow> buildState" where
  "libraryCacheRestore env bs =
     endStep env ''library_cache_restore''
       (bs\<lparr>bs_library :=
             restoreLibrary (libraryCache (bs_service bs) (cacheKey (templateId (bs_project bs))))
               (sandboxLibrary (snd (bs_unityRoot bs))) (restoreIo env)\<rparr>)"

text \<open>\<open>inject_build_script\<close>, \<open>inject_ai_patch\<close> (only with a configuration), \<open>inject_assets\<close>.\<close>

definition injectAiPatch :: "buildEnv \<Rightarrow> buildState \<Rightarrow> buildState" where
  "injectAiPatch env bs =
     (case aiUnityConfig (bs_project bs) of
        None \<Rightarrow> bs
      | Some aiCfg \<Rightarrow>
          (case injectAiPatchError env of
             Some e \<Rightarrow> throw e bs
           | None \<Rightarrow> endStep env ''inject_ai_patch'' (bs\<lparr>bs_patchConfig := Some aiCfg\<rparr>)))"

definition injectAssets :: "buildEnv \<Rightarrow> buildState \<Rightarrow> buildState" where
  "injectAssets env bs =
     (if truthy (assetsCollectionId (bs_project bs))
      then fsStep env (injectAssetsError env) ''inject_assets'' bs
      else endStep env ''inject_assets'' bs)"

definition checkEditorPath :: "buildEnv \<Rightarrow> buildState \<Rightarrow> buildState" where
  "checkEditorPath env bs =
     (if js_trim (unityEditorPath env) = []
      then throw ''UNITY_EDITOR_PATH env var is required to run Unity builds'' bs
      else bs)"

text \<open>One \<open>await runUnity({ ..., stepName })\<close>, with what the run does to the Library.\<close>

definition awaitUnity :: "buildEnv \<Rightarrow> string \<Rightarrow> unityRun \<Rightarrow> string \<Rightarrow> buildState \<Rightarrow> buildState" where
  "awaitUnity env projectId run stepName bs =
     (case runUnity (bs_service bs) projectId (maxMs (timeoutMsEnv env)) run of
        (Inl e, s') \<Rightarrow> throw e (bs\<lparr>bs_service := s', bs_library := libraryAfter run (bs_library bs)\<rparr>)
      | (Inr u, s') \<Rightarrow>
          endStep env stepName (bs\<lparr>bs_service := s', bs_library := libraryAfter run (bs_library bs)\<rparr>))"

definition unityBuild :: "buildEnv \<Rightarrow> string \<Rightarrow> buildState \<Rightarrow> buildState" where
  "unityBuild env projectId bs = awaitUnity env projectId (buildRun env) ''unity_build'' bs"

definition captureMedia :: "buildEnv \<Rightarrow> string \<Rightarrow> buildState \<Rightarrow> buildState" where
  "captureMedia env projectId bs =
     (case mkdirMediaError env of
        Some e \<Rightarrow> throw e bs
      | None \<Rightarrow> awaitUnity env projectId (captureRun env) ''capture_media'' bs)"

text \<open>
  \<open>library_cache_save\<close>: when the sandbox has a Library, the cache entry is removed and the
  Library copied in its place; a failure is swallowed and leaves whatever it leaves.
\<close>

definition saveLibrary :: "fsnode list option \<Rightarrow> fsnode list option \<Rightarrow> ioOutcome \<Rightarrow> fsnode list option" where
  "saveLibrary lib cached io =
     (if lib \<noteq> None then (case io of IoOk \<Rightarrow> lib | IoFailed left \<Rightarrow> left) else cached)"

definition libraryCacheSave :: "buildEnv \<Rightarrow> buildState \<Rightarrow> buildState" where
  "libraryCacheSave env bs =
     (let s = bs_service bs; k = cacheKey (templateId (bs_project bs))
      in endStep env ''library_cache_save''
           (bs\<lparr>bs_service := s\<lparr>libraryCache :=
                  (libraryCache s)(k := saveLibrary (bs_library bs) (libraryCache s k) (saveIo env))\<rparr>\<rparr>))"

text \<open>
  \<open>upload_media\<close>, one \<open>try\<close> block: whatever throws ends the block, what was assigned to
  the document before stays assigned, and nothing is thrown to the pipeline.
\<close>

fun publishShots :: "(string + string) list \<Rightarrow> string + string list" where
  "publishShots [] = Inr []"
| "publishShots (Inl e # r) = Inl e"
| "publishShots (Inr url # r) = (case publishShots r of Inl e \<Rightarrow> Inl e | Inr urls \<Rightarrow> Inr (url # urls))"

definition publishVideo :: "mediaOut \<Rightarrow> GameProject \<Rightarrow> GameProject" where
  "publishVideo m p =
     (if \<not> firstFrame m then p
      else (case ffmpegError m of
              Some e \<Rightarrow> p
            | None \<Rightarrow>
                (case previewMp4 m of
                   Some (Inr url) \<Rightarrow> p\<lparr>previewVideoUrl := Some url\<rparr>
                 | _ \<Rightarrow> p)))"

definition publishMedia :: "mediaOut \<Rightarrow> GameProject \<Rightarrow> GameProject" where
  "publishMedia m p =
     (case coverPng m of
        Some (Inl e) \<Rightarrow> p
      | c \<Rightarrow>
          (let p1 = (case c of Some (Inr url) \<Rightarrow> p\<lparr>previewImageUrl := Some url\<rparr> | _ \<Rightarrow> p)
           in case publishShots (shotPngs m) of
                Inl e \<Rightarrow> p1
              | Inr shotUrls \<Rightarrow>
                  publishVideo m (if shotUrls \<noteq> [] then p1\<lparr>screenshotUrls := shotUrls\<rparr> else p1)))"

definition uploadMedia :: "buildEnv \<Rightarrow> buildState \<Rightarrow> buildState" where
  "uploadMedia env bs =
     endStep env ''upload_media'' (bs\<lparr>bs_project := publishMedia (media env) (bs_project bs)\<rparr>)"

text \<open>Verification of the output, publication of the artifact, and \<open>status = 'ready'\<close>.\<close>

definition publishArtifact :: "buildEnv \<Rightarrow> string \<Rightarrow> buildState \<Rightarrow> buildState" where
  "publishArtifact env projectId bs =
     (if isAndroidApk (buildTarget (bs_project bs)) then
        (if \<not> outputExists env then throw ''Android build did not produce an APK'' bs
         else (case uploadError env of
                 Some e \<Rightarrow> throw e (endStep env ''verify_output'' bs)
               | None \<Rightarrow>
                   (endStep env ''upload_android_apk'' (endStep env ''verify_output'' bs))
                     \<lparr>bs_project := (bs_project bs)\<lparr>resultStorageKey := Some (projectId @ ''.apk''),
                          androidApkStorageKey := Some (projectId @ ''.apk''), status := ready\<rparr>\<rparr>))
      else
        (if \<not> outputExists env then throw ''WebGL build did not produce index.html'' bs
         else (case uploadError env of
                 Some e \<Rightarrow> throw e (endStep env ''verify_output'' bs)
               | None \<Rightarrow>
                   (endStep env ''zip_webgl'' (endStep env ''upload_webgl_files'' (endStep env ''verify_output'' bs)))
                     \<lparr>bs_project := (bs_project bs)\<lparr>resultStorageKey := Some (projectId @ ''.zip''),
                          webglZipStorageKey := Some (projectId @ ''.zip''),
                          webglIndexStorageKey := Some (projectId @ ''/webgl/index.html''),
                          status := ready\<rparr>\<rparr>)))"

text \<open>
  The \<open>try\<close> block, step after step: the steps that stage the sandbox (parts 1 to 4 of
  the source and the checks at the head of part 5), then the two runs of the tool, the
  cache save, the media and the artifact.
\<close>

definition prepareSandbox :: "buildEnv \<Rightarrow> buildState \<Rightarrow> buildState" where
  "prepareSandbox env =
     step (fsAction (mkdirOutError env)) \<circ>
     step (checkEditorPath env) \<circ>
     step (injectAssets env) \<circ>
     step (injectAiPatch env) \<circ>
     step (fsStep env (injectScriptsError env) ''inject_build_script'') \<circ>
     step (libraryCacheRestore env) \<circ>
     step (ensureBurst env) \<circ>
     step (extractTemplate env) \<circ>
     step (loadTemplate env)"

definition tryBlock :: "buildEnv \<Rightarrow> string \<Rightarrow> buildState \<Rightarrow> buildState" where
  "tryBlock env projectId =
     step (publishArtifact env projectId) \<circ>
     step (uploadMedia env) \<circ>
     step (libraryCacheSave env) \<circ>
     step (captureMedia env projectId) \<circ>
     step (unityBuild env projectId) \<circ>
     prepareSandbox env"

text \<open>\<open>e?.message ? String(e.message) : String(e)\<close>, for an \<open>Error\<close> with message \<open>m\<close>.\<close>

definition catchMessage :: "string \<Rightarrow> string" where
  "catchMessage m = (if m \<noteq> [] then m else ''Error'')"

definition finalTimings :: "buildEnv \<Rightarrow> buildState \<Rightarrow> buildTimings" where
  "finalTimings env bs =
     \<lparr>startedAt = Some (startedAtMs env), finishedAt = Some (finishedAtMs env),
      durationMs = Some (int (finishedAtMs env) - int (startedAtMs env)), steps = Some (bs_steps bs)\<rparr>"

text \<open>The document saved last: by the end of the \<open>try\<close> block or by the \<open>catch\<close> block.\<close>

definition finalDocument :: "buildEnv \<Rightarrow> buildState \<Rightarrow> GameProject" where
  "finalDocument env bs =
     (case bs_error bs of
        None \<Rightarrow> (bs_project bs)\<lparr>buildTimings := Some (finalTimings env bs)\<rparr>
      | Some m \<Rightarrow> (bs_project bs)\<lparr>status := failed, error := Some (catchMessage m),
                     buildTimings := Some (finalTimings env bs)\<rparr>)"

definition runningDocument :: "buildEnv \<Rightarrow> GameProject \<Rightarrow> GameProject" where
  "runningDocument env project =
     project\<lparr>status := running, error := None,
       buildTimings := Some \<lparr>startedAt = Some (startedAtMs env), finishedAt = None,
                             durationMs = None, steps = Some []\<rparr>\<rparr>"

definition initialState :: "buildEnv \<Rightarrow> service \<Rightarrow> GameProject \<Rightarrow> buildState" where
  "initialState env s doc =
     \<lparr>bs_project = doc, bs_steps = [(''workdir'', stepMs env ''workdir'')], bs_error = None,
      bs_service = s, bs_unityRoot = ([], []), bs_library = None, bs_patchConfig = None\<rparr>"

text \<open>
  \<open>runBuild\<close>: the documents it saves, in order, and the service state it leaves. A failure
  of \<open>mkdtemp\<close>, before the \<open>try\<close>, ends the run with the job left \<open>running\<close>.
\<close>

definition runBuild :: "service \<Rightarrow> buildEnv \<Rightarrow> string \<Rightarrow> GameProject list \<times> service" where
  "runBuild s env projectId =
     (case projects s projectId of
        None \<Rightarrow> ([], s)
      | Some project \<Rightarrow>
          (let doc = runningDocument env project;
               s1 = s\<lparr>projects := (projects s)(projectId \<mapsto> doc)\<rparr>
           in case mkdtempError env of
                Some e \<Rightarrow> ([doc], s1)
              | None \<Rightarrow>
                  (let bs = tryBlock env projectId (initialState env s1 doc);
                       final = finalDocument env bs
                   in ([doc, final],
                       (bs_service bs)\<lparr>projects := (projects (bs_service bs))(projectId \<mapsto> final)\<rparr>))))"

section \<open>TemplatesService.uploadTemplate: the archive check\<close>

text \<open>
  The check at the head of \<open>uploadTemplate\<close>. \<open>zipEntries\<close> stands for the archive library:
  the entry names of an archive, or nothing when opening it throws.
\<close>

definition checkArchive :: "(8 word list \<Rightarrow> string list option) \<Rightarrow> 8 word list option \<Rightarrow> http_error + unit" where
  "checkArchive zipEntries file =
     (case file of
        None \<Rightarrow> Inl (BadRequestException ''file is required'')
      | Some buf \<Rightarrow>
          if length buf < 4 \<or> buf ! 0 \<noteq> 0x50 \<or> buf ! 1 \<noteq> 0x4B
          then Inl (BadRequestException ''Invalid zip file. Expected a .zip archive.'')
          else (case zipEntries buf of
                  None \<Rightarrow> Inl (BadRequestException ''Invalid or unsupported zip format'')
                | Some entries \<Rightarrow>
                    if length entries = 0 then Inl (BadRequestException ''Invalid or unsupported zip format'')
                    else Inr ()))"

text \<open>
  \<open>uploadTemplate\<close> as far as the stores go: a rejected file changes nothing; an accepted
  one gets a template document (its name, worked out from the request, the archive and the
  vision model, is given here) and is stored under \<open>id.zip\<close>.
\<close>

definition uploadTemplate ::
  "service \<Rightarrow> (8 word list \<Rightarrow> string list option) \<Rightarrow> string \<Rightarrow> string \<Rightarrow> 8 word list option \<Rightarrow>
   (http_error + string) \<times> service" where
  "uploadTemplate s zipEntries newId finalName file =
     (case checkArchive zipEntries file of
        Inl e \<Rightarrow> (Inl e, s)
      | Inr u \<Rightarrow>
          (Inr newId,
           s\<lparr>templates := (templates s)(newId \<mapsto>
                \<lparr>tpl_name = finalName, isPublic = True, storageKey = newId @ ''.zip''\<rparr>),
              templateFiles := (templateFiles s)(newId @ ''.zip'' \<mapsto> the file)\<rparr>))"

text \<open>\<open>createFromTemplate\<close>: the build request for a public template.\<close>

definition createFromTemplate ::
  "service \<Rightarrow> string \<Rightarrow> string \<Rightarrow> string \<Rightarrow> string \<Rightarrow> string option \<Rightarrow> string option \<Rightarrow>
   (http_error + GameProject) \<times> service" where
  "createFromTemplate s newId owner tid nm desc assets =
     (case templates s tid of
        None \<Rightarrow> (Inl (NotFoundException ''Template not found''), s)
      | Some template \<Rightarrow>
          if \<not> isPublic template then (Inl ForbiddenException, s)
          else
            (let created = \<lparr>ownerId = owner, templateId = tid, name = js_trim nm,
                    description = js_trim (orEmpty desc), status = queued, buildTarget = ''webgl'',
                    assetsCollectionId = assets, resultStorageKey = None, webglZipStorageKey = None,
                    androidApkStorageKey = None, webglIndexStorageKey = None, error = None,
                    buildLogLastLine = None, previewImageUrl = None, screenshotUrls = [],
                    previewVideoUrl = None, aiUnityConfig = None, buildTimings = None\<rparr>
             in (Inr created,
                 s\<lparr>projects := (projects s)(newId \<mapsto> created), scheduled := scheduled s @ [newId]\<rparr>)))"

text \<open>
  A run of the tool that ends by itself after a minute and a half with the given exit code
  and error output, and an environment in which every step of the pipeline succeeds.
\<close>

definition exitedRun :: "ChildProcess \<Rightarrow> int \<Rightarrow> string \<Rightarrow> unityRun" where
  "exitedRun c code err = \<lparr>spawnError = None, childProc = c, exitsAfter = Some 90000,
     exitCode = Some code, stdoutAt = (\<lambda>t. ''Build started''), stderrAt = (\<lambda>t. err),
     libraryAfter = (\<lambda>lib. Some [File ''ArtifactDB''])\<rparr>"

definition sampleEnv :: buildEnv where
  "sampleEnv = \<lparr>mkdtempError = None, admZip = (\<lambda>bytes. Inr wrappedTree),
     copyFileError = ''ENOENT: no such file or directory'', restoreIo = IoOk,
     injectScriptsError = None, injectAiPatchError = None, injectAssetsError = None,
     unityEditorPath = ''/opt/unity/Editor/Unity'', timeoutMsEnv = None, mkdirOutError = None,
     buildRun = exitedRun 11 0 [], mkdirMediaError = None, captureRun = exitedRun 12 0 [],
     saveIo = IoOk,
     media = \<lparr>coverPng = Some (Inr ''http://h/api/projects/files/cover.png''), shotPngs = [],
               firstFrame = False, ffmpegError = None, previewMp4 = None\<rparr>,
     outputExists = True, uploadError = None, startedAtMs = 1000, finishedAtMs = 200000,
     stepMs = (\<lambda>stepName. 5)\<rparr>"

text \<open>
  The conditions under which the sandbox is staged without an error and under which a run
  of the tool succeeds.
\<close>

definition archiveOutcome :: "buildEnv \<Rightarrow> service \<Rightarrow> GameProject \<Rightarrow> (string + fsnode list) option" where
  "archiveOutcome env s p =
     (case templates s (templateId p) of
        None \<Rightarrow> None
      | Some template \<Rightarrow>
          (case templateFiles s (storageKey template) of
             None \<Rightarrow> None
           | Some zipBytes \<Rightarrow> Some (admZip env zipBytes)))"

definition prepared :: "buildEnv \<Rightarrow> service \<Rightarrow> GameProject \<Rightarrow> bool" where
  "prepared env s p =
     ((case archiveOutcome env s p of Some (Inr extractedRoot) \<Rightarrow> True | _ \<Rightarrow> False)
      \<and> injectScriptsError env = None
      \<and> (if aiUnityConfig p = None then True else injectAiPatchError env = None)
      \<and> (if truthy (assetsCollectionId p) then injectAssetsError env = None else True)
      \<and> js_trim (unityEditorPath env) \<noteq> []
      \<and> mkdirOutError env = None)"

definition runOk :: "nat \<Rightarrow> unityRun \<Rightarrow> bool" where
  "runOk limit run = (spawnError run = None \<and> \<not> exceedsTimeout limit run \<and> exitCode run = Some 0)"

text \<open>An environment whose archive library cannot open the stored archive.\<close>

definition badArchiveEnv :: buildEnv where
  "badArchiveEnv = sampleEnv\<lparr>admZip := (\<lambda>bytes. Inl ''Invalid or unsupported zip format. No END header found'')\<rparr>"

definition captureFailsEnv :: buildEnv where
  "captureFailsEnv = sampleEnv\<lparr>captureRun := exitedRun 12 1 ''Exception: No camera found for capture''\<rparr>"

text \<open>
  What a run shows of its state apart from the Library cache and the sandbox's Library
  directory: the proof that the cache cannot change the outcome compares runs by it.
\<close>

definition observed ::
  "buildState \<Rightarrow> GameProject \<times> (string \<times> nat) list \<times> string option \<times> (string list \<times> fsnode list) \<times>
     unityConfig option \<times> (string \<rightharpoonup> GameProject) \<times> (string \<rightharpoonup> UnityTemplate) \<times>
     (string \<rightharpoonup> 8 word list) \<times> (string \<rightharpoonup> ChildProcess) \<times> ChildProcess list \<times> string list" where
  "observed bs =
     (bs_project bs, bs_steps bs, bs_error bs, bs_unityRoot bs, bs_patchConfig bs,
      projects (bs_service bs), templates (bs_service bs), templateFiles (bs_service bs),
      activeBuildProcesses (bs_service bs), killed (bs_service bs), scheduled (bs_service bs))"

text \<open>A sandbox with a restored Library, and a service whose cache holds one for \<open>t1\<close>.\<close>

definition cachedService :: service where
  "cachedService =
     (sampleService (sampleProject\<lparr>status := queued\<rparr>))\<lparr>libraryCache := [''t1'' \<mapsto> [File ''ArtifactDB'']]\<rparr>"

section \<open>The requests that write: ProjectsController and the template upload\<close>

text \<open>
  \<open>attachMedia\<close>: the files are stored and their URLs written to the document. The URLs
  (built from the project id, the clock and the file names) are given: \<open>img\<close> and \<open>vid\<close>
  when a preview image or video came with a buffer, \<open>shots\<close> for the screenshots that had
  one. The file store is taken not to throw.
\<close>

definition attachMedia ::
  "service \<Rightarrow> string \<Rightarrow> string \<Rightarrow> string option \<Rightarrow> string list \<Rightarrow> string option \<Rightarrow>
   (http_error + GameProject) \<times> service" where
  "attachMedia s owner projectId img shots vid =
     (case projects s projectId of
        None \<Rightarrow> (Inl (NotFoundException ''Project not found''), s)
      | Some project \<Rightarrow>
          if ownerId project \<noteq> owner then (Inl ForbiddenException, s)
          else
            (let p1 = (case img of Some u \<Rightarrow> project\<lparr>previewImageUrl := Some u\<rparr> | None \<Rightarrow> project);
                 p2 = (if shots \<noteq> [] then p1\<lparr>screenshotUrls := shots\<rparr> else p1);
                 p3 = (case vid of Some u \<Rightarrow> p2\<lparr>previewVideoUrl := Some u\<rparr> | None \<Rightarrow> p2)
             in (Inr p3, s\<lparr>projects := (projects s)(projectId \<mapsto> p3)\<rparr>)))"

text \<open>
  \<open>generateAiMetadata\<close>. The \<open>aiMetadata\<close> and \<open>aiGeneratedAt\<close> fields, which no other
  operation here reads, are not part of the project record: whether the document has
  \<open>aiMetadata\<close> is given, and so is the outcome of the AI call, of which the description is
  kept.
\<close>

definition generateAiMetadata ::
  "service \<Rightarrow> string \<Rightarrow> string \<Rightarrow> bool \<Rightarrow> bool \<Rightarrow> ai_exception + jsval \<Rightarrow>
   (ai_exception + http_error + GameProject) \<times> service" where
  "generateAiMetadata s owner projectId overwrite hasMetadata result =
     (case projects s projectId of
        None \<Rightarrow> (Inr (Inl (NotFoundException ''Project not found'')), s)
      | Some p \<Rightarrow>
          if ownerId p \<noteq> owner then (Inr (Inl ForbiddenException), s)
          else if \<not> overwrite \<and> hasMetadata then (Inr (Inr p), s)
          else
            (case result of
               Inl e \<Rightarrow> (Inl e, s)
             | Inr resultDescription \<Rightarrow>
                 (let p' = (if overwrite
                            then (case resultDescription of
                                    JStr d \<Rightarrow> if js_trim d \<noteq> [] then p\<lparr>description := js_trim d\<rparr> else p
                                  | _ \<Rightarrow> p)
                            else p)
                  in (Inr (Inr p'), s\<lparr>projects := (projects s)(projectId \<mapsto> p')\<rparr>))))"

text \<open>
  The requests of the controllers that save something: \<open>POST from-template\<close>,
  \<open>POST ai/create\<close>, \<open>PUT :id\<close>, \<open>POST :id/rebuild\<close>, \<open>POST :id/cancel\<close>,
  \<open>POST :id/media\<close>, \<open>POST :id/ai/generate\<close> and the template upload, each with what it
  receives from outside the service. The other routes (\<open>list\<close>, \<open>get\<close>,
  \<open>getDownloadUrl\<close>, \<open>getPreviewUrl\<close>, \<open>getRuntimeConfig\<close>, the file download) read with
  \<open>lean()\<close> and save nothing. \<open>handle\<close> is the service state a request leaves.
\<close>

datatype request =
    FromTemplate string string string string "string option" "string option"
  | AiCreate createFromAi_env createFromAi_params
  | UpdateProject string string UpdateProjectDto
  | Rebuild string string
  | Cancel string string nat
  | Media string string "string option" "string list" "string option"
  | AiGenerate string string bool bool "ai_exception + jsval"
  | UploadTemplate string string "8 word list option"

definition handle :: "(8 word list \<Rightarrow> string list option) \<Rightarrow> service \<Rightarrow> request \<Rightarrow> service" where
  "handle zipEntries s r =
     (case r of
        FromTemplate newId owner tid nm desc assets \<Rightarrow> snd (createFromTemplate s newId owner tid nm desc assets)
      | AiCreate env params \<Rightarrow> snd (createFromAi s env params)
      | UpdateProject owner pid dto \<Rightarrow> snd (update s owner pid dto)
      | Rebuild owner pid \<Rightarrow> snd (rebuild s owner pid)
      | Cancel owner pid now \<Rightarrow> snd (cancelBuild s owner pid now)
      | Media owner pid img shots vid \<Rightarrow> snd (attachMedia s owner pid img shots vid)
      | AiGenerate owner pid overwrite hasMetadata result \<Rightarrow>
          snd (generateAiMetadata s owner pid overwrite hasMetadata result)
      | UploadTemplate newId finalName file \<Rightarrow> snd (uploadTemplate s zipEntries newId finalName file))"

text \<open>The id the store gives the document that a creating request adds.\<close>

definition newProjectId :: "request \<Rightarrow> string option" where
  "newProjectId r =
     (case r of
        FromTemplate newId owner tid nm desc assets \<Rightarrow> Some newId
      | AiCreate env params \<Rightarrow> Some (ce_newId env)
      | _ \<Rightarrow> None)"

text \<open>
  The states the service can be in: it starts with empty collections, and every step is a
  request or the run of a build.
\<close>

definition emptyService :: service where
  "emptyService = \<lparr>projects = Map.empty, templates = Map.empty, templateFiles = Map.empty,
     libraryCache = Map.empty, activeBuildProcesses = Map.empty, killed = [], scheduled = []\<rparr>"

inductive reachable :: "(8 word list \<Rightarrow> string list option) \<Rightarrow> service \<Rightarrow> bool"
  for zipEntries :: "8 word list \<Rightarrow> string list option" where
  start: "reachable zipEntries emptyService"
| request: "reachable zipEntries s \<Longrightarrow> reachable zipEntries (handle zipEntries s r)"
| build: "reachable zipEntries s \<Longrightarrow> reachable zipEntries (snd (runBuild s env projectId))"

text \<open>An archive that \<open>checkArchive\<close> lets through.\<close>

definition acceptedArchive :: "(8 word list \<Rightarrow> string list option) \<Rightarrow> 8 word list \<Rightarrow> bool" where
  "acceptedArchive zipEntries buf = (checkArchive zipEntries (Some buf) = Inr ())"

text \<open>
  An archive library that lists one entry for every archive it is given, and an upload of a
  small archive followed by a build request for it.
\<close>

definition oneEntry :: "8 word list \<Rightarrow> string list option" where
  "oneEntry buf = Some [''Assets/'']"

definition afterUpload :: service where
  "afterUpload = handle oneEntry emptyService (UploadTemplate ''t1'' ''Runner'' (Some [0x50, 0x4B, 0x03, 0x04]))"

definition afterRequest :: service where
  "afterRequest = handle oneEntry afterUpload (FromTemplate ''p1'' ''u1'' ''t1'' ''Game'' None None)"

section \<open>Properties\<close>

subsection \<open>Download URL\<close>

lemma desiredKey_specific: "desiredKey p t = js_or (specificKey p t) (resultStorageKey p)"
  by (simp add: desiredKey_def specificKey_def js_or_def truthy_def)

text \<open>
  C10. For a project the caller owns, \<open>getDownloadUrl\<close> fails with 'Project not ready'
  unless the status is \<open>ready\<close>. When it is \<open>ready\<close>, the URL of the requested target's
  own key is returned when that key is present (a non-empty string); when it is absent the
  generic \<open>resultStorageKey\<close> is returned instead; and 'Artifact not available' is raised
  exactly when both are absent.
\<close>

theorem getDownloadUrl_ready_fallback:
  assumes "projects s pid = Some p" and "ownerId p = owner"
  shows "(status p \<noteq> ready \<longrightarrow>
            getDownloadUrl s owner pid baseUrl target = Inl (BadRequestException ''Project not ready''))
       \<and> (status p = ready \<and> truthy (specificKey p (normTarget target)) \<longrightarrow>
            getDownloadUrl s owner pid baseUrl target =
              Inr (fileUrl baseUrl (the (specificKey p (normTarget target)))))
       \<and> (status p = ready \<and> \<not> truthy (specificKey p (normTarget target)) \<and> truthy (resultStorageKey p) \<longrightarrow>
            getDownloadUrl s owner pid baseUrl target = Inr (fileUrl baseUrl (the (resultStorageKey p))))
       \<and> (status p = ready \<longrightarrow>
            (getDownloadUrl s owner pid baseUrl target = Inl (BadRequestException ''Artifact not available'')
             \<longleftrightarrow> \<not> truthy (specificKey p (normTarget target)) \<and> \<not> truthy (resultStorageKey p)))"
  using assms
  by (auto simp add: getDownloadUrl_def desiredKey_specific normTarget_def js_or_def truthy_def
      split: option.splits)

text \<open>
  The native-package artifact of a web-built project is asked for and the web archive comes
  back; the same project while it is \<open>running\<close> is 'not ready'.
\<close>

theorem getDownloadUrl_ready_fallback_witness:
  "getDownloadUrl (sampleService sampleProject) ''u1'' ''p1'' ''http://h/'' (Some '' Android_APK'')
     = Inr ''http://h/api/projects/files/p1.zip''
   \<and> getDownloadUrl (sampleService (sampleProject\<lparr>status := running\<rparr>)) ''u1'' ''p1'' ''http://h/''
        (Some '' Android_APK'')
     = Inl (BadRequestException ''Project not ready'')"
proof -
  let ?t = "Some '' Android_APK''"
  let ?q = "sampleProject\<lparr>status := running\<rparr>"
  have a: "projects (sampleService sampleProject) ''p1'' = Some sampleProject"
    "ownerId sampleProject = ''u1''" "status sampleProject = ready"
    by (simp_all add: sampleService_def sampleProject_def)
  have n: "normTarget ?t = ''android_apk''"
    by code_simp
  have b: "\<not> truthy (specificKey sampleProject (normTarget ?t))" "truthy (resultStorageKey sampleProject)"
    by (simp_all add: n specificKey_def sampleProject_def truthy_def)
  have c: "fileUrl ''http://h/'' (the (resultStorageKey sampleProject)) = ''http://h/api/projects/files/p1.zip''"
    by code_simp
  have d: "projects (sampleService ?q) ''p1'' = Some ?q" "ownerId ?q = ''u1''" "status ?q \<noteq> ready"
    by (simp_all add: sampleService_def sampleProject_def)
  show ?thesis
    using getDownloadUrl_ready_fallback [OF a(1,2), of "''http://h/''" ?t]
      getDownloadUrl_ready_fallback [OF d(1,2), of "''http://h/''" ?t] a(3) b c d(3)
    by simp
qed

subsection \<open>Cancel\<close>

lemma cancelBuild_found:
  assumes "projects s pid = Some p" and "ownerId p = owner"
  shows "cancelBuild s owner pid now =
     (if status p \<notin> {queued, running} then (Inr (pid, status p), s)
      else (Inr (pid, failed),
            s\<lparr>projects := (projects s)(pid \<mapsto> p\<lparr>status := failed, error := Some ''Cancelled by user'',
                   buildTimings := Some (cancelledTimings (buildTimings p) now)\<rparr>),
               killed := (case activeBuildProcesses s pid of
                            None \<Rightarrow> killed s | Some child \<Rightarrow> killed s @ [child])\<rparr>))"
  using assms
  by (auto simp add: cancelBuild_def Let_def split: option.splits)

text \<open>
  C6. For a project the caller owns: cancelling a \<open>ready\<close> or \<open>failed\<close> job returns success
  with the status it had and changes nothing (no document, no process map, no signal);
  cancelling a \<open>queued\<close> or \<open>running\<close> job returns \<open>failed\<close>, stores status \<open>failed\<close> with
  the error 'Cancelled by user' and the finish time, and sends \<open>SIGKILL\<close> to the child
  registered under the job's id when there is one.
\<close>

theorem cancelBuild_effect:
  assumes "projects s pid = Some p" and "ownerId p = owner"
  shows "(status p \<in> {ready, failed} \<longrightarrow> cancelBuild s owner pid now = (Inr (pid, status p), s))
       \<and> (status p \<in> {queued, running} \<longrightarrow>
            cancelBuild s owner pid now =
              (Inr (pid, failed),
               s\<lparr>projects := (projects s)(pid \<mapsto> p\<lparr>status := failed, error := Some ''Cancelled by user'',
                      buildTimings := Some (cancelledTimings (buildTimings p) now)\<rparr>),
                  killed := (case activeBuildProcesses s pid of
                               None \<Rightarrow> killed s | Some child \<Rightarrow> killed s @ [child])\<rparr>))"
  using cancelBuild_found [OF assms, of now] by auto

theorem cancelBuild_effect_witness:
  "cancelBuild (sampleService sampleProject) ''u1'' ''p1'' 5 = (Inr (''p1'', ready), sampleService sampleProject)
   \<and> fst (cancelBuild (sampleService (sampleProject\<lparr>status := running\<rparr>)) ''u1'' ''p1'' 5) = Inr (''p1'', failed)
   \<and> killed (snd (cancelBuild (sampleService (sampleProject\<lparr>status := running\<rparr>)) ''u1'' ''p1'' 5)) = [7]
   \<and> map_option error
        (projects (snd (cancelBuild (sampleService (sampleProject\<lparr>status := running\<rparr>)) ''u1'' ''p1'' 5)) ''p1'')
       = Some (Some ''Cancelled by user'')"
proof -
  let ?q = "sampleProject\<lparr>status := running\<rparr>"
  have a: "projects (sampleService sampleProject) ''p1'' = Some sampleProject"
    "ownerId sampleProject = ''u1''" "status sampleProject = ready"
    by (simp_all add: sampleService_def sampleProject_def)
  have d: "projects (sampleService ?q) ''p1'' = Some ?q" "ownerId ?q = ''u1''" "status ?q = running"
    "activeBuildProcesses (sampleService ?q) ''p1'' = Some 7" "killed (sampleService ?q) = []"
    by (simp_all add: sampleService_def sampleProject_def)
  show ?thesis
    using cancelBuild_effect [OF a(1,2), of 5] cancelBuild_effect [OF d(1,2), of 5] a(3) d(3,4,5)
    by simp
qed

subsection \<open>Rebuild\<close>

lemma rebuild_found:
  assumes "projects s pid = Some p" and "ownerId p = owner"
  shows "rebuild s owner pid =
           (Inr pid,
            s\<lparr>projects := (projects s)(pid \<mapsto>
                 (if isAndroidApk (buildTarget p)
                  then p\<lparr>status := queued, error := None, resultStorageKey := None,
                         androidApkStorageKey := None, buildTimings := None\<rparr>
                  else p\<lparr>status := queued, error := None, resultStorageKey := None,
                         webglIndexStorageKey := None, webglZipStorageKey := None,
                         buildTimings := None\<rparr>)),
               scheduled := scheduled s @ [pid]\<rparr>)"
  using assms
  by (auto simp add: rebuild_def Let_def)

text \<open>
  C8. For a project the caller owns, \<open>rebuild\<close> stores status \<open>queued\<close>, no error, no
  generic result reference and no timings, and schedules a build. Of the target-specific
  references it clears those of the project's current build target only: for the Android
  target the APK key is cleared and the two WebGL keys keep their values; for any other
  target the two WebGL keys are cleared and the APK key keeps its value. Nothing else of
  the document changes.
\<close>

theorem rebuild_clears_current_target_only:
  assumes "projects s pid = Some p" and "ownerId p = owner"
  shows "\<exists>p'. rebuild s owner pid =
              (Inr pid, s\<lparr>projects := (projects s)(pid \<mapsto> p'), scheduled := scheduled s @ [pid]\<rparr>)
       \<and> status p' = queued \<and> error p' = None \<and> resultStorageKey p' = None \<and> buildTimings p' = None
       \<and> (isAndroidApk (buildTarget p) \<longrightarrow>
            androidApkStorageKey p' = None
            \<and> webglZipStorageKey p' = webglZipStorageKey p
            \<and> webglIndexStorageKey p' = webglIndexStorageKey p)
       \<and> (\<not> isAndroidApk (buildTarget p) \<longrightarrow>
            webglZipStorageKey p' = None \<and> webglIndexStorageKey p' = None
            \<and> androidApkStorageKey p' = androidApkStorageKey p)
       \<and> p'\<lparr>status := status p, error := error p, resultStorageKey := resultStorageKey p,
              androidApkStorageKey := androidApkStorageKey p, webglZipStorageKey := webglZipStorageKey p,
              webglIndexStorageKey := webglIndexStorageKey p, buildTimings := buildTimings p\<rparr> = p"
  using rebuild_found [OF assms] by auto

text \<open>
  A project built for WebGL, switched to the Android target and rebuilt keeps its WebGL
  archive and entry point.
\<close>

theorem rebuild_clears_current_target_only_witness:
  "map_option (\<lambda>p'. (status p', resultStorageKey p', androidApkStorageKey p', webglZipStorageKey p',
        webglIndexStorageKey p'))
     (projects (snd (rebuild (sampleService (sampleProject\<lparr>buildTarget := ''android''\<rparr>)) ''u1'' ''p1'')) ''p1'')
   = Some (queued, None, None, Some ''p1.zip'', Some ''p1/webgl/index.html'')"
proof -
  let ?q = "sampleProject\<lparr>buildTarget := ''android''\<rparr>"
  have d: "projects (sampleService ?q) ''p1'' = Some ?q" "ownerId ?q = ''u1''"
    "webglZipStorageKey ?q = Some ''p1.zip''" "webglIndexStorageKey ?q = Some ''p1/webgl/index.html''"
    by (simp_all add: sampleService_def sampleProject_def)
  have t: "isAndroidApk (buildTarget ?q)"
    by code_simp
  show ?thesis
    using rebuild_clears_current_target_only [OF d(1,2)] t d(3,4)
    by auto
qed

subsection \<open>Configuration overrides\<close>

lemma upper_char_hex: "is_hex_digit c \<Longrightarrow> is_upper_hex (upper_char c)"
  unfolding is_hex_digit_def
  apply (simp only: set_simps insert_iff empty_iff list.set)
  apply (elim disjE FalseE)
  apply (simp_all only:)
  apply (code_simp)+
  done

lemma upper_char_hash: "upper_char CHR ''#'' = CHR ''#''"
  by code_simp

lemma normHex_valid: "normHex v = Some h \<Longrightarrow> validHexUpper h"
  by (auto simp add: normHex_def Let_def hexColorRegex_def validHexUpper_def toUpperCase_def
      upper_char_hash upper_char_hex list_all_iff split: jsval.splits if_splits list.splits)

lemma merge_num:
  "(f, lo, hi) \<in> set numRanges \<Longrightarrow>
   f (mergeAiUpdate cur d) =
     (if typeofNumber (f (unityConfig.truncate d)) then f (unityConfig.truncate d) else f cur)"
  apply (simp add: numRanges_def)
  apply (elim disjE conjE)
  apply (simp_all add: mergeAiUpdate_def unityConfig.truncate_def)
  done

lemma dto_range:
  "(f, lo, hi) \<in> set numRanges \<Longrightarrow> dtoNumbersValid d \<Longrightarrow> f d = JNum r \<Longrightarrow> lo \<le> r \<and> r \<le> hi"
  by (fastforce simp add: dtoNumbersValid_def list_all_iff dtoNumber_def)

lemma merge_color:
  "f \<in> set colorFields \<Longrightarrow>
   f (mergeAiUpdate cur d) = (case normHex (f (unityConfig.truncate d)) of Some h \<Rightarrow> JStr h | None \<Rightarrow> f cur)"
  apply (simp add: colorFields_def)
  apply (elim disjE)
  apply (hypsubst, simp add: mergeAiUpdate_def unityConfig.truncate_def)+
  done

lemma merged_num:
  "(f, lo, hi) \<in> set numRanges \<Longrightarrow>
   f (mergedCfg init u) = pickNumber (f init) (f u) (f (mergedCfg emptyConfig emptyConfig))"
  apply (simp add: numRanges_def)
  apply (elim disjE conjE)
  apply (simp_all add: mergedCfg_def emptyConfig_def pickNumber_def typeofNumber_def)
  done

lemma update_Inr:
  assumes "projects s pid = Some p" "ownerId p = owner" "hasAiUpdate dto"
    "update s owner pid dto = (Inr p', s')"
  shows "aiUnityConfig p' = Some (mergeAiUpdate (storedConfig p) dto) \<and> projects s' pid = Some p'"
proof -
  have bt: "aiUnityConfig (updateBuildTarget v p) = aiUnityConfig p" for v
    by (simp add: updateBuildTarget_def Let_def split: jsval.splits)
  show ?thesis
    using assms
    by (auto simp add: update_def Let_def storedConfig_def bt split: if_splits jsval.splits)
qed

lemma createFromAi_Inr:
  assumes "createFromAi s env params = (Inr (Inr newId), s')"
  shows "\<exists>p' u. projects s' newId = Some p' \<and>
     aiUnityConfig p' = Some (mergedCfg (case cp_initialConfig params of Some i \<Rightarrow> i | None \<Rightarrow> emptyConfig) u)"
  using assms
  by (auto simp add: createFromAi_def Let_def split: if_splits sum.splits option.splits)

lemma js_trim_Nil: "js_trim [] = []"
  by (simp add: js_trim_def)

lemma update_numbers:
  assumes "projects s pid = Some p" "ownerId p = owner" "hasAiUpdate dto"
    "update s owner pid dto = (Inr p', s')"
    and mem: "(f, lo, hi) \<in> set numRanges" and num: "f (unityConfig.truncate dto) = JNum r"
  shows "f (storedConfig p') = JNum r \<and> (dtoNumbersValid (unityConfig.truncate dto) \<longrightarrow> lo \<le> r \<and> r \<le> hi)"
proof -
  have "storedConfig p' = mergeAiUpdate (storedConfig p) dto"
    using update_Inr [OF assms(1-4)] by (simp add: storedConfig_def)
  then have "f (storedConfig p') = JNum r"
    using merge_num [OF mem, of "storedConfig p" dto] num by (simp add: typeofNumber_def)
  then show ?thesis
    using dto_range [OF mem _ num] by blast
qed

lemma update_colors:
  assumes "projects s pid = Some p" "ownerId p = owner" "hasAiUpdate dto"
    "update s owner pid dto = (Inr p', s')"
    and mem: "f \<in> set colorFields"
  shows "case normHex (f (unityConfig.truncate dto)) of
            Some h \<Rightarrow> f (storedConfig p') = JStr h \<and> validHexUpper h
          | None \<Rightarrow> f (storedConfig p') = f (storedConfig p)"
proof -
  have "storedConfig p' = mergeAiUpdate (storedConfig p) dto"
    using update_Inr [OF assms(1-4)] by (simp add: storedConfig_def)
  then show ?thesis
    using merge_color [OF mem, of "storedConfig p" dto]
    by (simp add: normHex_valid split: option.splits)
qed

lemma createFromAi_numbers:
  assumes "createFromAi s env params = (Inr (Inr newId), s2)" "cp_initialConfig params = Some init"
  shows "\<exists>p2. projects s2 newId = Some p2 \<and>
        (\<forall>(f, lo, hi) \<in> set numRanges. \<forall>r. f init = JNum r \<longrightarrow>
            f (storedConfig p2) = JNum r \<and> (dtoNumbersValid init \<longrightarrow> lo \<le> r \<and> r \<le> hi))"
proof -
  obtain p2 u where p2: "projects s2 newId = Some p2" "aiUnityConfig p2 = Some (mergedCfg init u)"
    using createFromAi_Inr [OF assms(1)] assms(2) by auto
  then have sc: "storedConfig p2 = mergedCfg init u"
    by (simp add: storedConfig_def)
  have "f (storedConfig p2) = JNum r \<and> (dtoNumbersValid init \<longrightarrow> lo \<le> r \<and> r \<le> hi)"
    if mem: "(f, lo, hi) \<in> set numRanges" and num: "f init = JNum r" for f lo hi r
    using merged_num [OF mem, of init u] num dto_range [OF mem _ num]
    by (simp add: sc pickNumber_def typeofNumber_def)
  with p2(1) show ?thesis by blast
qed

text \<open>
  What the two operations store of a bag. Project update, when the bag holds one of the
  configuration keys that \<open>hasAiUpdate\<close> looks at: every numeric key it holds is stored
  exactly as supplied (the service does not clamp), so the stored value lies in the
  documented range whenever the bag passes the DTO's numeric validators; and every colour key
  is stored either as the supplied value normalised to an upper-case \<open>#RRGGBB\<close>, or, when
  the supplied value is missing or not of that shape, not at all: the previously stored value
  stays. AI-assisted creation: every numeric key of the caller's \<open>initialConfig\<close> is stored
  exactly as supplied, hence in range for a validated bag.
\<close>

theorem config_overrides_stored:
  "(projects s pid = Some p \<and> ownerId p = owner \<and> hasAiUpdate dto \<and> update s owner pid dto = (Inr p', s') \<longrightarrow>
      projects s' pid = Some p' \<and>
      (\<forall>(f, lo, hi) \<in> set numRanges. \<forall>r. f (unityConfig.truncate dto) = JNum r \<longrightarrow>
          f (storedConfig p') = JNum r \<and> (dtoNumbersValid (unityConfig.truncate dto) \<longrightarrow> lo \<le> r \<and> r \<le> hi)) \<and>
      (\<forall>f \<in> set colorFields.
          case normHex (f (unityConfig.truncate dto)) of
            Some h \<Rightarrow> f (storedConfig p') = JStr h \<and> validHexUpper h
          | None \<Rightarrow> f (storedConfig p') = f (storedConfig p)))
   \<and> (createFromAi s env params = (Inr (Inr newId), s2) \<and> cp_initialConfig params = Some init \<longrightarrow>
      (\<exists>p2. projects s2 newId = Some p2 \<and>
        (\<forall>(f, lo, hi) \<in> set numRanges. \<forall>r. f init = JNum r \<longrightarrow>
            f (storedConfig p2) = JNum r \<and> (dtoNumbersValid init \<longrightarrow> lo \<le> r \<and> r \<le> hi))))"
proof (intro conjI impI)
  assume a: "projects s pid = Some p \<and> ownerId p = owner \<and> hasAiUpdate dto \<and> update s owner pid dto = (Inr p', s')"
  then have a': "projects s pid = Some p" "ownerId p = owner" "hasAiUpdate dto"
    "update s owner pid dto = (Inr p', s')"
    by simp_all
  show "projects s' pid = Some p'"
    using update_Inr [OF a'] by simp
  show "\<forall>(f, lo, hi) \<in> set numRanges. \<forall>r. f (unityConfig.truncate dto) = JNum r \<longrightarrow>
          f (storedConfig p') = JNum r \<and> (dtoNumbersValid (unityConfig.truncate dto) \<longrightarrow> lo \<le> r \<and> r \<le> hi)"
    using update_numbers [OF a'] by blast
  show "\<forall>f \<in> set colorFields.
          case normHex (f (unityConfig.truncate dto)) of
            Some h \<Rightarrow> f (storedConfig p') = JStr h \<and> validHexUpper h
          | None \<Rightarrow> f (storedConfig p') = f (storedConfig p)"
    using update_colors [OF a'] by blast
next
  assume "createFromAi s env params = (Inr (Inr newId), s2) \<and> cp_initialConfig params = Some init"
  then show "\<exists>p2. projects s2 newId = Some p2 \<and>
        (\<forall>(f, lo, hi) \<in> set numRanges. \<forall>r. f init = JNum r \<longrightarrow>
            f (storedConfig p2) = JNum r \<and> (dtoNumbersValid init \<longrightarrow> lo \<le> r \<and> r \<le> hi))"
    using createFromAi_numbers by blast
qed

text \<open>
  \<open>hasAiUpdate\<close> does not look at \<open>playerColor\<close>: a bag without any of the keys it looks
  at leaves the stored configuration as it was.
\<close>

lemma update_without_config_key:
  assumes "projects s pid = Some p" and "ownerId p = owner" and "\<not> hasAiUpdate dto"
    and "update s owner pid dto = (Inr p', s')"
  shows "aiUnityConfig p' = aiUnityConfig p"
proof -
  have bt: "aiUnityConfig (updateBuildTarget v p) = aiUnityConfig p" for v
    by (simp add: updateBuildTarget_def Let_def split: jsval.splits)
  show ?thesis
    using assms
    by (auto simp add: update_def Let_def bt split: if_splits jsval.splits)
qed

text \<open>
  Claim C2. Every colour stored from a caller's bag is to be a valid \<open>#RRGGBB\<close> in upper
  case or the documented fallback. \<open>createFromAi\<close> stores the caller's primary colour
  \<open>#abcdef\<close> as it is, neither in upper case nor replaced by the fallback \<open>#22C55E\<close>,
  while \<open>update\<close> stores the same colour as \<open>#ABCDEF\<close>. And \<open>update\<close> drops a bag that
  holds only a player colour, although its \<open>normHex\<close> accepts that colour: the document and
  the service state stay as they were.
\<close>

theorem createFromAi_colour_stored_raw:
  "map_option (primaryColor \<circ> storedConfig)
     (projects (snd (createFromAi (sampleService sampleProject) sampleAiEnv sampleParams)) ''p2'')
     = Some (JStr ''#abcdef'')
   \<and> \<not> validHexUpper ''#abcdef'' \<and> ''#abcdef'' \<noteq> ''#22C55E''
   \<and> map_option (primaryColor \<circ> storedConfig)
       (projects (snd (update (sampleService sampleProject) ''u1'' ''p1'' primaryColorDto)) ''p1'')
     = Some (JStr ''#ABCDEF'')
   \<and> normHex (playerColor playerColorDto) = Some ''#ABCDEF''
   \<and> update (sampleService sampleProject) ''u1'' ''p1'' playerColorDto
     = (Inr sampleProject, sampleService sampleProject)"
proof -
  have t: "js_trim ''a racing game'' = ''a racing game''" by code_simp
  have v: "\<not> validHexUpper ''#abcdef''" by code_simp
  have n: "normHex (JStr ''#abcdef'') = Some ''#ABCDEF''" by code_simp
  have u: "normHex JUndefined = None" by (simp add: normHex_def)
  have 1: "map_option (primaryColor \<circ> storedConfig)
     (projects (snd (createFromAi (sampleService sampleProject) sampleAiEnv sampleParams)) ''p2'')
     = Some (JStr ''#abcdef'')"
    by (simp add: createFromAi_def sampleParams_def sampleAiEnv_def t Let_def orEmpty_def js_trim_Nil
        storedConfig_def mergedCfg_def pickString_def typeofString_def emptyConfig_def)
  have 2: "map_option (primaryColor \<circ> storedConfig)
       (projects (snd (update (sampleService sampleProject) ''u1'' ''p1'' primaryColorDto)) ''p1'')
     = Some (JStr ''#ABCDEF'')"
    by (simp add: update_def Let_def primaryColorDto_def unityConfig.extend_def emptyConfig_def
        UpdateProjectDto.fields_def sampleService_def sampleProject_def updateBuildTarget_def
        hasAiUpdate_def typeofString_def mergeAiUpdate_def n u storedConfig_def)
  have 3: "normHex (playerColor playerColorDto) = Some ''#ABCDEF''"
    by (simp add: playerColorDto_def unityConfig.extend_def emptyConfig_def n)
  have 4: "update (sampleService sampleProject) ''u1'' ''p1'' playerColorDto
     = (Inr sampleProject, sampleService sampleProject)"
    by (simp add: update_def Let_def playerColorDto_def unityConfig.extend_def emptyConfig_def
        UpdateProjectDto.fields_def sampleService_def sampleProject_def updateBuildTarget_def
        hasAiUpdate_def typeofString_def typeofNumber_def typeofBoolean_def isArray_def)
  show ?thesis using 1 2 3 4 v by simp
qed

text \<open>
  An update with \<open>timeScale = 1.5\<close>, a colour without its \<open>#\<close> and a three-digit colour;
  a creation with \<open>speed = 7\<close>.
\<close>

theorem config_overrides_stored_witness:
  "timeScale (storedConfig (the (projects (snd (update (sampleService sampleProject) ''u1'' ''p1'' sampleDto)) ''p1'')))
     = JNum 1.5
   \<and> primaryColor (storedConfig (the (projects (snd (update (sampleService sampleProject) ''u1'' ''p1'' sampleDto)) ''p1'')))
     = JStr ''#22C55E''
   \<and> accentColor (storedConfig (the (projects (snd (update (sampleService sampleProject) ''u1'' ''p1'' sampleDto)) ''p1'')))
     = JUndefined
   \<and> speed (storedConfig (the (projects (snd (createFromAi (sampleService sampleProject) sampleAiEnv sampleParams)) ''p2'')))
     = JNum 7"
proof -
  let ?svc = "sampleService sampleProject"
  let ?d = "unityConfig.truncate sampleDto"
  let ?init = "emptyConfig\<lparr>speed := JNum 7, primaryColor := JStr ''#abcdef''\<rparr>"
  have found: "projects ?svc ''p1'' = Some sampleProject" "ownerId sampleProject = ''u1''"
    by (simp_all add: sampleService_def sampleProject_def)
  have has: "hasAiUpdate sampleDto"
    by (simp add: hasAiUpdate_def sampleDto_def typeofNumber_def unityConfig.extend_def emptyConfig_def)
  obtain P S where u: "update ?svc ''u1'' ''p1'' sampleDto = (Inr P, S)"
    using found has
    by (simp add: update_def Let_def sampleDto_def unityConfig.extend_def emptyConfig_def
        UpdateProjectDto.fields_def)
  have dvals: "timeScale ?d = JNum 1.5" "primaryColor ?d = JStr '' 22c55e''" "accentColor ?d = JStr ''#abc''"
    by (simp_all add: sampleDto_def unityConfig.truncate_def unityConfig.extend_def emptyConfig_def)
  have hex: "normHex (JStr '' 22c55e'') = Some ''#22C55E''" "normHex (JStr ''#abc'') = None"
    by code_simp+
  have mem: "(timeScale, 0.5, 2.0) \<in> set numRanges" "(speed, 0, 20) \<in> set numRanges"
    "primaryColor \<in> set colorFields" "accentColor \<in> set colorFields"
    by (simp_all add: numRanges_def colorFields_def)
  have old: "accentColor (storedConfig sampleProject) = JUndefined"
    by (simp add: storedConfig_def sampleProject_def emptyConfig_def)
  have t: "js_trim ''a racing game'' = ''a racing game''" by code_simp
  obtain S2 where c: "createFromAi ?svc sampleAiEnv sampleParams = (Inr (Inr ''p2''), S2)"
    by (simp add: createFromAi_def sampleParams_def sampleAiEnv_def t Let_def orEmpty_def js_trim_Nil)
  have init: "cp_initialConfig sampleParams = Some ?init" "speed ?init = JNum 7"
    by (simp_all add: sampleParams_def)
  note inst = config_overrides_stored [where s = ?svc and pid = "''p1''" and p = sampleProject
      and owner = "''u1''" and dto = sampleDto and p' = P and s' = S and env = sampleAiEnv
      and params = sampleParams and newId = "''p2''" and ?s2.0 = S2 and init = ?init]
  from inst found has u have 1: "projects S ''p1'' = Some P"
    and 2: "\<forall>(f, lo, hi) \<in> set numRanges. \<forall>r. f ?d = JNum r \<longrightarrow> f (storedConfig P) = JNum r
         \<and> (dtoNumbersValid ?d \<longrightarrow> lo \<le> r \<and> r \<le> hi)"
    and 3: "\<forall>f \<in> set colorFields. case normHex (f ?d) of
            Some h \<Rightarrow> f (storedConfig P) = JStr h \<and> validHexUpper h
          | None \<Rightarrow> f (storedConfig P) = f (storedConfig sampleProject)"
    by blast+
  from inst c init(1) obtain P2 where 4: "projects S2 ''p2'' = Some P2"
    and 5: "\<forall>(f, lo, hi) \<in> set numRanges. \<forall>r. f ?init = JNum r \<longrightarrow> f (storedConfig P2) = JNum r
         \<and> (dtoNumbersValid ?init \<longrightarrow> lo \<le> r \<and> r \<le> hi)"
    by blast
  have "timeScale (storedConfig P) = JNum 1.5"
    using 2 mem(1) dvals(1) by blast
  moreover have "primaryColor (storedConfig P) = JStr ''#22C55E''"
    using 3 mem(3) dvals(2) hex(1) by fastforce
  moreover have "accentColor (storedConfig P) = JUndefined"
    using 3 mem(4) dvals(3) hex(2) old by fastforce
  moreover have "speed (storedConfig P2) = JNum 7"
    using 5 mem(2) init(2) by blast
  ultimately show ?thesis
    using u c 1 4 by simp
qed

subsection \<open>The process runner\<close>

lemma length_js_trim: "length (js_trim s) \<le> length s"
proof -
  have "length (dropWhile P xs) \<le> length xs" for P and xs :: string
    by (induction xs) auto
  from this [of js_is_space "rev (dropWhile js_is_space s)"] this [of js_is_space s]
  show ?thesis by (simp add: js_trim_def)
qed

lemma length_lastN: "length (lastN n xs) \<le> n"
  by (simp add: lastN_def)

lemma lastN_short: "length xs \<le> n \<Longrightarrow> lastN n xs = xs"
  by (simp add: lastN_def)

lemma extractUnityErrorSummary_bound: "length (extractUnityErrorSummary out) \<le> 6000"
proof -
  have "length (if length s > 6000 then lastN 6000 s else s) \<le> 6000" for s :: string
    by (simp add: length_lastN)
  then show ?thesis
    unfolding extractUnityErrorSummary_def Let_def
    by (meson length_js_trim order_trans)
qed

lemma exitMessage_tail:
  "exitMessage code out =
     ''Unity exited with code '' @ showCode code @ ''. '' @
       (if extractUnityErrorSummary out \<noteq> [] then ''Error summary:'' @ [CHR 0x0A] @ extractUnityErrorSummary out
        else ''Output tail: '' @ lastN 4000 out)"
  by (simp add: exitMessage_def Let_def lastN_short)


lemma runUnity_killed:
  assumes "spawnError run = None" and "exceedsTimeout limit run"
  shows "runUnity s pid limit run =
     (Inl (exitMessage None (if stderrAt run limit \<noteq> [] then stderrAt run limit else stdoutAt run limit)),
      s\<lparr>killed := killed s @ [childProc run],
         activeBuildProcesses := (activeBuildProcesses s)(pid := None)\<rparr>)"
  using assms by (simp add: runUnity_def runResult_def Let_def onClose_def)

text \<open>
  C7, as amended. An invocation that has not closed when the timer fires is sent
  \<open>SIGKILL\<close>, its registration is removed, and \<open>runUnity\<close> ends with an error (it
  does not hang). The error message is the fixed text 'Unity exited with code null. '
  followed, when the summary is not empty, by 'Error summary:', a line feed and the summary,
  which is at most 6000 characters long (the last 60 of the pattern-matched lines among the
  last 400 output lines, or of those 400 lines when no pattern matches, joined, clipped to
  their last 6000 characters and trimmed); and, when the summary is empty, by
  'Output tail: ' and the last 4000 characters of the raw output, which may be empty.
\<close>

theorem runUnity_timeout_error:
  assumes "spawnError run = None" and "exceedsTimeout limit run"
  shows "let out = (if stderrAt run limit \<noteq> [] then stderrAt run limit else stdoutAt run limit);
             summary = extractUnityErrorSummary out
         in fst (runUnity s pid limit run) =
              Inl (''Unity exited with code null. '' @
                   (if summary \<noteq> [] then ''Error summary:'' @ [CHR 0x0A] @ summary
                    else ''Output tail: '' @ lastN 4000 out))
            \<and> length summary \<le> 6000 \<and> length (lastN 4000 out) \<le> 4000
            \<and> killed (snd (runUnity s pid limit run)) = killed s @ [childProc run]
            \<and> activeBuildProcesses (snd (runUnity s pid limit run)) pid = None"
  using runUnity_killed [OF assms, of s pid]
  by (simp add: Let_def exitMessage_tail showCode_def extractUnityErrorSummary_bound length_lastN)

text \<open>A build that hangs after a compiler error, under the default timeout of 20 minutes.\<close>

theorem runUnity_timeout_error_witness:
  "fst (runUnity (sampleService sampleProject) ''p1'' (maxMs None) (hungRun compileErrorLog)) =
     Inl (''Unity exited with code null. Error summary:'' @ [CHR 0x0A] @ ''Assets/A.cs(1,1): error CS0246: missing'')
   \<and> killed (snd (runUnity (sampleService sampleProject) ''p1'' (maxMs None) (hungRun compileErrorLog))) = [9]
   \<and> maxMs None = 20 * 60 * 1000"
proof -
  have a: "spawnError (hungRun compileErrorLog) = None" "exceedsTimeout (maxMs None) (hungRun compileErrorLog)"
    by (simp_all add: hungRun_def exceedsTimeout_def)
  have e: "extractUnityErrorSummary compileErrorLog = ''Assets/A.cs(1,1): error CS0246: missing''"
    by code_simp
  have o: "stderrAt (hungRun compileErrorLog) t = []"
    "stdoutAt (hungRun compileErrorLog) t = compileErrorLog"
    "childProc (hungRun compileErrorLog) = 9" "killed (sampleService sampleProject) = []" for t
    by (simp_all add: hungRun_def sampleService_def)
  have m: "maxMs None = 20 * 60 * 1000"
    by (simp add: maxMs_def)
  show ?thesis
    using runUnity_timeout_error [OF a, of "sampleService sampleProject" "''p1''"]
    by (simp add: Let_def o e m)
qed

text \<open>
  The claim as stated fails for a child that hangs without writing anything: the error
  carries an empty summary and an empty output tail.
\<close>

theorem runUnity_timeout_counterexample:
  "fst (runUnity (sampleService sampleProject) ''p1'' (maxMs None) (hungRun [])) =
     Inl ''Unity exited with code null. Output tail: ''
   \<and> extractUnityErrorSummary [] = [] \<and> lastN 4000 ([] :: string) = []"
proof -
  have e: "exitMessage None [] = ''Unity exited with code null. Output tail: ''"
    "extractUnityErrorSummary [] = []"
    by code_simp+
  show ?thesis
    by (simp add: runUnity_def runResult_def Let_def onClose_def hungRun_def exceedsTimeout_def e lastN_def)
qed

subsection \<open>Root discovery\<close>

lemma below_head: "p \<in> set (below ds) \<Longrightarrow> p \<noteq> [] \<and> hd p \<in> set (map entryName ds)"
  by (induction ds rule: below.induct) (auto split: if_splits)

lemma distinct_below: "distinctNames ds \<Longrightarrow> distinct (below ds)"
proof (induction ds rule: below.induct)
  case 1
  then show ?case by simp
next
  case (2 n ds)
  then show ?case by simp
next
  case (3 n es ds)
  show ?case
  proof (cases "n = ''__MACOSX''")
    case True
    then show ?thesis using 3 by simp
  next
    case False
    have de: "distinct (below es)" and dd: "distinct (below ds)"
      using 3 False by simp_all
    have inj: "distinct (map ((#) n) (below es))"
      using de by (simp add: distinct_map)
    have notin: "[n] \<notin> set (map ((#) n) (below es))"
      using below_head [of "[]" es] by auto
    have disj: "set ([n] # map ((#) n) (below es)) \<inter> set (below ds) = {}"
    proof -
      have "hd p = n" if "p \<in> set ([n] # map ((#) n) (below es))" for p
        using that by auto
      moreover have "hd p \<noteq> n" if "p \<in> set (below ds)" for p
        using below_head [OF that] 3(4) by auto
      ultimately show ?thesis by blast
    qed
    show ?thesis
      using False inj notin disj dd by simp
  qed
qed

lemma allPaths_pushChildren:
  "concat (map allPaths (pushChildren dir depth ds)) = map ((@) dir) (below ds)"
  by (induction dir depth ds rule: pushChildren.induct) (auto simp add: allPaths_def)

lemma allPaths_expand_eq:
  "concat (map allPaths (expand it)) = (if snd (snd it) \<ge> maxDepth then [] else tl (allPaths it))"
  by (cases it) (simp add: expand_def allPaths_pushChildren allPaths_def)

lemma allPaths_expand:
  "set (concat (map allPaths (expand it))) \<subseteq> set (tl (allPaths it)) \<and>
   (distinct (tl (allPaths it)) \<longrightarrow> distinct (concat (map allPaths (expand it))))"
  by (simp only: allPaths_expand_eq) simp

lemma queueInv_step:
  assumes "queueInv visited (it # queue)"
  shows "fst it \<notin> visited \<and> queueInv (insert (fst it) visited) (queue @ expand it)"
proof -
  let ?rest = "concat (map allPaths queue)"
  let ?new = "concat (map allPaths (expand it))"
  from assms have d: "distinct (allPaths it @ ?rest)" and v: "visited \<inter> set (allPaths it @ ?rest) = {}"
    by (simp_all add: queueInv_def)
  have hd: "allPaths it = fst it # tl (allPaths it)"
    by (simp add: allPaths_def)
  from d hd have d': "distinct (fst it # tl (allPaths it) @ ?rest)"
    by (metis append_Cons)
  have sub: "set ?new \<subseteq> set (tl (allPaths it))" and dn: "distinct ?new"
    using allPaths_expand [of it] d' by auto
  have 1: "fst it \<notin> visited"
    using v hd by (metis IntI UnCI empty_iff list.set_intros(1) set_append)
  have 2: "distinct (?rest @ ?new)"
    using d' sub dn by auto
  have 3: "insert (fst it) visited \<inter> set (?rest @ ?new) = {}"
  proof -
    have "set (?rest @ ?new) \<subseteq> set (tl (allPaths it) @ ?rest)"
      using sub by auto
    moreover have "fst it \<notin> set (tl (allPaths it) @ ?rest)"
      using d' by simp
    moreover have "visited \<inter> set (tl (allPaths it) @ ?rest) = {}"
      using v hd by (metis (no_types, lifting) Int_emptyI append_Cons disjoint_iff list.set_intros(2))
    ultimately show ?thesis by blast
  qed
  show ?thesis
    using 1 2 3 by (simp add: queueInv_def)
qed

lemma queueInv_steps:
  "queueInv visited (a @ b) \<Longrightarrow> queueInv (visited \<union> fst ` set a) (b @ concat (map expand a))"
proof (induction a arbitrary: visited b)
  case Nil
  then show ?case by simp
next
  case (Cons it a)
  from Cons.prems have "queueInv (insert (fst it) visited) (a @ (b @ expand it))"
    using queueInv_step [of visited it "a @ b"] by simp
  from Cons.IH [OF this] show ?case
    by (simp add: Un_commute insert_commute)
qed

lemma findLoop_prefix:
  "queueInv visited (a @ b) \<Longrightarrow>
   findLoop visited (a @ b) =
     (case find (\<lambda>(dir, es, depth). hasUnityLayout es) a of
        Some (dir, es, depth) \<Rightarrow> Some (dir, es)
      | None \<Rightarrow> findLoop (visited \<union> fst ` set a) (b @ concat (map expand a)))"
proof (induction a arbitrary: visited b)
  case Nil
  then show ?case by simp
next
  case (Cons it a)
  obtain dir es depth where it: "it = (dir, es, depth)"
    by (cases it) auto
  from Cons.prems have nv: "dir \<notin> visited"
    and inv: "queueInv (insert dir visited) (a @ (b @ expand it))"
    using queueInv_step [of visited it "a @ b"] it by simp_all
  show ?case
  proof (cases "hasUnityLayout es")
    case True
    then show ?thesis using it nv by simp
  next
    case False
    have "findLoop visited ((it # a) @ b) = findLoop (insert dir visited) (a @ (b @ expand it))"
      using it nv False by (simp add: expand_def)
    also have "\<dots> = (case find (\<lambda>(dir, es, depth). hasUnityLayout es) a of
        Some (dir, es, depth) \<Rightarrow> Some (dir, es)
      | None \<Rightarrow> findLoop (insert dir visited \<union> fst ` set a) ((b @ expand it) @ concat (map expand a)))"
      by (rule Cons.IH [OF inv])
    also have "\<dots> = (case find (\<lambda>(dir, es, depth). hasUnityLayout es) (it # a) of
        Some (dir, es, depth) \<Rightarrow> Some (dir, es)
      | None \<Rightarrow> findLoop (visited \<union> fst ` set (it # a)) (b @ concat (map expand (it # a))))"
      using it False by (simp split: option.splits)
    finally show ?thesis .
  qed
qed

lemma levelDirs_depth: "it \<in> set (levelDirs k tree) \<Longrightarrow> snd (snd it) = k"
proof (induction k arbitrary: it)
  case 0
  then show ?case by simp
next
  case (Suc k)
  have pc: "x \<in> set (pushChildren dir depth es) \<Longrightarrow> snd (snd x) = depth + 1" for x dir depth es
    by (induction dir depth es rule: pushChildren.induct) (auto split: if_splits)
  from Suc.prems obtain p where p: "p \<in> set (levelDirs k tree)"
    and x: "it \<in> set (case p of (dir, es, depth) \<Rightarrow> pushChildren dir depth es)"
    by auto
  from Suc.IH [OF p] x pc show ?case
    by (cases p) auto
qed

lemma expand_level:
  "concat (map expand (levelDirs k tree)) = (if k < maxDepth then levelDirs (Suc k) tree else [])"
proof -
  let ?f = "\<lambda>it. if k < maxDepth then (case it of (dir, es, depth) \<Rightarrow> pushChildren dir depth es) else []"
  have key: "expand it = ?f it" if "it \<in> set (levelDirs k tree)" for it
    using levelDirs_depth [OF that] by (cases it) (auto simp add: expand_def)
  have m: "map expand (levelDirs k tree) = map ?f (levelDirs k tree)"
    by (rule map_cong [OF refl]) (rule key)
  show ?thesis
    unfolding m by (cases "k < maxDepth") simp_all
qed

lemma queueInv_init: "distinctNames tree \<Longrightarrow> queueInv {} [([], tree, 0)]"
proof -
  assume "distinctNames tree"
  then have "distinct (below tree)" by (rule distinct_below)
  moreover have "[] \<notin> set (below tree)"
    using below_head [of "[]" tree] by auto
  moreover have "map ((@) []) (below tree) = below tree"
    by (induction "below tree") (simp_all add: map_idI)
  ultimately show ?thesis
    by (simp add: queueInv_def allPaths_def)
qed

lemma find_append_first:
  "find P (xs @ ys) = (case find P xs of None \<Rightarrow> find P ys | Some x \<Rightarrow> Some x)"
  by (induction xs) simp_all

lemma findUnityRoot_firstWithLayout:
  assumes "distinctNames tree"
  shows "findUnityRoot tree = firstWithLayout tree"
proof -
  let ?P = "\<lambda>(dir, es, depth). hasUnityLayout es"
  let ?next = "\<lambda>r. case r of Some (dir, es, depth) \<Rightarrow> Some (dir, es) | None \<Rightarrow> None"
  have step: "queueInv V (levelDirs k tree) \<Longrightarrow>
       findLoop V (levelDirs k tree) =
         (case find ?P (levelDirs k tree) of
            Some (dir, es, depth) \<Rightarrow> Some (dir, es)
          | None \<Rightarrow> findLoop (V \<union> fst ` set (levelDirs k tree))
                      (if k < maxDepth then levelDirs (Suc k) tree else []))
       \<and> queueInv (V \<union> fst ` set (levelDirs k tree)) (if k < maxDepth then levelDirs (Suc k) tree else [])"
    for V k
    using findLoop_prefix [of V "levelDirs k tree" "[]"] queueInv_steps [of V "levelDirs k tree" "[]"]
    by (simp add: expand_level del: levelDirs.simps split: option.splits)
  have i0: "queueInv {} (levelDirs 0 tree)"
    using queueInv_init [OF assms] by simp
  note s0 = step [OF i0]
  have i1: "queueInv ({} \<union> fst ` set (levelDirs 0 tree)) (levelDirs 1 tree)"
    using s0 by (simp add: maxDepth_def)
  note s1 = step [OF i1]
  have i2: "queueInv ({} \<union> fst ` set (levelDirs 0 tree) \<union> fst ` set (levelDirs 1 tree)) (levelDirs 2 tree)"
    using s1 by (simp add: maxDepth_def numeral_2_eq_2)
  note s2 = step [OF i2]
  have i3: "queueInv ({} \<union> fst ` set (levelDirs 0 tree) \<union> fst ` set (levelDirs 1 tree)
        \<union> fst ` set (levelDirs 2 tree)) (levelDirs 3 tree)"
    using s2 by (simp add: maxDepth_def numeral_3_eq_3)
  note s3 = step [OF i3]
  have loop: "findLoop {} [([], tree, 0)] = ?next (find ?P (breadthFirstOrder tree))"
    using s0 s1 s2 s3
    by (simp add: breadthFirstOrder_def find_append_first maxDepth_def numeral_2_eq_2 numeral_3_eq_3
        split: option.splits)
  show ?thesis
  proof (cases "hasUnityLayout tree")
    case True
    then show ?thesis
      by (simp add: findUnityRoot_def firstWithLayout_def breadthFirstOrder_def)
  next
    case False
    show ?thesis
      unfolding findUnityRoot_def firstWithLayout_def loop
      using False by (simp del: findLoop.simps split: option.splits)
  qed
qed


lemma pushChildren_paths:
  "it \<in> set (pushChildren dir depth ds) \<Longrightarrow>
   \<exists>n. fst it = dir @ [n] \<and> n \<noteq> ''__MACOSX'' \<and> snd (snd it) = depth + 1"
  by (induction dir depth ds rule: pushChildren.induct) (auto split: if_splits)

lemma levelDirs_paths:
  "it \<in> set (levelDirs k tree) \<Longrightarrow>
   length (fst it) = k \<and> snd (snd it) = k \<and> ''__MACOSX'' \<notin> set (fst it)"
proof (induction k arbitrary: it)
  case 0
  then show ?case by simp
next
  case (Suc k)
  from Suc.prems obtain p where p: "p \<in> set (levelDirs k tree)"
    and x: "it \<in> set (pushChildren (fst p) (snd (snd p)) (fst (snd p)))"
    by (auto simp add: case_prod_beta)
  from pushChildren_paths [OF x] Suc.IH [OF p] show ?case
    by auto
qed

text \<open>
  C4, as amended. In a tree whose directories have no two entries of the same name, root
  discovery returns the first directory, in breadth-first order (level by level from depth
  0 to depth 3, left to right within a level, \<open>__MACOSX\<close> directories and everything below
  them left out), that has entries named Assets, Packages and ProjectSettings, whether these
  are directories or files; and the extraction directory itself when no directory in that
  order has them. The directories of level \<open>k\<close> are at depth \<open>k\<close>, so the first match is
  a shallowest one.
\<close>

theorem findUnityRoot_breadth_first:
  assumes "distinctNames tree"
  shows "findUnityRoot tree =
           (case find (\<lambda>(dir, es, depth). hasUnityLayout es) (breadthFirstOrder tree) of
              Some (dir, es, depth) \<Rightarrow> (dir, es)
            | None \<Rightarrow> ([], tree))
         \<and> (\<forall>k. \<forall>(dir, es, depth) \<in> set (levelDirs k tree).
               length dir = k \<and> depth = k \<and> ''__MACOSX'' \<notin> set dir)"
proof
  show "findUnityRoot tree =
           (case find (\<lambda>(dir, es, depth). hasUnityLayout es) (breadthFirstOrder tree) of
              Some (dir, es, depth) \<Rightarrow> (dir, es)
            | None \<Rightarrow> ([], tree))"
    using findUnityRoot_firstWithLayout [OF assms] by (simp add: firstWithLayout_def)
  show "\<forall>k. \<forall>(dir, es, depth) \<in> set (levelDirs k tree).
               length dir = k \<and> depth = k \<and> ''__MACOSX'' \<notin> set dir"
    using levelDirs_paths [of _ _ tree] by fastforce
qed

text \<open>
  A project wrapped two levels deep wins over a junk directory at depth 1, over a later
  sibling and over a project at depth 3; a project at depth 4, and a tree with no project,
  fall back to the extraction directory.
\<close>

theorem findUnityRoot_breadth_first_witness:
  "fst (findUnityRoot wrappedTree) = [''wrap'', ''game'']
   \<and> fst (findUnityRoot tooDeepTree) = []
   \<and> fst (findUnityRoot [Dir ''only'' [File ''a.txt'']]) = []"
proof -
  have d: "distinctNames wrappedTree" "distinctNames tooDeepTree" "distinctNames [Dir ''only'' [File ''a.txt'']]"
    by code_simp+
  have f: "fst (firstWithLayout wrappedTree) = [''wrap'', ''game'']"
    "fst (firstWithLayout tooDeepTree) = []"
    "fst (firstWithLayout [Dir ''only'' [File ''a.txt'']]) = []"
    by code_simp+
  show ?thesis
    using findUnityRoot_breadth_first [OF d(1)] findUnityRoot_breadth_first [OF d(2)]
      findUnityRoot_breadth_first [OF d(3)] f
    by (simp add: firstWithLayout_def)
qed

text \<open>
  The claim as stated fails when the markers are files: the extraction directory has three
  files with the marker names and a subdirectory holding a real project. The shallowest
  directory with the three marker subdirectories is that subdirectory, at depth 1, yet
  discovery returns the extraction directory.
\<close>

theorem findUnityRoot_counterexample:
  "fst (findUnityRoot markerFilesTree) = []
   \<and> \<not> hasMarkerSubdirs markerFilesTree
   \<and> hasMarkerSubdirs unityProject
   \<and> ([''proj''], unityProject, 1) \<in> set (breadthFirstOrder markerFilesTree)"
proof -
  have "hasUnityLayout markerFilesTree" by code_simp
  then have "fst (findUnityRoot markerFilesTree) = []"
    by (simp add: findUnityRoot_def)
  moreover have "\<not> hasMarkerSubdirs markerFilesTree" by code_simp
  moreover have "hasMarkerSubdirs unityProject" by code_simp
  moreover have "([''proj''], unityProject, 1) \<in> set (breadthFirstOrder markerFilesTree)"
    by (simp add: breadthFirstOrder_def markerFilesTree_def)
  ultimately show ?thesis by simp
qed

subsection \<open>The build pipeline: ProjectsService.runBuild\<close>

lemma endStep_fields [simp]:
  "bs_project (endStep env n bs) = bs_project bs" "bs_service (endStep env n bs) = bs_service bs"
  "bs_error (endStep env n bs) = bs_error bs" "bs_unityRoot (endStep env n bs) = bs_unityRoot bs"
  "bs_library (endStep env n bs) = bs_library bs" "bs_patchConfig (endStep env n bs) = bs_patchConfig bs"
  "bs_steps (endStep env n bs) = bs_steps bs @ [(n, stepMs env n)]"
  by (simp_all add: endStep_def)

lemma throw_fields [simp]:
  "bs_project (throw m bs) = bs_project bs" "bs_service (throw m bs) = bs_service bs"
  "bs_error (throw m bs) = Some m" "bs_unityRoot (throw m bs) = bs_unityRoot bs"
  "bs_library (throw m bs) = bs_library bs" "bs_patchConfig (throw m bs) = bs_patchConfig bs"
  "bs_steps (throw m bs) = bs_steps bs"
  by (simp_all add: throw_def)

lemma step_None: "bs_error bs = None \<Longrightarrow> step f bs = f bs"
  by (simp add: step_def)

lemma step_Some: "bs_error bs = Some e \<Longrightarrow> step f bs = bs"
  by (simp add: step_def)

lemma step_error_back: "bs_error (step f bs) = None \<Longrightarrow> bs_error bs = None"
  by (simp add: step_def split: if_splits)

text \<open>The steps that stage the sandbox leave the document and the service state alone.\<close>

lemma sandbox_step_frames:
  "bs_project (loadTemplate env bs) = bs_project bs \<and> bs_service (loadTemplate env bs) = bs_service bs"
  "bs_project (extractTemplate env bs) = bs_project bs \<and> bs_service (extractTemplate env bs) = bs_service bs"
  "bs_project (ensureBurst env bs) = bs_project bs \<and> bs_service (ensureBurst env bs) = bs_service bs"
  "bs_project (libraryCacheRestore env bs) = bs_project bs \<and> bs_service (libraryCacheRestore env bs) = bs_service bs"
  "bs_project (fsStep env err n bs) = bs_project bs \<and> bs_service (fsStep env err n bs) = bs_service bs"
  "bs_project (injectAiPatch env bs) = bs_project bs \<and> bs_service (injectAiPatch env bs) = bs_service bs"
  "bs_project (injectAssets env bs) = bs_project bs \<and> bs_service (injectAssets env bs) = bs_service bs"
  "bs_project (checkEditorPath env bs) = bs_project bs \<and> bs_service (checkEditorPath env bs) = bs_service bs"
  "bs_project (fsAction err bs) = bs_project bs \<and> bs_service (fsAction err bs) = bs_service bs"
  by (simp_all add: loadTemplate_def extractTemplate_def ensureBurst_def libraryCacheRestore_def
      fsStep_def injectAiPatch_def injectAssets_def checkEditorPath_def fsAction_def
      split: option.splits sum.splits)

lemma step_frame:
  assumes "\<And>b. bs_project (f b) = bs_project b \<and> bs_service (f b) = bs_service b"
  shows "bs_project (step f bs) = bs_project bs \<and> bs_service (step f bs) = bs_service bs"
  using assms by (simp add: step_def)

lemma prepareSandbox_frame:
  "bs_project (prepareSandbox env bs) = bs_project bs \<and> bs_service (prepareSandbox env bs) = bs_service bs"
  unfolding prepareSandbox_def comp_apply
  by (simp only: step_frame [OF sandbox_step_frames(1)] step_frame [OF sandbox_step_frames(2)]
      step_frame [OF sandbox_step_frames(3)] step_frame [OF sandbox_step_frames(4)]
      step_frame [OF sandbox_step_frames(5)] step_frame [OF sandbox_step_frames(6)]
      step_frame [OF sandbox_step_frames(7)] step_frame [OF sandbox_step_frames(8)]
      step_frame [OF sandbox_step_frames(9)] simp_thms)


lemma sandbox_step_library:
  "bs_library (fsStep env err n bs) = bs_library bs"
  "bs_library (injectAiPatch env bs) = bs_library bs"
  "bs_library (injectAssets env bs) = bs_library bs"
  "bs_library (checkEditorPath env bs) = bs_library bs"
  "bs_library (fsAction err bs) = bs_library bs"
  by (simp_all add: fsStep_def injectAiPatch_def injectAssets_def checkEditorPath_def fsAction_def
      split: option.splits)

lemma prepareSandbox_staged:
  assumes prep: "prepared env (bs_service bs) (bs_project bs)" and ok: "bs_error bs = None"
  shows "bs_error (prepareSandbox env bs) = None
       \<and> (\<forall>tree. archiveOutcome env (bs_service bs) (bs_project bs) = Some (Inr tree) \<longrightarrow>
            bs_library (prepareSandbox env bs) =
              restoreLibrary (libraryCache (bs_service bs) (cacheKey (templateId (bs_project bs))))
                (sandboxLibrary (snd (findUnityRoot tree))) (restoreIo env))"
proof -
  let ?p = "bs_project bs" and ?s = "bs_service bs"
  define b1 where "b1 = step (loadTemplate env) bs"
  define b2 where "b2 = step (extractTemplate env) b1"
  define b3 where "b3 = step (ensureBurst env) b2"
  define b4 where "b4 = step (libraryCacheRestore env) b3"
  define b5 where "b5 = step (fsStep env (injectScriptsError env) ''inject_build_script'') b4"
  define b6 where "b6 = step (injectAiPatch env) b5"
  define b7 where "b7 = step (injectAssets env) b6"
  define b8 where "b8 = step (checkEditorPath env) b7"
  define b9 where "b9 = step (fsAction (mkdirOutError env)) b8"
  note fr = step_frame [OF sandbox_step_frames(1)] step_frame [OF sandbox_step_frames(2)]
      step_frame [OF sandbox_step_frames(3)] step_frame [OF sandbox_step_frames(4)]
      step_frame [OF sandbox_step_frames(5)] step_frame [OF sandbox_step_frames(6)]
      step_frame [OF sandbox_step_frames(7)] step_frame [OF sandbox_step_frames(8)]
      step_frame [OF sandbox_step_frames(9)]
  have f1: "bs_project b1 = ?p \<and> bs_service b1 = ?s" by (simp add: b1_def fr)
  have f2: "bs_project b2 = ?p \<and> bs_service b2 = ?s" by (simp add: b2_def fr f1)
  have f3: "bs_project b3 = ?p \<and> bs_service b3 = ?s" by (simp add: b3_def fr f2)
  have f4: "bs_project b4 = ?p \<and> bs_service b4 = ?s" by (simp add: b4_def fr f3)
  have f5: "bs_project b5 = ?p \<and> bs_service b5 = ?s" by (simp add: b5_def fr f4)
  have f6: "bs_project b6 = ?p \<and> bs_service b6 = ?s" by (simp add: b6_def fr f5)
  have f7: "bs_project b7 = ?p \<and> bs_service b7 = ?s" by (simp add: b7_def fr f6)
  obtain t z tree where arch: "templates ?s (templateId ?p) = Some t" "templateFiles ?s (storageKey t) = Some z"
      "admZip env z = Inr tree"
    using prep by (auto simp add: prepared_def archiveOutcome_def split: option.splits sum.splits)
  have ao: "archiveOutcome env ?s ?p = Some (Inr tree)"
    using arch by (simp add: archiveOutcome_def)
  have e1: "bs_error b1 = None"
    using ok arch by (simp add: b1_def step_None loadTemplate_def)
  have e2: "bs_error b2 = None" and r2: "bs_unityRoot b2 = findUnityRoot tree"
    using e1 arch f1 by (simp_all add: b2_def step_None extractTemplate_def endStep_def)
  have e3: "bs_error b3 = None" and r3: "bs_unityRoot b3 = findUnityRoot tree"
    using e2 r2 by (simp_all add: b3_def step_None ensureBurst_def)
  have e4: "bs_error b4 = None"
    and l4: "bs_library b4 = restoreLibrary (libraryCache ?s (cacheKey (templateId ?p)))
                (sandboxLibrary (snd (findUnityRoot tree))) (restoreIo env)"
    using e3 r3 f3 by (simp_all add: b4_def step_None libraryCacheRestore_def)
  have e5: "bs_error b5 = None" and l5: "bs_library b5 = bs_library b4"
    using e4 prep by (simp_all add: b5_def step_None sandbox_step_library) (simp add: fsStep_def prepared_def)
  have e6: "bs_error b6 = None" and l6: "bs_library b6 = bs_library b5"
    using e5 prep f5
    by (simp_all add: b6_def step_None sandbox_step_library)
       (simp add: injectAiPatch_def prepared_def split: option.splits if_splits)
  have e7: "bs_error b7 = None" and l7: "bs_library b7 = bs_library b6"
    using e6 prep f6
    by (simp_all add: b7_def step_None sandbox_step_library)
       (simp add: injectAssets_def fsStep_def prepared_def split: if_splits)
  have e8: "bs_error b8 = None" and l8: "bs_library b8 = bs_library b7"
    using e7 prep
    by (simp_all add: b8_def step_None sandbox_step_library) (simp add: checkEditorPath_def prepared_def)
  have e9: "bs_error b9 = None" and l9: "bs_library b9 = bs_library b8"
    using e8 prep
    by (simp_all add: b9_def step_None sandbox_step_library) (simp add: fsAction_def prepared_def)
  have "prepareSandbox env bs = b9"
    by (simp add: prepareSandbox_def b9_def b8_def b7_def b6_def b5_def b4_def b3_def b2_def b1_def)
  with e9 l9 l8 l7 l6 l5 l4 ao show ?thesis by simp
qed

lemma prepareSandbox_ok:
  assumes "prepared env (bs_service bs) (bs_project bs)" and "bs_error bs = None"
  shows "bs_error (prepareSandbox env bs) = None"
  using prepareSandbox_staged [OF assms] by simp

lemma prepareSandbox_bad_archive:
  assumes arch: "archiveOutcome env (bs_service bs) (bs_project bs) = Some (Inl e)" and ok: "bs_error bs = None"
  shows "bs_error (prepareSandbox env bs) = Some e"
proof -
  let ?p = "bs_project bs" and ?s = "bs_service bs"
  define b1 where "b1 = step (loadTemplate env) bs"
  define b2 where "b2 = step (extractTemplate env) b1"
  have f1: "bs_project b1 = ?p \<and> bs_service b1 = ?s"
    by (simp add: b1_def step_frame [OF sandbox_step_frames(1)])
  have a: "\<exists>t z. templates ?s (templateId ?p) = Some t \<and> templateFiles ?s (storageKey t) = Some z
      \<and> admZip env z = Inl e"
    using arch by (auto simp add: archiveOutcome_def split: option.splits)
  have e1: "bs_error b1 = None"
    using ok a by (auto simp add: b1_def step_None loadTemplate_def)
  have e2: "bs_error b2 = Some e"
    using e1 a f1 by (auto simp add: b2_def step_None extractTemplate_def)
  have "prepareSandbox env bs = b2"
    using e2 by (simp add: prepareSandbox_def b2_def [symmetric] b1_def [symmetric] step_Some)
  with e2 show ?thesis by simp
qed


lemma runUnity_result [simp]: "fst (runUnity s pid limit run) = runResult limit run"
  by (simp add: runUnity_def Let_def)

lemma runUnity_frame [simp]:
  "templates (snd (runUnity s pid limit run)) = templates s"
  "templateFiles (snd (runUnity s pid limit run)) = templateFiles s"
  "libraryCache (snd (runUnity s pid limit run)) = libraryCache s"
  "projects (snd (runUnity s pid limit run)) = projects s"
  by (simp_all add: runUnity_def Let_def split: option.splits)

lemma runResult_ok: "runOk limit run \<Longrightarrow> runResult limit run = Inr ()"
  by (simp add: runOk_def runResult_def onClose_def)

lemma awaitUnity_fields [simp]:
  "bs_project (awaitUnity env pid run n bs) = bs_project bs"
  "bs_error (awaitUnity env pid run n bs) =
     (case runResult (maxMs (timeoutMsEnv env)) run of Inl e \<Rightarrow> Some e | Inr u \<Rightarrow> bs_error bs)"
  "libraryCache (bs_service (awaitUnity env pid run n bs)) = libraryCache (bs_service bs)"
proof -
  obtain r s' where rs: "runUnity (bs_service bs) pid (maxMs (timeoutMsEnv env)) run = (r, s')"
    by (cases "runUnity (bs_service bs) pid (maxMs (timeoutMsEnv env)) run")
  have r: "r = runResult (maxMs (timeoutMsEnv env)) run"
    using rs runUnity_result [of "bs_service bs" pid "maxMs (timeoutMsEnv env)" run] by simp
  have c: "libraryCache s' = libraryCache (bs_service bs)"
    using rs runUnity_frame(3) [of "bs_service bs" pid "maxMs (timeoutMsEnv env)" run] by simp
  show "bs_project (awaitUnity env pid run n bs) = bs_project bs"
    by (simp add: awaitUnity_def rs split: sum.splits)
  show "bs_error (awaitUnity env pid run n bs) =
     (case runResult (maxMs (timeoutMsEnv env)) run of Inl e \<Rightarrow> Some e | Inr u \<Rightarrow> bs_error bs)"
    by (simp add: awaitUnity_def rs r [symmetric] split: sum.splits)
  show "libraryCache (bs_service (awaitUnity env pid run n bs)) = libraryCache (bs_service bs)"
    by (simp add: awaitUnity_def rs c split: sum.splits)
qed

lemma captureMedia_fields [simp]:
  "bs_project (captureMedia env pid bs) = bs_project bs"
  "libraryCache (bs_service (captureMedia env pid bs)) = libraryCache (bs_service bs)"
  "bs_error (captureMedia env pid bs) =
     (case mkdirMediaError env of
        Some e \<Rightarrow> Some e
      | None \<Rightarrow> (case runResult (maxMs (timeoutMsEnv env)) (captureRun env) of
                   Inl e \<Rightarrow> Some e | Inr u \<Rightarrow> bs_error bs))"
  by (simp_all add: captureMedia_def split: option.splits)

lemma libraryCacheSave_fields [simp]:
  "bs_project (libraryCacheSave env bs) = bs_project bs"
  "bs_error (libraryCacheSave env bs) = bs_error bs"
  by (simp_all add: libraryCacheSave_def Let_def)

lemma publishMedia_status [simp]: "status (publishMedia m p) = status p"
  by (simp add: publishMedia_def publishVideo_def Let_def split: option.splits sum.splits)

lemma uploadMedia_fields [simp]:
  "status (bs_project (uploadMedia env bs)) = status (bs_project bs)"
  "bs_error (uploadMedia env bs) = bs_error bs"
  "bs_service (uploadMedia env bs) = bs_service bs"
  by (simp_all add: uploadMedia_def)

lemma publishArtifact_outcome:
  "bs_error bs = None \<Longrightarrow>
   bs_error (publishArtifact env pid bs) \<noteq> None \<or> status (bs_project (publishArtifact env pid bs)) = ready"
  by (simp add: publishArtifact_def split: option.splits)

lemma publishArtifact_service [simp]: "bs_service (publishArtifact env pid bs) = bs_service bs"
  by (simp add: publishArtifact_def split: option.splits)

text \<open>After the \<open>try\<close> block either something was thrown or the document is \<open>ready\<close>.\<close>

lemma tryBlock_outcome:
  "bs_error (tryBlock env pid bs) \<noteq> None \<or> status (bs_project (tryBlock env pid bs)) = ready"
proof -
  define b where "b = (step (uploadMedia env) \<circ> step (libraryCacheSave env) \<circ>
     step (captureMedia env pid) \<circ> step (unityBuild env pid) \<circ> prepareSandbox env) bs"
  have t: "tryBlock env pid bs = step (publishArtifact env pid) b"
    by (simp add: tryBlock_def b_def)
  show ?thesis
    unfolding t using publishArtifact_outcome [of b env pid]
    by (cases "bs_error b") (simp_all add: step_def)
qed

lemma finalDocument_status:
  "status (finalDocument env (tryBlock env' pid bs)) \<in> {ready, failed}"
  using tryBlock_outcome [of env' pid bs]
  by (auto simp add: finalDocument_def split: option.splits)

lemma runningDocument_fields [simp]:
  "status (runningDocument env p) = running" "error (runningDocument env p) = None"
  "templateId (runningDocument env p) = templateId p"
  "aiUnityConfig (runningDocument env p) = aiUnityConfig p"
  "assetsCollectionId (runningDocument env p) = assetsCollectionId p"
  "buildTarget (runningDocument env p) = buildTarget p"
  by (simp_all add: runningDocument_def)

lemma runBuild_found:
  assumes "projects s pid = Some p"
  shows "fst (runBuild s env pid) =
     (if mkdtempError env \<noteq> None then [runningDocument env p]
      else [runningDocument env p,
            finalDocument env (tryBlock env pid
              (initialState env (s\<lparr>projects := (projects s)(pid \<mapsto> runningDocument env p)\<rparr>)
                 (runningDocument env p)))])"
  using assms by (auto simp add: runBuild_def Let_def split: option.splits)


lemma initialState_fields [simp]:
  "bs_project (initialState env s doc) = doc" "bs_service (initialState env s doc) = s"
  "bs_error (initialState env s doc) = None"
  by (simp_all add: initialState_def)

lemma archiveOutcome_running [simp]:
  "archiveOutcome env (s\<lparr>projects := m\<rparr>) (runningDocument env' p) = archiveOutcome env s p"
  by (simp add: archiveOutcome_def split: option.splits)

lemma prepared_running [simp]:
  "prepared env (s\<lparr>projects := m\<rparr>) (runningDocument env' p) = prepared env s p"
  by (simp add: prepared_def)

lemma tryBlock_after_prepare:
  "tryBlock env pid bs =
     step (publishArtifact env pid) (step (uploadMedia env) (step (libraryCacheSave env)
       (step (captureMedia env pid) (step (unityBuild env pid) (prepareSandbox env bs)))))"
  by (simp add: tryBlock_def)

lemma tryBlock_thrown:
  assumes "bs_error (prepareSandbox env bs) = Some e"
  shows "bs_error (tryBlock env pid bs) = Some e"
  using assms by (simp add: tryBlock_after_prepare step_Some)

lemma tryBlock_capture_fails:
  assumes "prepared env (bs_service bs) (bs_project bs)" and "bs_error bs = None"
    and "runOk (maxMs (timeoutMsEnv env)) (buildRun env)"
    and "mkdirMediaError env = None"
    and "runResult (maxMs (timeoutMsEnv env)) (captureRun env) = Inl e"
  shows "bs_error (tryBlock env pid bs) = Some e"
proof -
  define b where "b = prepareSandbox env bs"
  define b1 where "b1 = step (unityBuild env pid) b"
  define b2 where "b2 = step (captureMedia env pid) b1"
  have e0: "bs_error b = None"
    using prepareSandbox_ok [OF assms(1,2)] by (simp add: b_def)
  have e1: "bs_error b1 = None"
    using e0 runResult_ok [OF assms(3)] by (simp add: b1_def step_None unityBuild_def)
  have e2: "bs_error b2 = Some e"
    using e1 assms(4,5) by (simp add: b2_def step_None)
  show ?thesis
    using e2 by (simp add: tryBlock_after_prepare b_def [symmetric] b1_def [symmetric]
        b2_def [symmetric] step_Some)
qed

lemma finalDocument_thrown:
  "bs_error bs = Some e \<Longrightarrow>
   status (finalDocument env bs) = failed \<and> error (finalDocument env bs) = Some (catchMessage e)"
  by (simp add: finalDocument_def)

lemma runBuild_capture_failure:
  assumes "projects s pid = Some p" and "mkdtempError env = None" and "prepared env s p"
    and "runOk (maxMs (timeoutMsEnv env)) (buildRun env)"
    and "mkdirMediaError env = None"
    and "runResult (maxMs (timeoutMsEnv env)) (captureRun env) = Inl e"
  shows "map status (fst (runBuild s env pid)) = [running, failed]
       \<and> error (last (fst (runBuild s env pid))) = Some (catchMessage e)"
proof -
  let ?bs = "initialState env (s\<lparr>projects := (projects s)(pid \<mapsto> runningDocument env p)\<rparr>) (runningDocument env p)"
  have "bs_error (tryBlock env pid ?bs) = Some e"
    by (rule tryBlock_capture_fails) (simp_all add: assms)
  from finalDocument_thrown [OF this, of env] show ?thesis
    by (simp add: runBuild_found [OF assms(1)] assms(2))
qed

lemma runBuild_bad_archive:
  assumes "projects s pid = Some p" and "mkdtempError env = None"
    and "archiveOutcome env s p = Some (Inl e)"
  shows "map status (fst (runBuild s env pid)) = [running, failed]
       \<and> error (last (fst (runBuild s env pid))) = Some (catchMessage e)"
proof -
  let ?bs = "initialState env (s\<lparr>projects := (projects s)(pid \<mapsto> runningDocument env p)\<rparr>) (runningDocument env p)"
  have "bs_error (prepareSandbox env ?bs) = Some e"
    by (rule prepareSandbox_bad_archive) (simp_all add: assms)
  from finalDocument_thrown [OF tryBlock_thrown [OF this], of env] show ?thesis
    by (simp add: runBuild_found [OF assms(1)] assms(2))
qed

lemma runBuild_statuses:
  assumes "projects s pid = Some p"
  shows "map status (fst (runBuild s env pid)) \<in> {[running], [running, ready], [running, failed]}
       \<and> projects (snd (runBuild s env pid)) pid = Some (last (fst (runBuild s env pid)))"
proof -
  have "map status (fst (runBuild s env pid)) \<in> {[running], [running, ready], [running, failed]}"
    using finalDocument_status [of env env pid]
    by (auto simp add: runBuild_found [OF assms])
  moreover have "projects (snd (runBuild s env pid)) pid = Some (last (fst (runBuild s env pid)))"
    using assms by (simp add: runBuild_def Let_def split: option.splits)
  ultimately show ?thesis by simp
qed

lemma checkArchive_rejects:
  assumes "file = None \<or> (\<exists>buf. file = Some buf \<and>
      (length buf < 4 \<or> buf ! 0 \<noteq> 0x50 \<or> buf ! 1 \<noteq> 0x4B \<or> zipEntries buf = None \<or> zipEntries buf = Some []))"
  shows "\<exists>msg. checkArchive zipEntries file = Inl (BadRequestException msg)"
  using assms by (auto simp add: checkArchive_def split: option.splits)


lemma sample_found:
  "projects (sampleService q) ''p1'' = Some q"
  "templates (sampleService q) ''t1'' = Some \<lparr>tpl_name = ''Runner'', isPublic = True, storageKey = ''t1.zip''\<rparr>"
  "templateFiles (sampleService q) ''t1.zip'' = Some [0x50, 0x4B, 0x03, 0x04]"
  by (simp_all add: sampleService_def)

lemma sampleEnv_limit: "maxMs (timeoutMsEnv sampleEnv) = 1200000"
  by (simp add: sampleEnv_def maxMs_def)

text \<open>
  Claim C1. A failure of the media-capture pipeline must never mark the job as failed when
  the primary build succeeds. The publication of the media is guarded (\<open>uploadMedia\<close>
  never throws), but the capture run itself is awaited outside that guard: with a primary
  build that exits with code 0 and a capture run that exits with code 1, \<open>runBuild\<close>
  saves the document as \<open>running\<close> and then as \<open>failed\<close>, with the capture run's exit
  message as its error.
\<close>

theorem runBuild_capture_failure_fails_job:
  "map status (fst (runBuild (sampleService (sampleProject\<lparr>status := queued\<rparr>)) captureFailsEnv ''p1''))
     = [running, failed]
   \<and> error (last (fst (runBuild (sampleService (sampleProject\<lparr>status := queued\<rparr>)) captureFailsEnv ''p1'')))
     = Some (''Unity exited with code 1. Error summary:'' @ [CHR 0x0A] @ ''Exception: No camera found for capture'')
   \<and> runResult (maxMs (timeoutMsEnv captureFailsEnv)) (buildRun captureFailsEnv) = Inr ()"
proof -
  let ?q = "sampleProject\<lparr>status := queued\<rparr>"
  let ?e = "''Unity exited with code 1. Error summary:'' @ [CHR 0x0A] @ ''Exception: No camera found for capture''"
  have lim: "maxMs (timeoutMsEnv captureFailsEnv) = 1200000"
    by (simp add: captureFailsEnv_def sampleEnv_def maxMs_def)
  have tr: "js_trim ''/opt/unity/Editor/Unity'' \<noteq> []"
    by code_simp
  have prep: "prepared captureFailsEnv (sampleService ?q) ?q"
    using tr
    by (simp add: prepared_def archiveOutcome_def sample_found captureFailsEnv_def sampleEnv_def
        sampleProject_def truthy_def)
  have ok: "runOk 1200000 (buildRun captureFailsEnv)"
    by (simp add: runOk_def captureFailsEnv_def sampleEnv_def exitedRun_def exceedsTimeout_def)
  have msg: "exitMessage (Some 1) ''Exception: No camera found for capture'' = ?e"
    by code_simp
  have cap: "runResult 1200000 (captureRun captureFailsEnv) = Inl ?e"
    using msg
    by (simp add: runResult_def captureFailsEnv_def exitedRun_def exceedsTimeout_def onClose_def)
  have mk: "mkdtempError captureFailsEnv = None" "mkdirMediaError captureFailsEnv = None"
    by (simp_all add: captureFailsEnv_def sampleEnv_def)
  have "map status (fst (runBuild (sampleService ?q) captureFailsEnv ''p1'')) = [running, failed]
       \<and> error (last (fst (runBuild (sampleService ?q) captureFailsEnv ''p1''))) = Some (catchMessage ?e)"
    by (rule runBuild_capture_failure [OF sample_found(1) mk(1) prep _ mk(2)])
       (simp_all add: lim ok cap)
  moreover have "catchMessage ?e = ?e"
    by (simp add: catchMessage_def)
  ultimately show ?thesis
    using runResult_ok [OF ok] by (simp add: lim)
qed

text \<open>What each request does to the status of a job.\<close>

lemma updateBuildTarget_status [simp]: "status (updateBuildTarget v p) = status p"
  by (simp add: updateBuildTarget_def Let_def split: jsval.splits)

lemma update_status:
  assumes "projects s pid = Some p"
  shows "map_option status (projects (snd (update s owner i dto)) pid) = Some (status p)"
proof (cases "projects s i")
  case None
  then show ?thesis using assms by (simp add: update_def)
next
  case (Some q)
  have n: "status (case v of JStr n \<Rightarrow> f n | _ \<Rightarrow> q') = status q'"
    if "\<And>n. status (f n) = status q'" for v f and q' :: GameProject
    using that by (cases v) simp_all
  show ?thesis
  proof (cases "i = pid")
    case True
    with Some assms have q: "q = p" by simp
    show ?thesis
      using Some assms True
      by (simp add: update_def Let_def q n)
  next
    case False
    then show ?thesis
      using Some assms by (simp add: update_def Let_def)
  qed
qed

lemma cancelBuild_status:
  assumes "projects s pid = Some p"
  shows "map_option status (projects (snd (cancelBuild s owner i now)) pid) =
     Some (if i = pid \<and> owner = ownerId p \<and> status p \<in> {queued, running} then failed else status p)"
  using assms
  by (cases "i = pid") (auto simp add: cancelBuild_def Let_def split: option.splits)

lemma rebuild_status:
  assumes "projects s pid = Some p"
  shows "map_option status (projects (snd (rebuild s owner i)) pid) =
     Some (if i = pid \<and> owner = ownerId p then queued else status p)"
  using assms
  by (cases "i = pid") (auto simp add: rebuild_def Let_def split: option.splits)

lemma attachMedia_status:
  assumes "projects s pid = Some p"
  shows "map_option status (projects (snd (attachMedia s owner i img shots vid)) pid) = Some (status p)"
  using assms
  by (cases "i = pid") (auto simp add: attachMedia_def Let_def split: option.splits)

lemma generateAiMetadata_status:
  assumes "projects s pid = Some p"
  shows "map_option status (projects (snd (generateAiMetadata s owner i ow hm res)) pid) = Some (status p)"
  using assms
  by (cases "i = pid") (auto simp add: generateAiMetadata_def Let_def split: option.splits sum.splits jsval.splits)

lemma createFromTemplate_other:
  "i \<noteq> newId \<Longrightarrow> projects (snd (createFromTemplate s newId owner tid nm desc assets)) i = projects s i"
  by (simp add: createFromTemplate_def Let_def split: option.splits)

lemma createFromTemplate_new:
  "projects (snd (createFromTemplate s newId owner tid nm desc assets)) newId \<noteq> projects s newId \<Longrightarrow>
   map_option status (projects (snd (createFromTemplate s newId owner tid nm desc assets)) newId) = Some queued"
  by (auto simp add: createFromTemplate_def Let_def split: option.splits if_splits)

lemma createFromAi_other:
  "i \<noteq> ce_newId env \<Longrightarrow> projects (snd (createFromAi s env params)) i = projects s i"
  by (simp add: createFromAi_def Let_def split: option.splits sum.splits)

lemma createFromAi_new:
  "projects (snd (createFromAi s env params)) (ce_newId env) \<noteq> projects s (ce_newId env) \<Longrightarrow>
   map_option status (projects (snd (createFromAi s env params)) (ce_newId env)) = Some queued"
  by (auto simp add: createFromAi_def Let_def split: option.splits sum.splits if_splits)

lemma uploadTemplate_projects:
  "projects (snd (uploadTemplate s z newId nm file)) = projects s"
  by (simp add: uploadTemplate_def split: sum.splits)

lemma handle_status:
  assumes "projects s pid = Some p" and "newProjectId r \<noteq> Some pid"
  shows "map_option status (projects (handle z s r) pid) =
     Some (if (\<exists>now. r = Cancel (ownerId p) pid now) \<and> status p \<in> {queued, running} then failed
           else if r = Rebuild (ownerId p) pid then queued
           else status p)"
proof (cases r)
  case (FromTemplate newId owner tid nm desc assets)
  then show ?thesis
    using assms createFromTemplate_other [of pid newId s owner tid nm desc assets]
    by (simp add: handle_def newProjectId_def)
next
  case (AiCreate env params)
  then show ?thesis
    using assms createFromAi_other [of pid env s params]
    by (simp add: handle_def newProjectId_def)
next
  case (UpdateProject owner i dto)
  then show ?thesis
    using update_status [OF assms(1), of owner i dto] by (simp add: handle_def)
next
  case (Rebuild owner i)
  then show ?thesis
    using rebuild_status [OF assms(1), of owner i] by (auto simp add: handle_def)
next
  case (Cancel owner i now)
  then show ?thesis
    using cancelBuild_status [OF assms(1), of owner i now] by (auto simp add: handle_def)
next
  case (Media owner i img shots vid)
  then show ?thesis
    using attachMedia_status [OF assms(1), of owner i img shots vid] by (simp add: handle_def)
next
  case (AiGenerate owner i ow hm res)
  then show ?thesis
    using generateAiMetadata_status [OF assms(1), of owner i ow hm res] by (simp add: handle_def)
next
  case (UploadTemplate newId nm upload)
  then show ?thesis
    using assms(1) by (simp add: handle_def uploadTemplate_projects)
qed

lemma handle_new:
  assumes "newProjectId r = Some newId" and "projects (handle z s r) newId \<noteq> projects s newId"
  shows "map_option status (projects (handle z s r) newId) = Some queued"
proof (cases r)
  case (FromTemplate n owner tid nm desc assets)
  then show ?thesis
    using assms createFromTemplate_new [of s newId owner tid nm desc assets]
    by (simp add: handle_def newProjectId_def)
next
  case (AiCreate env params)
  then show ?thesis
    using assms createFromAi_new [of s env params]
    by (simp add: handle_def newProjectId_def)
qed (use assms in \<open>simp_all add: newProjectId_def\<close>)


text \<open>A build run leaves the templates, their archives and the other jobs as they are.\<close>

lemma step_keeps:
  assumes "\<And>b. Q (bs_service (f b)) = Q (bs_service b)"
  shows "Q (bs_service (step f b)) = Q (bs_service b)"
  by (simp add: step_def assms)

lemma awaitUnity_stores:
  "projects (bs_service (awaitUnity env pid run n bs)) = projects (bs_service bs)"
  "templates (bs_service (awaitUnity env pid run n bs)) = templates (bs_service bs)"
  "templateFiles (bs_service (awaitUnity env pid run n bs)) = templateFiles (bs_service bs)"
  by (simp_all add: awaitUnity_def case_prod_beta split: sum.splits)

lemma captureMedia_stores:
  "projects (bs_service (captureMedia env pid bs)) = projects (bs_service bs)"
  "templates (bs_service (captureMedia env pid bs)) = templates (bs_service bs)"
  "templateFiles (bs_service (captureMedia env pid bs)) = templateFiles (bs_service bs)"
  by (simp_all add: captureMedia_def awaitUnity_stores split: option.splits)

lemma libraryCacheSave_stores:
  "projects (bs_service (libraryCacheSave env bs)) = projects (bs_service bs)"
  "templates (bs_service (libraryCacheSave env bs)) = templates (bs_service bs)"
  "templateFiles (bs_service (libraryCacheSave env bs)) = templateFiles (bs_service bs)"
  by (simp_all add: libraryCacheSave_def Let_def)

lemma tryBlock_stores:
  "projects (bs_service (tryBlock env pid bs)) = projects (bs_service bs)"
  "templates (bs_service (tryBlock env pid bs)) = templates (bs_service bs)"
  "templateFiles (bs_service (tryBlock env pid bs)) = templateFiles (bs_service bs)"
  unfolding tryBlock_def comp_apply
  by (simp_all add: step_keeps [where Q = projects] step_keeps [where Q = templates]
      step_keeps [where Q = templateFiles] awaitUnity_stores captureMedia_stores
      libraryCacheSave_stores unityBuild_def prepareSandbox_frame)

lemma runBuild_stores:
  "templates (snd (runBuild s env pid)) = templates s"
  "templateFiles (snd (runBuild s env pid)) = templateFiles s"
  "i \<noteq> pid \<Longrightarrow> projects (snd (runBuild s env pid)) i = projects s i"
  by (simp_all add: runBuild_def Let_def tryBlock_stores split: option.splits)

lemma runBuild_saves:
  assumes "projects s pid = Some p"
  shows "mkdtempError env \<noteq> None \<Longrightarrow> map status (fst (runBuild s env pid)) = [running]"
    and "mkdtempError env = None \<Longrightarrow>
           map status (fst (runBuild s env pid)) \<in> {[running, ready], [running, failed]}"
    and "projects (snd (runBuild s env pid)) pid = Some (last (fst (runBuild s env pid)))"
proof -
  show "mkdtempError env \<noteq> None \<Longrightarrow> map status (fst (runBuild s env pid)) = [running]"
    by (simp add: runBuild_found [OF assms])
  show "mkdtempError env = None \<Longrightarrow>
           map status (fst (runBuild s env pid)) \<in> {[running, ready], [running, failed]}"
    using finalDocument_status [of env env pid]
    by (auto simp add: runBuild_found [OF assms])
  show "projects (snd (runBuild s env pid)) pid = Some (last (fst (runBuild s env pid)))"
    using assms by (simp add: runBuild_def Let_def split: option.splits)
qed

text \<open>
  Claim C3. The transitions of the job status, for a job \<open>pid\<close> that exists. A build run
  saves the job as \<open>running\<close>, whatever its status was, and then once more, as \<open>ready\<close> or
  as \<open>failed\<close>, unless creating the work directory failed, in which case the job is left
  \<open>running\<close>; the run of another job's build does not touch it. A request changes its status
  only when it is a cancel by its owner while it is \<open>queued\<close> or \<open>running\<close>, which makes it
  \<open>failed\<close> with the error \<open>Cancelled by user\<close>, or a rebuild by its owner, which makes it
  \<open>queued\<close> whatever its status was; every other request (of another caller, for another
  job, an update, new media, new metadata, a new project or template) leaves the status as
  it is, and a document that a request adds is \<open>queued\<close>.
\<close>

theorem job_transitions:
  assumes "projects s pid = Some p"
  shows "(mkdtempError env \<noteq> None \<longrightarrow> map status (fst (runBuild s env pid)) = [running])
       \<and> (mkdtempError env = None \<longrightarrow>
            map status (fst (runBuild s env pid)) \<in> {[running, ready], [running, failed]})
       \<and> projects (snd (runBuild s env pid)) pid = Some (last (fst (runBuild s env pid)))
       \<and> (other \<noteq> pid \<longrightarrow> projects (snd (runBuild s env other)) pid = Some p)
       \<and> (newProjectId r \<noteq> Some pid \<longrightarrow>
            map_option status (projects (handle zipEntries s r) pid) =
              Some (if (\<exists>now. r = Cancel (ownerId p) pid now) \<and> status p \<in> {queued, running} then failed
                    else if r = Rebuild (ownerId p) pid then queued
                    else status p))
       \<and> (status p \<in> {queued, running} \<longrightarrow>
            map_option error (projects (handle zipEntries s (Cancel (ownerId p) pid now)) pid)
              = Some (Some ''Cancelled by user''))
       \<and> (newProjectId r = Some newId \<and> projects (handle zipEntries s r) newId \<noteq> projects s newId \<longrightarrow>
            map_option status (projects (handle zipEntries s r) newId) = Some queued)"
proof (intro conjI impI)
  show "mkdtempError env \<noteq> None \<Longrightarrow> map status (fst (runBuild s env pid)) = [running]"
    by (rule runBuild_saves(1) [OF assms])
  show "mkdtempError env = None \<Longrightarrow>
      map status (fst (runBuild s env pid)) \<in> {[running, ready], [running, failed]}"
    by (rule runBuild_saves(2) [OF assms])
  show "projects (snd (runBuild s env pid)) pid = Some (last (fst (runBuild s env pid)))"
    by (rule runBuild_saves(3) [OF assms])
  show "other \<noteq> pid \<Longrightarrow> projects (snd (runBuild s env other)) pid = Some p"
    using runBuild_stores(3) [of pid other s env] assms by simp
  show "newProjectId r \<noteq> Some pid \<Longrightarrow>
      map_option status (projects (handle zipEntries s r) pid) =
        Some (if (\<exists>now. r = Cancel (ownerId p) pid now) \<and> status p \<in> {queued, running} then failed
              else if r = Rebuild (ownerId p) pid then queued
              else status p)"
    by (rule handle_status [OF assms])
  show "status p \<in> {queued, running} \<Longrightarrow>
      map_option error (projects (handle zipEntries s (Cancel (ownerId p) pid now)) pid)
        = Some (Some ''Cancelled by user'')"
    using cancelBuild_found [OF assms refl, of now] by (auto simp add: handle_def)
  show "newProjectId r = Some newId \<and> projects (handle zipEntries s r) newId \<noteq> projects s newId \<Longrightarrow>
      map_option status (projects (handle zipEntries s r) newId) = Some queued"
    using handle_new [of r newId zipEntries s] by simp
qed


text \<open>
  The sample job, queued: a build whose archive cannot be opened, a build that gets no work
  directory, a cancel and a rebuild by the owner, an update, a cancel by another caller, and
  a request for a second project.
\<close>

theorem job_transitions_witness:
  "map status (fst (runBuild (sampleService (sampleProject\<lparr>status := queued\<rparr>)) badArchiveEnv ''p1''))
     \<in> {[running, ready], [running, failed]}
   \<and> map status (fst (runBuild (sampleService (sampleProject\<lparr>status := queued\<rparr>))
                        (sampleEnv\<lparr>mkdtempError := Some ''ENOSPC''\<rparr>) ''p1'')) = [running]
   \<and> map_option status (projects (handle oneEntry (sampleService (sampleProject\<lparr>status := queued\<rparr>))
        (Cancel ''u1'' ''p1'' 5)) ''p1'') = Some failed
   \<and> map_option error (projects (handle oneEntry (sampleService (sampleProject\<lparr>status := queued\<rparr>))
        (Cancel ''u1'' ''p1'' 5)) ''p1'') = Some (Some ''Cancelled by user'')
   \<and> map_option status (projects (handle oneEntry (sampleService (sampleProject\<lparr>status := queued\<rparr>))
        (Rebuild ''u1'' ''p1'')) ''p1'') = Some queued
   \<and> map_option status (projects (handle oneEntry (sampleService (sampleProject\<lparr>status := queued\<rparr>))
        (UpdateProject ''u1'' ''p1'' sampleDto)) ''p1'') = Some queued
   \<and> map_option status (projects (handle oneEntry (sampleService (sampleProject\<lparr>status := queued\<rparr>))
        (Cancel ''u2'' ''p1'' 5)) ''p1'') = Some queued
   \<and> map_option status (projects (handle oneEntry (sampleService (sampleProject\<lparr>status := queued\<rparr>))
        (FromTemplate ''p2'' ''u1'' ''t1'' ''Game'' None None)) ''p2'') = Some queued"
proof -
  let ?q = "sampleProject\<lparr>status := queued\<rparr>"
  let ?S = "sampleService ?q"
  let ?new = "FromTemplate ''p2'' ''u1'' ''t1'' ''Game'' None None"
  have o: "ownerId ?q = ''u1''" "status ?q = queued"
    by (simp_all add: sampleProject_def)
  have e: "mkdtempError badArchiveEnv = None"
    by (simp add: badArchiveEnv_def sampleEnv_def)
  have n: "newProjectId (Cancel a b c) = None" "newProjectId (Rebuild a b) = None"
    "newProjectId (UpdateProject a b d) = None" "newProjectId ?new = Some ''p2''" for a b c d
    by (simp_all add: newProjectId_def)
  have c: "projects (handle oneEntry ?S ?new) ''p2'' \<noteq> projects ?S ''p2''"
    by (simp add: handle_def createFromTemplate_def sampleService_def Let_def)
  note t = job_transitions [OF sample_found(1) [of ?q]]
  show ?thesis
    using t [where env = badArchiveEnv] t [where env = "sampleEnv\<lparr>mkdtempError := Some ''ENOSPC''\<rparr>"]
      t [where r = "Cancel ''u1'' ''p1'' 5" and zipEntries = oneEntry and now = 5]
      t [where r = "Rebuild ''u1'' ''p1''" and zipEntries = oneEntry]
      t [where r = "UpdateProject ''u1'' ''p1'' sampleDto" and zipEntries = oneEntry]
      t [where r = "Cancel ''u2'' ''p1'' 5" and zipEntries = oneEntry]
      t [where r = ?new and zipEntries = oneEntry and newId = "''p2''"]
    by (simp add: o e n c)
qed

text \<open>A rebuild of a job that is \<open>running\<close> is accepted and moves it back to \<open>queued\<close>.\<close>

theorem rebuild_from_running_counterexample:
  "map_option status
     (projects (snd (rebuild (sampleService (sampleProject\<lparr>status := running\<rparr>)) ''u1'' ''p1'')) ''p1'')
   = Some queued"
  by (simp add: rebuild_def sampleService_def sampleProject_def Let_def)

text \<open>Only the template upload stores an archive, and only one that passed the check.\<close>

lemma request_templateFiles:
  "templateFiles (snd (createFromTemplate s newId owner tid nm desc assets)) = templateFiles s"
  "templateFiles (snd (createFromAi s aiEnv params)) = templateFiles s"
  "templateFiles (snd (update s owner pid dto)) = templateFiles s"
  "templateFiles (snd (rebuild s owner pid)) = templateFiles s"
  "templateFiles (snd (cancelBuild s owner pid now)) = templateFiles s"
  "templateFiles (snd (attachMedia s owner pid img shots vid)) = templateFiles s"
  "templateFiles (snd (generateAiMetadata s owner pid ow hm res)) = templateFiles s"
  by (simp_all add: createFromTemplate_def createFromAi_def update_def rebuild_def cancelBuild_def
      attachMedia_def generateAiMetadata_def Let_def split: option.splits sum.splits)

lemma uploadTemplate_templateFiles:
  assumes "templateFiles (snd (uploadTemplate s z newId nm upload)) k = Some buf"
  shows "templateFiles s k = Some buf \<or> acceptedArchive z buf"
proof (cases "checkArchive z upload")
  case (Inl e)
  then show ?thesis using assms by (simp add: uploadTemplate_def)
next
  case (Inr u)
  then obtain b where b: "upload = Some b"
    by (cases upload) (simp_all add: checkArchive_def)
  with Inr have "acceptedArchive z b"
    by (simp add: acceptedArchive_def)
  then show ?thesis
    using assms Inr b by (auto simp add: uploadTemplate_def split: if_splits)
qed

lemma handle_templateFiles:
  assumes "templateFiles (handle z s r) k = Some buf"
  shows "templateFiles s k = Some buf \<or> acceptedArchive z buf"
proof (cases r)
  case (UploadTemplate newId nm upload)
  then show ?thesis
    using assms uploadTemplate_templateFiles [of s z newId nm upload k buf] by (simp add: handle_def)
qed (use assms in \<open>simp_all add: handle_def request_templateFiles\<close>)

lemma reachable_archives:
  assumes "reachable z s" and "templateFiles s k = Some buf"
  shows "acceptedArchive z buf"
  using assms
proof (induction rule: reachable.induct)
  case start
  then show ?case by (simp add: emptyService_def)
next
  case (request s r)
  then show ?case using handle_templateFiles [of z s r k buf] by auto
next
  case (build s env projectId)
  then show ?case by (simp add: runBuild_stores)
qed

lemma acceptedArchive_iff:
  "acceptedArchive z buf \<longleftrightarrow>
     4 \<le> length buf \<and> buf ! 0 = 0x50 \<and> buf ! 1 = 0x4B \<and> (\<exists>entries. z buf = Some entries \<and> entries \<noteq> [])"
  by (auto simp add: acceptedArchive_def checkArchive_def split: option.splits)

text \<open>
  Claim C5. An archive reaches the service with the template upload, and that is where it
  is checked, before anything else is done: \<open>uploadTemplate\<close> rejects a missing file, a
  buffer shorter than four bytes or not starting with the bytes \<open>0x50 0x4B\<close>, an archive
  that cannot be opened and an archive without entries with a \<open>BadRequestException\<close>, and
  leaves the service as it was: no template, no archive, no job, no build. As the upload is
  the only operation that stores an archive, in every state that the service can reach every
  stored archive starts with the magic bytes and has at least one entry: there is no job whose
  template archive fails the check, so none that reaches \<open>running\<close>.
\<close>

theorem archive_checked_at_upload:
  "((upload = None \<or> (\<exists>buf. upload = Some buf \<and>
        (length buf < 4 \<or> buf ! 0 \<noteq> 0x50 \<or> buf ! 1 \<noteq> 0x4B \<or> zipEntries buf = None \<or> zipEntries buf = Some [])))
     \<longrightarrow> (\<exists>msg. uploadTemplate s zipEntries newId nm upload = (Inl (BadRequestException msg), s)))
   \<and> (reachable zipEntries s' \<and> projects s' pid = Some p \<and> templates s' (templateId p) = Some t
        \<and> templateFiles s' (storageKey t) = Some stored
     \<longrightarrow> 4 \<le> length stored \<and> stored ! 0 = 0x50 \<and> stored ! 1 = 0x4B
         \<and> (\<exists>entries. zipEntries stored = Some entries \<and> entries \<noteq> []))
   \<and> (reachable zipEntries s' \<and> templateFiles s' key = Some stored
     \<longrightarrow> 4 \<le> length stored \<and> stored ! 0 = 0x50 \<and> stored ! 1 = 0x4B
         \<and> (\<exists>entries. zipEntries stored = Some entries \<and> entries \<noteq> []))"
proof (intro conjI impI)
  assume "upload = None \<or> (\<exists>buf. upload = Some buf \<and>
        (length buf < 4 \<or> buf ! 0 \<noteq> 0x50 \<or> buf ! 1 \<noteq> 0x4B \<or> zipEntries buf = None \<or> zipEntries buf = Some []))"
  from checkArchive_rejects [OF this]
  show "\<exists>msg. uploadTemplate s zipEntries newId nm upload = (Inl (BadRequestException msg), s)"
    by (auto simp add: uploadTemplate_def)
next
  assume "reachable zipEntries s' \<and> projects s' pid = Some p \<and> templates s' (templateId p) = Some t
        \<and> templateFiles s' (storageKey t) = Some stored"
  then have "acceptedArchive zipEntries stored"
    using reachable_archives [of zipEntries s' "storageKey t" stored] by simp
  then show "4 \<le> length stored" "stored ! 0 = 0x50" "stored ! 1 = 0x4B"
    "\<exists>entries. zipEntries stored = Some entries \<and> entries \<noteq> []"
    by (simp_all add: acceptedArchive_iff)
next
  assume "reachable zipEntries s' \<and> templateFiles s' key = Some stored"
  then have "acceptedArchive zipEntries stored"
    using reachable_archives [of zipEntries s' key stored] by simp
  then show "4 \<le> length stored" "stored ! 0 = 0x50" "stored ! 1 = 0x4B"
    "\<exists>entries. zipEntries stored = Some entries \<and> entries \<noteq> []"
    by (simp_all add: acceptedArchive_iff)
qed

text \<open>
  An upload of four bytes that are not a zip header, refused, after a good upload and a
  build request for it.
\<close>

theorem archive_checked_at_upload_witness:
  "uploadTemplate afterRequest oneEntry ''t2'' ''Tpl'' (Some [0x00, 0x01, 0x02, 0x03])
     = (Inl (BadRequestException ''Invalid zip file. Expected a .zip archive.''), afterRequest)
   \<and> reachable oneEntry afterRequest
   \<and> map_option status (projects afterRequest ''p1'') = Some queued
   \<and> map_option templateId (projects afterRequest ''p1'') = Some ''t1''
   \<and> map_option storageKey (templates afterRequest ''t1'') = Some ''t1.zip''
   \<and> templateFiles afterRequest ''t1.zip'' = Some [0x50, 0x4B, 0x03, 0x04]
   \<and> oneEntry [0x50, 0x4B, 0x03, 0x04] = Some [''Assets/'']"
proof -
  let ?f = "Some [0x00, 0x01, 0x02, 0x03 :: 8 word]"
  have h1: "?f = None \<or> (\<exists>buf. ?f = Some buf \<and>
        (length buf < 4 \<or> buf ! 0 \<noteq> 0x50 \<or> buf ! 1 \<noteq> 0x4B \<or> oneEntry buf = None \<or> oneEntry buf = Some []))"
    by simp
  have u: "checkArchive oneEntry ?f = Inl (BadRequestException ''Invalid zip file. Expected a .zip archive.'')"
    by (simp add: checkArchive_def)
  have r: "reachable oneEntry afterRequest"
    unfolding afterRequest_def afterUpload_def
    by (intro reachable.request reachable.start)
  have up: "afterUpload = emptyService\<lparr>templates := [''t1'' \<mapsto> \<lparr>tpl_name = ''Runner'', isPublic = True, storageKey = ''t1.zip''\<rparr>],
      templateFiles := [''t1.zip'' \<mapsto> [0x50, 0x4B, 0x03, 0x04]]\<rparr>"
    by (simp add: afterUpload_def handle_def uploadTemplate_def checkArchive_def oneEntry_def emptyService_def)
  have st: "map_option status (projects afterRequest ''p1'') = Some queued"
    "map_option templateId (projects afterRequest ''p1'') = Some ''t1''"
    "map_option storageKey (templates afterRequest ''t1'') = Some ''t1.zip''"
    "templateFiles afterRequest ''t1.zip'' = Some [0x50, 0x4B, 0x03, 0x04]"
    by (simp_all add: afterRequest_def up handle_def createFromTemplate_def emptyService_def Let_def)
  obtain p t where pt: "projects afterRequest ''p1'' = Some p" "templateId p = ''t1''"
    "templates afterRequest ''t1'' = Some t" "storageKey t = ''t1.zip''"
    using st by auto
  show ?thesis
    using archive_checked_at_upload [where upload = ?f and zipEntries = oneEntry and s = afterRequest
        and newId = "''t2''" and nm = "''Tpl''" and s' = afterRequest and pid = "''p1''" and p = p and t = t
        and stored = "[0x50, 0x4B, 0x03, 0x04]" and key = "''t1.zip''"]
      h1 u r st pt
    by (simp add: uploadTemplate_def oneEntry_def)
qed


lemma sandboxLibrary_None: "sandboxLibrary es = None \<longleftrightarrow> \<not> existsSync es ''Library''"
proof -
  have "find (\<lambda>e. entryName e = ''Library'') es = None \<longleftrightarrow> ''Library'' \<notin> set (map entryName es)"
    by (induction es) auto
  then show ?thesis
    by (auto simp add: sandboxLibrary_def existsSync_def split: option.splits fsnode.splits)
qed

lemma runResult_Inr: "runResult limit run = Inr u \<Longrightarrow> runOk limit run"
  by (auto simp add: runResult_def runOk_def onClose_def split: option.splits if_splits)

lemma observed_step:
  assumes "\<And>a b. observed a = observed b \<Longrightarrow> observed (f a) = observed (g b)"
    and "observed a = observed b"
  shows "observed (step f a) = observed (step g b)"
proof -
  have "bs_error a = bs_error b"
    using assms(2) by (simp add: observed_def)
  then show ?thesis
    using assms by (simp add: step_def)
qed

lemma runUnity_observed:
  "activeBuildProcesses (snd (runUnity s pid limit run)) = (activeBuildProcesses s)(pid := None)"
  "killed (snd (runUnity s pid limit run)) =
     (case spawnError run of Some e \<Rightarrow> killed s
      | None \<Rightarrow> if exceedsTimeout limit run then killed s @ [childProc run] else killed s)"
  "scheduled (snd (runUnity s pid limit run)) = scheduled s"
  by (simp_all add: runUnity_def Let_def split: option.splits)

lemma awaitUnity_observed:
  assumes "observed a = observed b" and "timeoutMsEnv env' = timeoutMsEnv env" and "stepMs env' = stepMs env"
  shows "observed (awaitUnity env' pid run n a) = observed (awaitUnity env pid run n b)"
proof -
  let ?l = "maxMs (timeoutMsEnv env)"
  obtain ra sa where ra: "runUnity (bs_service a) pid ?l run = (ra, sa)"
    by (cases "runUnity (bs_service a) pid ?l run")
  obtain rb sb where rb: "runUnity (bs_service b) pid ?l run = (rb, sb)"
    by (cases "runUnity (bs_service b) pid ?l run")
  have r: "ra = rb"
    using ra rb runUnity_result [of "bs_service a" pid ?l run] runUnity_result [of "bs_service b" pid ?l run]
    by simp
  have sa: "sa = snd (runUnity (bs_service a) pid ?l run)" and sb: "sb = snd (runUnity (bs_service b) pid ?l run)"
    using ra rb by simp_all
  have s: "projects sa = projects sb" "templates sa = templates sb" "templateFiles sa = templateFiles sb"
    "activeBuildProcesses sa = activeBuildProcesses sb" "killed sa = killed sb" "scheduled sa = scheduled sb"
    using assms(1) by (simp_all add: sa sb runUnity_observed observed_def split: option.splits)
  show ?thesis
    using assms s
    by (simp add: awaitUnity_def ra rb r observed_def endStep_def throw_def split: sum.splits)
qed

lemma steps_observed:
  assumes "observed a = observed b"
  shows "observed (loadTemplate (env\<lparr>restoreIo := r, saveIo := w\<rparr>) a) = observed (loadTemplate env b)"
    "observed (extractTemplate (env\<lparr>restoreIo := r, saveIo := w\<rparr>) a) = observed (extractTemplate env b)"
    "observed (ensureBurst (env\<lparr>restoreIo := r, saveIo := w\<rparr>) a) = observed (ensureBurst env b)"
    "observed (libraryCacheRestore (env\<lparr>restoreIo := r, saveIo := w\<rparr>) a) = observed (libraryCacheRestore env b)"
    "observed (fsStep (env\<lparr>restoreIo := r, saveIo := w\<rparr>) (injectScriptsError (env\<lparr>restoreIo := r, saveIo := w\<rparr>)) ''inject_build_script'' a)
       = observed (fsStep env (injectScriptsError env) ''inject_build_script'' b)"
    "observed (injectAiPatch (env\<lparr>restoreIo := r, saveIo := w\<rparr>) a) = observed (injectAiPatch env b)"
    "observed (injectAssets (env\<lparr>restoreIo := r, saveIo := w\<rparr>) a) = observed (injectAssets env b)"
    "observed (checkEditorPath (env\<lparr>restoreIo := r, saveIo := w\<rparr>) a) = observed (checkEditorPath env b)"
    "observed (fsAction (mkdirOutError (env\<lparr>restoreIo := r, saveIo := w\<rparr>)) a) = observed (fsAction (mkdirOutError env) b)"
    "observed (libraryCacheSave (env\<lparr>restoreIo := r, saveIo := w\<rparr>) a) = observed (libraryCacheSave env b)"
    "observed (uploadMedia (env\<lparr>restoreIo := r, saveIo := w\<rparr>) a) = observed (uploadMedia env b)"
    "observed (publishArtifact (env\<lparr>restoreIo := r, saveIo := w\<rparr>) pid a) = observed (publishArtifact env pid b)"
  using assms
  by (simp_all add: observed_def loadTemplate_def extractTemplate_def ensureBurst_def
      libraryCacheRestore_def fsStep_def injectAiPatch_def injectAssets_def checkEditorPath_def
      fsAction_def libraryCacheSave_def uploadMedia_def publishArtifact_def endStep_def throw_def Let_def
      split: option.splits sum.splits)

lemma runs_observed:
  assumes "observed a = observed b"
  shows "observed (unityBuild (env\<lparr>restoreIo := r, saveIo := w\<rparr>) pid a) = observed (unityBuild env pid b)"
    "observed (captureMedia (env\<lparr>restoreIo := r, saveIo := w\<rparr>) pid a) = observed (captureMedia env pid b)"
proof -
  have e: "timeoutMsEnv (env\<lparr>restoreIo := r, saveIo := w\<rparr>) = timeoutMsEnv env" "stepMs (env\<lparr>restoreIo := r, saveIo := w\<rparr>) = stepMs env"
    by simp_all
  show "observed (unityBuild (env\<lparr>restoreIo := r, saveIo := w\<rparr>) pid a) = observed (unityBuild env pid b)"
    using awaitUnity_observed [OF assms(1) e(1,2)] by (simp add: unityBuild_def)
  show "observed (captureMedia (env\<lparr>restoreIo := r, saveIo := w\<rparr>) pid a) = observed (captureMedia env pid b)"
    using awaitUnity_observed [OF assms(1) e(1,2)] assms(1)
    by (simp add: captureMedia_def observed_def split: option.splits)
qed

lemma tryBlock_observed:
  assumes "observed a = observed b"
  shows "observed (tryBlock (env\<lparr>restoreIo := r, saveIo := w\<rparr>) pid a) = observed (tryBlock env pid b)"
  unfolding tryBlock_def prepareSandbox_def comp_apply
  by (intro observed_step steps_observed runs_observed refl assms | assumption)+


lemma finalDocument_observed:
  "observed a = observed b \<Longrightarrow> finalDocument (env\<lparr>restoreIo := r, saveIo := w\<rparr>) a = finalDocument env b"
  by (simp add: observed_def finalDocument_def finalTimings_def split: option.splits)

lemma runBuild_cache_independent:
  "fst (runBuild (s\<lparr>libraryCache := c\<rparr>) (env\<lparr>restoreIo := r, saveIo := w\<rparr>) pid) = fst (runBuild s env pid)"
proof (cases "projects s pid")
  case None
  then show ?thesis by (simp add: runBuild_def)
next
  case (Some p)
  let ?E = "env\<lparr>restoreIo := r, saveIo := w\<rparr>"
  let ?doc = "runningDocument env p"
  have doc: "runningDocument ?E p = ?doc"
    by (simp add: runningDocument_def)
  have f: "projects (s\<lparr>libraryCache := c\<rparr>) pid = Some p"
    using Some by simp
  have o: "observed (initialState ?E (s\<lparr>libraryCache := c, projects := (projects s)(pid \<mapsto> ?doc)\<rparr>) ?doc)
      = observed (initialState env (s\<lparr>projects := (projects s)(pid \<mapsto> ?doc)\<rparr>) ?doc)"
    by (simp add: observed_def initialState_def)
  show ?thesis
    using finalDocument_observed [OF tryBlock_observed [OF o, where r = r and w = w and pid = pid],
        where r = r and w = w]
    by (simp add: runBuild_found [OF Some] runBuild_found [OF f] doc)
qed

lemma tryBlock_cache_changed:
  assumes "libraryCache (bs_service (tryBlock env pid bs)) \<noteq> libraryCache (bs_service bs)"
  shows "runOk (maxMs (timeoutMsEnv env)) (buildRun env) \<and> runOk (maxMs (timeoutMsEnv env)) (captureRun env)"
proof -
  let ?l = "maxMs (timeoutMsEnv env)"
  define b where "b = prepareSandbox env bs"
  define b1 where "b1 = step (unityBuild env pid) b"
  define b2 where "b2 = step (captureMedia env pid) b1"
  define b3 where "b3 = step (libraryCacheSave env) b2"
  define b4 where "b4 = step (uploadMedia env) b3"
  have t: "tryBlock env pid bs = step (publishArtifact env pid) b4"
    by (simp add: tryBlock_after_prepare b_def b1_def b2_def b3_def b4_def)
  have c0: "libraryCache (bs_service b) = libraryCache (bs_service bs)"
    by (simp add: b_def prepareSandbox_frame)
  have c1: "libraryCache (bs_service b1) = libraryCache (bs_service b)"
    by (simp add: b1_def step_def unityBuild_def)
  have c2: "libraryCache (bs_service b2) = libraryCache (bs_service b1)"
    by (simp add: b2_def step_def)
  have c4: "libraryCache (bs_service b4) = libraryCache (bs_service b3)"
    by (simp add: b4_def step_def)
  have c5: "libraryCache (bs_service (tryBlock env pid bs)) = libraryCache (bs_service b4)"
    by (simp add: t step_def)
  from assms c0 c1 c2 c4 c5 have "b3 \<noteq> b2"
    by auto
  then have e2: "bs_error b2 = None"
    by (cases "bs_error b2") (simp_all add: b3_def step_def)
  then have e1: "bs_error b1 = None"
    unfolding b2_def by (rule step_error_back)
  have cap: "\<exists>u. runResult ?l (captureRun env) = Inr u"
    using e2 e1 by (auto simp add: b2_def step_None split: option.splits sum.splits)
  have bld: "\<exists>u. runResult ?l (buildRun env) = Inr u"
    using e1 by (auto simp add: b1_def step_def unityBuild_def split: if_splits sum.splits)
  from cap bld show ?thesis
    using runResult_Inr by blast
qed

lemma runBuild_cache_changed:
  assumes "libraryCache (snd (runBuild s env pid)) \<noteq> libraryCache s"
  shows "runOk (maxMs (timeoutMsEnv env)) (buildRun env) \<and> runOk (maxMs (timeoutMsEnv env)) (captureRun env)"
proof (cases "projects s pid")
  case None
  with assms show ?thesis by (simp add: runBuild_def)
next
  case (Some p)
  let ?s1 = "s\<lparr>projects := (projects s)(pid \<mapsto> runningDocument env p)\<rparr>"
  let ?bs = "initialState env ?s1 (runningDocument env p)"
  from assms Some have "libraryCache (bs_service (tryBlock env pid ?bs)) \<noteq> libraryCache (bs_service ?bs)"
    by (auto simp add: runBuild_def Let_def split: option.splits)
  then show ?thesis by (rule tryBlock_cache_changed)
qed

lemma libraryCacheRestore_library:
  "bs_library (libraryCacheRestore env bs) =
     (let cached = libraryCache (bs_service bs) (cacheKey (templateId (bs_project bs)))
      in if cached \<noteq> None \<and> \<not> existsSync (snd (bs_unityRoot bs)) ''Library''
         then (case restoreIo env of IoOk \<Rightarrow> cached | IoFailed left \<Rightarrow> left)
         else sandboxLibrary (snd (bs_unityRoot bs)))"
  using sandboxLibrary_None [of "snd (bs_unityRoot bs)"]
  by (auto simp add: libraryCacheRestore_def restoreLibrary_def restoreAttempted_def Let_def)

lemma libraryCacheSave_cache:
  "libraryCache (bs_service (libraryCacheSave env bs)) =
     (libraryCache (bs_service bs))(cacheKey (templateId (bs_project bs)) :=
        (if bs_library bs \<noteq> None then (case saveIo env of IoOk \<Rightarrow> bs_library bs | IoFailed left \<Rightarrow> left)
         else libraryCache (bs_service bs) (cacheKey (templateId (bs_project bs)))))"
  by (simp add: libraryCacheSave_def saveLibrary_def Let_def)

text \<open>
  Claim C9. The Library cache is best-effort. \<open>libraryCacheRestore\<close> copies the cache entry
  of the sanitized template key into the sandbox exactly when there is such an entry and the
  discovered root has no \<open>Library\<close> entry, and a failed copy leaves what it leaves without
  throwing; \<open>libraryCacheSave\<close> replaces the entry by the sandbox's Library when there is
  one, and a failed copy does not throw either. Over a whole \<open>runBuild\<close> the cache differs
  from what it was only if the primary build run (and the capture run after it) succeeded,
  and the documents that \<open>runBuild\<close> saves do not depend on the contents of the cache nor
  on the outcome of the two copies.
\<close>

theorem library_cache_best_effort:
  "bs_library (libraryCacheRestore env bs) =
     (let cached = libraryCache (bs_service bs) (cacheKey (templateId (bs_project bs)))
      in if cached \<noteq> None \<and> \<not> existsSync (snd (bs_unityRoot bs)) ''Library''
         then (case restoreIo env of IoOk \<Rightarrow> cached | IoFailed left \<Rightarrow> left)
         else sandboxLibrary (snd (bs_unityRoot bs)))
   \<and> bs_error (libraryCacheRestore env bs) = bs_error bs
   \<and> bs_error (libraryCacheSave env bs) = bs_error bs
   \<and> libraryCache (bs_service (libraryCacheSave env bs)) =
       (libraryCache (bs_service bs))(cacheKey (templateId (bs_project bs)) :=
          (if bs_library bs \<noteq> None then (case saveIo env of IoOk \<Rightarrow> bs_library bs | IoFailed left \<Rightarrow> left)
           else libraryCache (bs_service bs) (cacheKey (templateId (bs_project bs)))))
   \<and> (libraryCache (snd (runBuild s env pid)) \<noteq> libraryCache s \<longrightarrow>
        runOk (maxMs (timeoutMsEnv env)) (buildRun env) \<and> runOk (maxMs (timeoutMsEnv env)) (captureRun env))
   \<and> fst (runBuild (s\<lparr>libraryCache := c\<rparr>) (env\<lparr>restoreIo := r, saveIo := w\<rparr>) pid) = fst (runBuild s env pid)"
  using libraryCacheRestore_library [of env bs] libraryCacheSave_cache [of env bs]
    runBuild_cache_changed [of s env pid]
    runBuild_cache_independent [where s = s and c = c and env = env and r = r and w = w and pid = pid]
  by (simp add: libraryCacheRestore_def)


lemma awaitUnity_library [simp]:
  "bs_library (awaitUnity env pid run n bs) = libraryAfter run (bs_library bs)"
  by (simp add: awaitUnity_def split: prod.splits sum.splits)

text \<open>When both runs succeed the cache entry becomes what the runs made of the Library.\<close>

lemma tryBlock_success_cache:
  assumes prep: "prepared env (bs_service bs) (bs_project bs)" and ok: "bs_error bs = None"
    and arch: "archiveOutcome env (bs_service bs) (bs_project bs) = Some (Inr tree)"
    and bld: "runOk (maxMs (timeoutMsEnv env)) (buildRun env)"
    and mk: "mkdirMediaError env = None"
    and cap: "runOk (maxMs (timeoutMsEnv env)) (captureRun env)"
  shows "libraryCache (bs_service (tryBlock env pid bs)) =
     (let k = cacheKey (templateId (bs_project bs)); cached = libraryCache (bs_service bs) k
      in (libraryCache (bs_service bs))(k :=
           saveLibrary
             (libraryAfter (captureRun env) (libraryAfter (buildRun env)
                (restoreLibrary cached (sandboxLibrary (snd (findUnityRoot tree))) (restoreIo env))))
             cached (saveIo env)))"
proof -
  define b where "b = prepareSandbox env bs"
  define b1 where "b1 = step (unityBuild env pid) b"
  define b2 where "b2 = step (captureMedia env pid) b1"
  define b3 where "b3 = step (libraryCacheSave env) b2"
  define b4 where "b4 = step (uploadMedia env) b3"
  have t: "tryBlock env pid bs = step (publishArtifact env pid) b4"
    by (simp add: tryBlock_after_prepare b_def b1_def b2_def b3_def b4_def)
  have st: "bs_error b = None"
    "bs_library b = restoreLibrary (libraryCache (bs_service bs) (cacheKey (templateId (bs_project bs))))
                (sandboxLibrary (snd (findUnityRoot tree))) (restoreIo env)"
    using prepareSandbox_staged [OF prep ok] arch by (simp_all add: b_def)
  have fr: "bs_project b = bs_project bs" "bs_service b = bs_service bs"
    by (simp_all add: b_def prepareSandbox_frame)
  have s1: "bs_error b1 = None" "bs_library b1 = libraryAfter (buildRun env) (bs_library b)"
    "bs_project b1 = bs_project b" "libraryCache (bs_service b1) = libraryCache (bs_service b)"
    using st(1) runResult_ok [OF bld] by (simp_all add: b1_def step_None unityBuild_def)
  have s2: "bs_error b2 = None" "bs_library b2 = libraryAfter (captureRun env) (bs_library b1)"
    "bs_project b2 = bs_project b1" "libraryCache (bs_service b2) = libraryCache (bs_service b1)"
    using s1(1) runResult_ok [OF cap] mk by (simp_all add: b2_def step_None captureMedia_def)
  have s3: "libraryCache (bs_service b3) =
      (libraryCache (bs_service b2))(cacheKey (templateId (bs_project b2)) :=
         saveLibrary (bs_library b2) (libraryCache (bs_service b2) (cacheKey (templateId (bs_project b2)))) (saveIo env))"
    using s2(1) by (simp add: b3_def step_None libraryCacheSave_def Let_def)
  have s4: "libraryCache (bs_service b4) = libraryCache (bs_service b3)"
    by (simp add: b4_def step_def)
  have s5: "libraryCache (bs_service (tryBlock env pid bs)) = libraryCache (bs_service b4)"
    by (simp add: t step_def)
  show ?thesis
    by (simp add: s5 s4 s3 s2 s1 st fr Let_def)
qed

lemma runBuild_success_cache:
  assumes "projects s pid = Some p" and "mkdtempError env = None" and "prepared env s p"
    and "archiveOutcome env s p = Some (Inr tree)"
    and "runOk (maxMs (timeoutMsEnv env)) (buildRun env)"
    and "mkdirMediaError env = None"
    and "runOk (maxMs (timeoutMsEnv env)) (captureRun env)"
  shows "libraryCache (snd (runBuild s env pid)) =
     (let k = cacheKey (templateId p); cached = libraryCache s k
      in (libraryCache s)(k :=
           saveLibrary
             (libraryAfter (captureRun env) (libraryAfter (buildRun env)
                (restoreLibrary cached (sandboxLibrary (snd (findUnityRoot tree))) (restoreIo env))))
             cached (saveIo env)))"
proof -
  let ?s1 = "s\<lparr>projects := (projects s)(pid \<mapsto> runningDocument env p)\<rparr>"
  let ?bs = "initialState env ?s1 (runningDocument env p)"
  have "libraryCache (snd (runBuild s env pid)) = libraryCache (bs_service (tryBlock env pid ?bs))"
    using assms(1,2) by (simp add: runBuild_def Let_def)
  also have "\<dots> = (let k = cacheKey (templateId (bs_project ?bs)); cached = libraryCache (bs_service ?bs) k
      in (libraryCache (bs_service ?bs))(k :=
           saveLibrary
             (libraryAfter (captureRun env) (libraryAfter (buildRun env)
                (restoreLibrary cached (sandboxLibrary (snd (findUnityRoot tree))) (restoreIo env))))
             cached (saveIo env)))"
    by (rule tryBlock_success_cache) (simp_all add: assms)
  finally show ?thesis by simp
qed


lemma exitedRun_ok: "runOk 1200000 (exitedRun c 0 err)"
  by (simp add: runOk_def exitedRun_def exceedsTimeout_def)

lemma sample_first_build_cache:
  "libraryCache (snd (runBuild (sampleService (sampleProject\<lparr>status := queued\<rparr>)) sampleEnv ''p1''))
     = [''t1'' \<mapsto> [File ''ArtifactDB'']]"
proof -
  let ?q = "sampleProject\<lparr>status := queued\<rparr>"
  have k: "cacheKey (templateId sampleProject) = ''t1''"
    by (simp add: sampleProject_def cacheKey_def is_lower_az_def is_upper_az_def is_digit_def)
  have a: "archiveOutcome sampleEnv (sampleService ?q) ?q = Some (Inr wrappedTree)"
    by (simp add: archiveOutcome_def sampleService_def sampleEnv_def sampleProject_def)
  have t: "js_trim ''/opt/unity/Editor/Unity'' \<noteq> []"
    by code_simp
  have p: "prepared sampleEnv (sampleService ?q) ?q"
    using t by (simp add: prepared_def a) (simp add: sampleEnv_def sampleProject_def truthy_def)
  have r: "runOk (maxMs (timeoutMsEnv sampleEnv)) (buildRun sampleEnv)"
    "runOk (maxMs (timeoutMsEnv sampleEnv)) (captureRun sampleEnv)"
    using exitedRun_ok by (simp_all add: sampleEnv_limit) (simp_all add: sampleEnv_def)
  have m: "mkdtempError sampleEnv = None" "mkdirMediaError sampleEnv = None"
    by (simp_all add: sampleEnv_def)
  have l: "libraryAfter (captureRun sampleEnv) x = Some [File ''ArtifactDB'']" for x
    by (simp add: sampleEnv_def exitedRun_def)
  have c: "libraryCache (sampleService ?q) = Map.empty" "saveIo sampleEnv = IoOk"
    by (simp_all add: sampleService_def sampleEnv_def)
  show ?thesis
    using runBuild_success_cache [OF sample_found(1) m(1) p a r(1) m(2) r(2)]
    by (simp add: k l c saveLibrary_def)
qed

text \<open>
  The first successful build of the sample project fills the empty cache; a failed restore
  throws nothing; a filled cache with failing copies saves the same documents.
\<close>

theorem library_cache_best_effort_witness:
  "libraryCache (snd (runBuild (sampleService (sampleProject\<lparr>status := queued\<rparr>)) sampleEnv ''p1''))
     \<noteq> libraryCache (sampleService (sampleProject\<lparr>status := queued\<rparr>))
   \<and> runOk (maxMs (timeoutMsEnv sampleEnv)) (buildRun sampleEnv)
   \<and> runOk (maxMs (timeoutMsEnv sampleEnv)) (captureRun sampleEnv)
   \<and> bs_library (libraryCacheRestore (sampleEnv\<lparr>restoreIo := IoFailed None\<rparr>)
        ((initialState sampleEnv cachedService sampleProject)\<lparr>bs_unityRoot := ([''wrap'', ''game''], unityProject)\<rparr>))
       = None
   \<and> bs_error (libraryCacheRestore (sampleEnv\<lparr>restoreIo := IoFailed None\<rparr>)
        ((initialState sampleEnv cachedService sampleProject)\<lparr>bs_unityRoot := ([''wrap'', ''game''], unityProject)\<rparr>))
       = None
   \<and> fst (runBuild cachedService (sampleEnv\<lparr>restoreIo := IoFailed None, saveIo := IoFailed None\<rparr>) ''p1'')
       = fst (runBuild (sampleService (sampleProject\<lparr>status := queued\<rparr>)) sampleEnv ''p1'')"
proof -
  let ?q = "sampleProject\<lparr>status := queued\<rparr>"
  let ?bs = "(initialState sampleEnv cachedService sampleProject)\<lparr>bs_unityRoot := ([''wrap'', ''game''], unityProject)\<rparr>"
  have h: "libraryCache (snd (runBuild (sampleService ?q) sampleEnv ''p1'')) \<noteq> libraryCache (sampleService ?q)"
  proof
    assume "libraryCache (snd (runBuild (sampleService ?q) sampleEnv ''p1'')) = libraryCache (sampleService ?q)"
    then have "[''t1'' \<mapsto> [File ''ArtifactDB'']] ''t1'' = libraryCache (sampleService ?q) ''t1''"
      unfolding sample_first_build_cache by simp
    then have "[''t1'' \<mapsto> [File ''ArtifactDB'']] ''t1'' = (Map.empty :: string \<rightharpoonup> fsnode list) ''t1''"
      by (simp add: sampleService_def)
    then show False by simp
  qed
  have k: "cacheKey (templateId sampleProject) = ''t1''"
    by (simp add: sampleProject_def cacheKey_def is_lower_az_def is_upper_az_def is_digit_def)
  have c: "libraryCache (bs_service ?bs) (cacheKey (templateId (bs_project ?bs))) = Some [File ''ArtifactDB'']"
    by (simp add: initialState_def k) (simp add: cachedService_def)
  have x: "\<not> existsSync (snd (bs_unityRoot ?bs)) ''Library''"
    by (simp add: unityProject_def existsSync_def)
  have e: "bs_error ?bs = None"
    by (simp add: initialState_def)
  have s: "(sampleService ?q)\<lparr>libraryCache := [''t1'' \<mapsto> [File ''ArtifactDB'']]\<rparr> = cachedService"
    by (simp add: cachedService_def)
  show ?thesis
    using library_cache_best_effort [where env = "sampleEnv\<lparr>restoreIo := IoFailed None\<rparr>" and bs = ?bs
        and s = "sampleService ?q" and pid = "''p1''" and c = "[''t1'' \<mapsto> [File ''ArtifactDB'']]"
        and r = "IoFailed None" and w = "IoFailed None"]
      library_cache_best_effort [where env = sampleEnv and bs = ?bs
        and s = "sampleService ?q" and pid = "''p1''" and c = "[''t1'' \<mapsto> [File ''ArtifactDB'']]"
        and r = "IoFailed None" and w = "IoFailed None"]
      h c x e s
    by (simp add: Let_def)
qed

end
